theory Spec2Isabelle
  imports Complex_Main
begin

section \<open>Numbers, vectors and transforms\<close>

text \<open>
  The plugin computes in single-precision \<^verbatim>\<open>float\<close>. The embedding reads a float as a
  real number: rounding, overflow and the special values are not part of the model
  (the one place where the source tests for NaN, the rotation angle of
  \<^verbatim>\<open>npRotatePivotVertices\<close>, carries the NaN explicitly). The coordinates and
  weights of the concrete inputs used below are dyadic rationals on which the float
  computation is exact, and the tolerances are compared with values at a margin that
  rounding does not reach.

  The vector, matrix and quaternion types and their helpers come from a header
  (\<^verbatim>\<open>pch.h\<close> / \<^verbatim>\<open>VertexTweaker.h\<close>) that is not among the sources; the definitions of this
  section stand in for it.
\<close>

type_synonym float = real

datatype float2 = Float2 (x2: float) (y2: float)

datatype float3 = Float3 (x3: float) (y3: float) (z3: float)

datatype float4 = Float4 (x4: float) (y4: float) (z4: float) (w4: float)

datatype float4x4 = Float4x4 (row0: float4) (row1: float4) (row2: float4) (row3: float4)

datatype quatf = Quatf (qx: float) (qy: float) (qz: float) (qw: float)

text \<open>Modelled from the spec: the constants of \<^verbatim>\<open>cfloat\<close> for IEEE single precision;
  \<^verbatim>\<open>FLT_MIN\<close> is the smallest positive normal float (about 1.18e-38), \<^verbatim>\<open>FLT_MAX\<close> the
  largest finite one (about 3.4e38).\<close>

definition FLT_MIN :: float where
  "FLT_MIN = 1 / 2 ^ 126"

definition FLT_MAX :: float where
  "FLT_MAX = (2 ^ 24 - 1) * 2 ^ 104"

text \<open>\<^verbatim>\<open>#define npEpsilon 0.0000001f\<close>\<close>

definition npEpsilon :: float where
  "npEpsilon = 1 / 10000000"

text \<open>Modelled from the spec: \<^verbatim>\<open>clamp(old + delta, 0, 1)\<close>, the saturation to [0,1]
  (\<^verbatim>\<open>clamp01\<close> of the missing header).\<close>

definition clamp01 :: "float \<Rightarrow> float" where
  "clamp01 v = min (max v 0) 1"

text \<open>Modelled from the spec: "within numeric tolerance" / "ties within floating-point
  epsilon" (\<^verbatim>\<open>near_equal\<close> of the missing header, with its tolerance as third argument).\<close>

definition near_equal :: "float \<Rightarrow> float \<Rightarrow> float \<Rightarrow> bool" where
  "near_equal a b eps = (\<bar>a - b\<bar> < eps)"

text \<open>The C++ conversion \<^verbatim>\<open>int(f)\<close> of a float truncates towards zero.\<close>

definition float_to_int :: "float \<Rightarrow> int" where
  "float_to_int f = (if 0 \<le> f then \<lfloor>f\<rfloor> else \<lceil>f\<rceil>)"

text \<open>Modelled from the spec: component-wise vector arithmetic of the missing header
  (\<^verbatim>\<open>operator+\<close>, \<^verbatim>\<open>operator-\<close>, \<^verbatim>\<open>operator*\<close> by a scalar, \<^verbatim>\<open>dot\<close>, \<^verbatim>\<open>length_sq\<close>,
  \<^verbatim>\<open>length\<close>, \<^verbatim>\<open>normalize\<close>, \<^verbatim>\<open>lerp\<close>).\<close>

fun add3 :: "float3 \<Rightarrow> float3 \<Rightarrow> float3" where
  "add3 (Float3 a b c) (Float3 d e f) = Float3 (a + d) (b + e) (c + f)"

fun sub3 :: "float3 \<Rightarrow> float3 \<Rightarrow> float3" where
  "sub3 (Float3 a b c) (Float3 d e f) = Float3 (a - d) (b - e) (c - f)"

fun scale3 :: "float3 \<Rightarrow> float \<Rightarrow> float3" where
  "scale3 (Float3 a b c) s = Float3 (a * s) (b * s) (c * s)"

fun neg3 :: "float3 \<Rightarrow> float3" where
  "neg3 (Float3 a b c) = Float3 (- a) (- b) (- c)"

fun dot3 :: "float3 \<Rightarrow> float3 \<Rightarrow> float" where
  "dot3 (Float3 a b c) (Float3 d e f) = a * d + b * e + c * f"

definition zero3 :: float3 where
  "zero3 = Float3 0 0 0"

definition length_sq3 :: "float3 \<Rightarrow> float" where
  "length_sq3 v = dot3 v v"

definition length3 :: "float3 \<Rightarrow> float" where
  "length3 v = sqrt (length_sq3 v)"

definition normalize3 :: "float3 \<Rightarrow> float3" where
  "normalize3 v = scale3 v (1 / length3 v)"

definition lerp3 :: "float3 \<Rightarrow> float3 \<Rightarrow> float \<Rightarrow> float3" where
  "lerp3 a b t = add3 (scale3 a (1 - t)) (scale3 b t)"

fun sub2 :: "float2 \<Rightarrow> float2 \<Rightarrow> float2" where
  "sub2 (Float2 a b) (Float2 c d) = Float2 (a - c) (b - d)"

fun add2 :: "float2 \<Rightarrow> float2 \<Rightarrow> float2" where
  "add2 (Float2 a b) (Float2 c d) = Float2 (a + c) (b + d)"

fun scale2 :: "float2 \<Rightarrow> float \<Rightarrow> float2" where
  "scale2 (Float2 a b) s = Float2 (a * s) (b * s)"

fun div2 :: "float2 \<Rightarrow> float \<Rightarrow> float2" where
  "div2 (Float2 a b) s = Float2 (a / s) (b / s)"

fun length2 :: "float2 \<Rightarrow> float" where
  "length2 (Float2 a b) = sqrt (a * a + b * b)"

fun xyz4 :: "float4 \<Rightarrow> float3" where
  "xyz4 (Float4 a b c d) = Float3 a b c"

fun set_xyz4 :: "float4 \<Rightarrow> float3 \<Rightarrow> float4" where
  "set_xyz4 (Float4 a b c d) (Float3 e f g) = Float4 e f g d"

definition zero4 :: float4 where
  "zero4 = Float4 0 0 0 0"

text \<open>Modelled from the spec: 4x4 transforms of the missing header. A point is a row
  vector: \<^verbatim>\<open>mul_p\<close> transforms a position (translation in the fourth row), \<^verbatim>\<open>mul_v\<close> a
  direction, \<^verbatim>\<open>mul4\<close> gives the homogeneous clip-space point, \<^verbatim>\<open>a * b\<close> applies \<^verbatim>\<open>a\<close>
  first, and \<^verbatim>\<open>invert\<close> is the matrix inverse (adjugate over determinant).\<close>

definition identity44 :: float4x4 where
  "identity44 = Float4x4 (Float4 1 0 0 0) (Float4 0 1 0 0) (Float4 0 0 1 0) (Float4 0 0 0 1)"

definition mul_p :: "float4x4 \<Rightarrow> float3 \<Rightarrow> float3" where
  "mul_p m v =
     (case m of Float4x4 (Float4 a00 a01 a02 a03) (Float4 a10 a11 a12 a13)
                         (Float4 a20 a21 a22 a23) (Float4 a30 a31 a32 a33) \<Rightarrow>
      case v of Float3 x y z \<Rightarrow>
        Float3 (a00 * x + a10 * y + a20 * z + a30)
               (a01 * x + a11 * y + a21 * z + a31)
               (a02 * x + a12 * y + a22 * z + a32))"

definition mul_v :: "float4x4 \<Rightarrow> float3 \<Rightarrow> float3" where
  "mul_v m v =
     (case m of Float4x4 (Float4 a00 a01 a02 a03) (Float4 a10 a11 a12 a13)
                         (Float4 a20 a21 a22 a23) (Float4 a30 a31 a32 a33) \<Rightarrow>
      case v of Float3 x y z \<Rightarrow>
        Float3 (a00 * x + a10 * y + a20 * z)
               (a01 * x + a11 * y + a21 * z)
               (a02 * x + a12 * y + a22 * z))"

definition mul4 :: "float4x4 \<Rightarrow> float3 \<Rightarrow> float4" where
  "mul4 m v =
     (case m of Float4x4 (Float4 a00 a01 a02 a03) (Float4 a10 a11 a12 a13)
                         (Float4 a20 a21 a22 a23) (Float4 a30 a31 a32 a33) \<Rightarrow>
      case v of Float3 x y z \<Rightarrow>
        Float4 (a00 * x + a10 * y + a20 * z + a30)
               (a01 * x + a11 * y + a21 * z + a31)
               (a02 * x + a12 * y + a22 * z + a32)
               (a03 * x + a13 * y + a23 * z + a33))"

definition row_mul :: "float4 \<Rightarrow> float4x4 \<Rightarrow> float4" where
  "row_mul r m =
     (case m of Float4x4 (Float4 b00 b01 b02 b03) (Float4 b10 b11 b12 b13)
                         (Float4 b20 b21 b22 b23) (Float4 b30 b31 b32 b33) \<Rightarrow>
      case r of Float4 a b c d \<Rightarrow>
        Float4 (a * b00 + b * b10 + c * b20 + d * b30)
               (a * b01 + b * b11 + c * b21 + d * b31)
               (a * b02 + b * b12 + c * b22 + d * b32)
               (a * b03 + b * b13 + c * b23 + d * b33))"

definition mul44 :: "float4x4 \<Rightarrow> float4x4 \<Rightarrow> float4x4" where
  "mul44 a b =
     Float4x4 (row_mul (row0 a) b) (row_mul (row1 a) b) (row_mul (row2 a) b) (row_mul (row3 a) b)"

definition det44 :: "float4x4 \<Rightarrow> float" where
  "det44 m =
     (case m of Float4x4 (Float4 a00 a01 a02 a03) (Float4 a10 a11 a12 a13)
                         (Float4 a20 a21 a22 a23) (Float4 a30 a31 a32 a33) \<Rightarrow>
        (a00 * a11 - a10 * a01) * (a22 * a33 - a32 * a23)
      - (a00 * a12 - a10 * a02) * (a21 * a33 - a31 * a23)
      + (a00 * a13 - a10 * a03) * (a21 * a32 - a31 * a22)
      + (a01 * a12 - a11 * a02) * (a20 * a33 - a30 * a23)
      - (a01 * a13 - a11 * a03) * (a20 * a32 - a30 * a22)
      + (a02 * a13 - a12 * a03) * (a20 * a31 - a30 * a21))"

definition adjugate44 :: "float4x4 \<Rightarrow> float4x4" where
  "adjugate44 m =
     (case m of Float4x4 (Float4 a00 a01 a02 a03) (Float4 a10 a11 a12 a13)
                         (Float4 a20 a21 a22 a23) (Float4 a30 a31 a32 a33) \<Rightarrow>
      let s0 = a00 * a11 - a10 * a01; s1 = a00 * a12 - a10 * a02;
          s2 = a00 * a13 - a10 * a03; s3 = a01 * a12 - a11 * a02;
          s4 = a01 * a13 - a11 * a03; s5 = a02 * a13 - a12 * a03;
          c5 = a22 * a33 - a32 * a23; c4 = a21 * a33 - a31 * a23;
          c3 = a21 * a32 - a31 * a22; c2 = a20 * a33 - a30 * a23;
          c1 = a20 * a32 - a30 * a22; c0 = a20 * a31 - a30 * a21
      in Float4x4
          (Float4 (a11 * c5 - a12 * c4 + a13 * c3) (- a01 * c5 + a02 * c4 - a03 * c3)
                  (a31 * s5 - a32 * s4 + a33 * s3) (- a21 * s5 + a22 * s4 - a23 * s3))
          (Float4 (- a10 * c5 + a12 * c2 - a13 * c1) (a00 * c5 - a02 * c2 + a03 * c1)
                  (- a30 * s5 + a32 * s2 - a33 * s1) (a20 * s5 - a22 * s2 + a23 * s1))
          (Float4 (a10 * c4 - a11 * c2 + a13 * c0) (- a00 * c4 + a01 * c2 - a03 * c0)
                  (a30 * s4 - a31 * s2 + a33 * s0) (- a20 * s4 + a21 * s2 - a23 * s0))
          (Float4 (- a10 * c3 + a11 * c1 - a12 * c0) (a00 * c3 - a01 * c1 + a02 * c0)
                  (- a30 * s3 + a31 * s1 - a32 * s0) (a20 * s3 - a21 * s1 + a22 * s0)))"

fun scale4 :: "float4 \<Rightarrow> float \<Rightarrow> float4" where
  "scale4 (Float4 a b c d) s = Float4 (a * s) (b * s) (c * s) (d * s)"

definition scale44 :: "float4x4 \<Rightarrow> float \<Rightarrow> float4x4" where
  "scale44 m s =
     Float4x4 (scale4 (row0 m) s) (scale4 (row1 m) s) (scale4 (row2 m) s) (scale4 (row3 m) s)"

definition invert :: "float4x4 \<Rightarrow> float4x4" where
  "invert m = scale44 (adjugate44 m) (1 / det44 m)"

section \<open>Mesh view and brush falloff\<close>

text \<open>\<^verbatim>\<open>struct npSkinData\<close>, with \<^verbatim>\<open>Weights4\<close> of the missing header: the four bone
  weights and the four bone indices of one vertex.\<close>

datatype Weights4 = Weights4 (bone_weights: "float list") (bone_indices: "nat list")

record npSkinData =
  weights :: "Weights4 list"
  bones :: "float4x4 list"
  bindposes :: "float4x4 list"
  num_vertices :: nat
  num_bones :: nat
  root :: float4x4

text \<open>\<^verbatim>\<open>struct npMeshData\<close>. A buffer is a list; the two buffers the source tests for null
  before use (\<^verbatim>\<open>normals\<close>, \<^verbatim>\<open>tangents\<close>) are optional.\<close>

record npMeshData =
  indices :: "nat list"
  vertices :: "float3 list"
  normals :: "float3 list option"
  tangents :: "float4 list option"
  uv :: "float2 list"
  selection :: "float list"
  num_vertices :: nat
  num_triangles :: nat
  transform :: float4x4

text \<open>\<^verbatim>\<open>GetBrushSampleIndex\<close> and \<^verbatim>\<open>GetBrushSample\<close>, lines 129-136.\<close>

definition GetBrushSampleIndex :: "float \<Rightarrow> float \<Rightarrow> int \<Rightarrow> int" where
  "GetBrushSampleIndex distance bradius num_bsamples =
     float_to_int (clamp01 (1 - distance / bradius) * real_of_int (num_bsamples - 1))"

definition GetBrushSample :: "float \<Rightarrow> float \<Rightarrow> float list \<Rightarrow> int \<Rightarrow> float" where
  "GetBrushSample distance bradius bsamples num_bsamples =
     bsamples ! nat (GetBrushSampleIndex distance bradius num_bsamples)"

text \<open>\<^verbatim>\<open>SelectInside\<close>, lines 59-99. The visitor \<^verbatim>\<open>body\<close> acts on a state \<^typ>\<open>'s\<close> (the
  buffers it captures by reference). The parallel branch splits the same index range
  into blocks whose iterations touch disjoint slots; both branches are the loop in
  index order here.\<close>

definition do_select ::
  "npMeshData \<Rightarrow> float3 \<Rightarrow> float \<Rightarrow> (nat \<Rightarrow> float \<Rightarrow> float3 \<Rightarrow> 's \<Rightarrow> 's) \<Rightarrow> nat \<Rightarrow>
   int \<times> 's \<Rightarrow> int \<times> 's" where
  "do_select model pos radius body vi acc =
     (let rq = radius * radius;
          p = mul_p (transform model) (vertices model ! vi);
          dsq = length_sq3 (sub3 p pos)
      in if dsq \<le> rq then (fst acc + 1, body vi (sqrt dsq) p (snd acc)) else acc)"

definition SelectInside ::
  "npMeshData \<Rightarrow> float3 \<Rightarrow> float \<Rightarrow> (nat \<Rightarrow> float \<Rightarrow> float3 \<Rightarrow> 's \<Rightarrow> 's) \<Rightarrow> 's \<Rightarrow> int \<times> 's" where
  "SelectInside model pos radius body st =
     fold (do_select model pos radius body) [0..<num_vertices model] (0, st)"

text \<open>\<^verbatim>\<open>npSelectBrush\<close>, lines 490-500: the count of visited vertices and the selection
  buffer after the call.\<close>

definition npSelectBrush ::
  "npMeshData \<Rightarrow> float3 \<Rightarrow> float \<Rightarrow> float \<Rightarrow> int \<Rightarrow> float list \<Rightarrow> int \<times> float list" where
  "npSelectBrush model pos radius strength num_bsamples bsamples =
     SelectInside model pos radius
       (\<lambda>vi d p sel.
          let s = GetBrushSample d radius bsamples num_bsamples * strength
          in sel[vi := clamp01 (sel ! vi + s)])
       (selection model)"

section \<open>Raycasts\<close>

text \<open>\<^verbatim>\<open>RayTrianglesIntersectionIndexed\<close> belongs to the missing header; it is a parameter
  \<open>rti\<close> of every function that casts a ray: \<open>rti pos dir vertices indices num_triangles\<close>
  is \<open>Some (tindex, d)\<close> when the source's call returns a non-zero hit count.\<close>

type_synonym ray_triangles =
  "float3 \<Rightarrow> float3 \<Rightarrow> float3 list \<Rightarrow> nat list \<Rightarrow> nat \<Rightarrow> (nat \<times> float) option"

text \<open>\<^verbatim>\<open>Raycast\<close>, lines 30-43.\<close>

definition Raycast :: "ray_triangles \<Rightarrow> npMeshData \<Rightarrow> float3 \<Rightarrow> float3 \<Rightarrow> (nat \<times> float) option" where
  "Raycast rti model pos dir =
     (let itrans = invert (transform model);
          rpos = mul_p itrans pos;
          rdir = normalize3 (mul_v itrans dir)
      in case rti rpos rdir (vertices model) (indices model) (num_triangles model) of
           None \<Rightarrow> None
         | Some (tindex, d) \<Rightarrow>
             (let hpos = add3 rpos (scale3 rdir d)
              in Some (tindex, length3 (sub3 (mul_p (transform model) hpos) pos))))"

text \<open>\<^verbatim>\<open>RaycastWithoutTransform\<close>, lines 45-55.\<close>

definition RaycastWithoutTransform ::
  "ray_triangles \<Rightarrow> npMeshData \<Rightarrow> float3 \<Rightarrow> float3 \<Rightarrow> (nat \<times> float) option" where
  "RaycastWithoutTransform rti model pos dir =
     (case rti pos dir (vertices model) (indices model) (num_triangles model) of
        None \<Rightarrow> None
      | Some (tindex, d) \<Rightarrow>
          (let hpos = add3 pos (scale3 dir d)
           in Some (tindex, length3 (sub3 hpos pos))))"

section \<open>Selection\<close>

text \<open>The screen position of a vertex and the rectangle test, as written at lines
  179-182 and 398-401. The quotient \<^verbatim>\<open>float2{vp.x, vp.y} / vp.w\<close> by a clip-space \<^verbatim>\<open>w\<close> of 0
  is an infinity or a NaN in both components, which no real number stands for: the screen
  position is then \<open>None\<close>. Of the two comparisons of a coordinate with the bounds of the
  rectangle at least one is false for an infinity and for a NaN, so such a vertex is not
  inside.\<close>

definition screen_pos :: "float4x4 \<Rightarrow> float3 \<Rightarrow> float2 option" where
  "screen_pos mvp v =
     (let vp = mul4 mvp v
      in if w4 vp = 0 then None else Some (div2 (Float2 (x4 vp) (y4 vp)) (w4 vp)))"

definition inside_rect :: "float4x4 \<Rightarrow> float2 \<Rightarrow> float2 \<Rightarrow> float3 \<Rightarrow> bool" where
  "inside_rect mvp rmin rmax v =
     (let vp = mul4 mvp v
      in case screen_pos mvp v of
           None \<Rightarrow> False
         | Some sp \<Rightarrow>
             x2 sp \<ge> x2 rmin \<and> x2 sp \<le> x2 rmax \<and> y2 sp \<ge> y2 rmin \<and> y2 sp \<le> y2 rmax \<and> z4 vp > 0)"

text \<open>The front-face filter, the block repeated at lines 184-199, 403-418 and 462-477:
  without \<^verbatim>\<open>frontface_only\<close> every vertex passes; with it, a ray from the camera towards
  the vertex must hit the mesh less than 0.01 away from the vertex.\<close>

definition frontface_hit :: "ray_triangles \<Rightarrow> npMeshData \<Rightarrow> float3 \<Rightarrow> bool \<Rightarrow> nat \<Rightarrow> bool" where
  "frontface_hit rti model lcampos frontface_only vi =
     (if frontface_only then
        (let vpos = vertices model ! vi;
             dir = normalize3 (sub3 vpos lcampos)
         in case RaycastWithoutTransform rti model lcampos dir of
              Some (ti, distance) \<Rightarrow>
                (let hitpos = add3 lcampos (scale3 dir distance)
                 in length3 (sub3 vpos hitpos) < 1 / 100)
            | None \<Rightarrow> False)
      else True)"

text \<open>\<^verbatim>\<open>npSelectNearestImpl\<close>, lines 159-244. The gathering loop is a \<^verbatim>\<open>parallel_for\<close>
  whose iterations take their slot of \<^verbatim>\<open>insider\<close> from an atomic counter: \<open>sched\<close> is the
  order in which the iterations reach the counter (any arrangement of the vertex
  indices). Slots from \<^verbatim>\<open>max_inside\<close> on are not written. The distance of a candidate
  is taken from its screen position, which exists since the candidate is inside the
  rectangle.\<close>

definition max_inside :: nat where
  "max_inside = 64"

definition is_candidate ::
  "ray_triangles \<Rightarrow> npMeshData \<Rightarrow> float4x4 \<Rightarrow> float2 \<Rightarrow> float2 \<Rightarrow> float3 \<Rightarrow> bool \<Rightarrow> nat \<Rightarrow> bool" where
  "is_candidate rti model mvp rmin rmax lcampos frontface_only vi =
     (inside_rect mvp rmin rmax (vertices model ! vi) \<and>
      frontface_hit rti model lcampos frontface_only vi)"

definition gather_inside ::
  "ray_triangles \<Rightarrow> nat list \<Rightarrow> npMeshData \<Rightarrow> float4x4 \<Rightarrow> float2 \<Rightarrow> float2 \<Rightarrow> float3 \<Rightarrow> bool \<Rightarrow>
   (nat \<times> float) list" where
  "gather_inside rti sched model mvp rmin rmax lcampos frontface_only =
     (let rcenter = scale2 (add2 rmin rmax) (1 / 2)
      in take max_inside
           (map (\<lambda>vi. (vi, length2 (sub2 (the (screen_pos mvp (vertices model ! vi))) rcenter)))
              (filter (is_candidate rti model mvp rmin rmax lcampos frontface_only) sched)))"

definition nearest_step ::
  "npMeshData \<Rightarrow> float3 \<Rightarrow> nat \<times> float \<Rightarrow> nat \<times> float \<times> float \<Rightarrow> nat \<times> float \<times> float" where
  "nearest_step model lcampos cand acc =
     (let vi = fst cand; distance = snd cand;
          nearest_index = fst acc; nearest_distance = fst (snd acc);
          nearest_facing = snd (snd acc);
          dir = normalize3 (sub3 (vertices model ! vi) lcampos)
      in if near_equal distance nearest_distance npEpsilon then
           (let facing = dot3 (the (normals model) ! vi) dir
            in if facing < nearest_facing then (vi, distance, facing) else acc)
         else if distance < nearest_distance then
           (vi, distance, dot3 (the (normals model) ! vi) dir)
         else acc)"

definition search_nearest :: "npMeshData \<Rightarrow> float3 \<Rightarrow> (nat \<times> float) list \<Rightarrow> nat \<times> float \<times> float" where
  "search_nearest model lcampos insider =
     fold (nearest_step model lcampos) insider (0, FLT_MAX, 1)"

definition npSelectNearestImpl ::
  "ray_triangles \<Rightarrow> nat list \<Rightarrow> npMeshData \<Rightarrow> float4x4 \<Rightarrow> float2 \<Rightarrow> float2 \<Rightarrow> float3 \<Rightarrow> bool \<Rightarrow>
   nat option" where
  "npSelectNearestImpl rti sched model mvp rmin rmax campos frontface_only =
     (let lcampos = mul_p (invert (transform model)) campos;
          insider = gather_inside rti sched model mvp rmin rmax lcampos frontface_only
      in if length insider > 0 then Some (fst (search_nearest model lcampos insider))
         else None)"

text \<open>\<^verbatim>\<open>npPickVertex\<close>, lines 246-256.\<close>

definition npPickVertex ::
  "ray_triangles \<Rightarrow> nat list \<Rightarrow> npMeshData \<Rightarrow> float4x4 \<Rightarrow> float2 \<Rightarrow> float2 \<Rightarrow> float3 \<Rightarrow> bool \<Rightarrow>
   (nat \<times> float3) option" where
  "npPickVertex rti sched model mvp rmin rmax campos frontface_only =
     (case npSelectNearestImpl rti sched model mvp rmin rmax campos frontface_only of
        Some pick_index \<Rightarrow>
          Some (pick_index, mul_p (transform model) (vertices model ! pick_index))
      | None \<Rightarrow> None)"

text \<open>The statement \<^verbatim>\<open>selection[vi] = clamp01(selection[vi] + strength)\<close> that every
  selection entry point performs.\<close>

definition add_selection :: "float list \<Rightarrow> nat \<Rightarrow> float \<Rightarrow> float list" where
  "add_selection sel vi strength = sel[vi := clamp01 (sel ! vi + strength)]"

text \<open>\<^verbatim>\<open>npSelectSingle\<close>, lines 258-268. Every entry point returns its count together with
  the selection buffer it leaves.\<close>

definition npSelectSingle ::
  "ray_triangles \<Rightarrow> nat list \<Rightarrow> npMeshData \<Rightarrow> float4x4 \<Rightarrow> float2 \<Rightarrow> float2 \<Rightarrow> float3 \<Rightarrow> float \<Rightarrow>
   bool \<Rightarrow> int \<times> float list" where
  "npSelectSingle rti sched model mvp rmin rmax campos strength frontface_only =
     (case npSelectNearestImpl rti sched model mvp rmin rmax campos frontface_only of
        Some pick_index \<Rightarrow> (1, add_selection (selection model) pick_index strength)
      | None \<Rightarrow> (0, selection model))"

text \<open>\<^verbatim>\<open>npSelectTriangle\<close>, lines 271-286.\<close>

definition npSelectTriangle ::
  "ray_triangles \<Rightarrow> npMeshData \<Rightarrow> float3 \<Rightarrow> float3 \<Rightarrow> float \<Rightarrow> int \<times> float list" where
  "npSelectTriangle rti model pos dir strength =
     (case Raycast rti model pos dir of
        Some (ti, distance) \<Rightarrow>
          (1, fold (\<lambda>i sel. add_selection sel (indices model ! (ti * 3 + i)) strength)
                [0..<3] (selection model))
      | None \<Rightarrow> (0, selection model))"

text \<open>The target list and the optional clearing shared by \<^verbatim>\<open>npSelectEdge\<close>,
  \<^verbatim>\<open>npSelectHole\<close> (with \<^verbatim>\<open>mask\<close>) and \<^verbatim>\<open>npSelectConnected\<close> (always the selected
  vertices), lines 296-312. \<^verbatim>\<open>memset\<close> zeroes the first \<^verbatim>\<open>num_vertices\<close> floats.\<close>

definition select_targets :: "npMeshData \<Rightarrow> bool \<Rightarrow> nat list" where
  "select_targets model use_mask =
     (if use_mask then filter (\<lambda>vi. selection model ! vi > 0) [0..<num_vertices model]
      else [0..<num_vertices model])"

definition clear_selection :: "npMeshData \<Rightarrow> bool \<Rightarrow> float list" where
  "clear_selection model clear =
     (if clear then replicate (min (num_vertices model) (length (selection model))) 0
                    @ drop (num_vertices model) (selection model)
      else selection model)"

text \<open>\<^verbatim>\<open>SelectEdge\<close>, \<^verbatim>\<open>SelectHole\<close> and \<^verbatim>\<open>SelectConnected\<close> belong to the missing header.
  Each is a parameter \<open>sel_fn indices ngon vertices targets\<close> giving the vertex indices
  it passes to its callback, in call order.\<close>

type_synonym topo_select = "nat list \<Rightarrow> nat \<Rightarrow> float3 list \<Rightarrow> nat list \<Rightarrow> nat list"

definition select_callback :: "float \<Rightarrow> nat \<Rightarrow> int \<times> float list \<Rightarrow> int \<times> float list" where
  "select_callback strength vi acc = (fst acc + 1, add_selection (snd acc) vi strength)"

text \<open>\<^verbatim>\<open>npSelectEdge\<close>, lines 288-320.\<close>

definition npSelectEdge :: "topo_select \<Rightarrow> npMeshData \<Rightarrow> float \<Rightarrow> bool \<Rightarrow> bool \<Rightarrow> int \<times> float list" where
  "npSelectEdge SelectEdge model strength clear use_mask =
     (let indices' = take (num_triangles model * 3) (indices model);
          vertices' = take (num_vertices model) (vertices model);
          targets = select_targets model use_mask;
          sel = clear_selection model clear
      in fold (select_callback strength) (SelectEdge indices' 3 vertices' targets) (0, sel))"

text \<open>\<^verbatim>\<open>npSelectHole\<close>, lines 322-354.\<close>

definition npSelectHole :: "topo_select \<Rightarrow> npMeshData \<Rightarrow> float \<Rightarrow> bool \<Rightarrow> bool \<Rightarrow> int \<times> float list" where
  "npSelectHole SelectHole model strength clear use_mask =
     (let indices' = take (num_triangles model * 3) (indices model);
          vertices' = take (num_vertices model) (vertices model);
          targets = select_targets model use_mask;
          sel = clear_selection model clear
      in fold (select_callback strength) (SelectHole indices' 3 vertices' targets) (0, sel))"

text \<open>\<^verbatim>\<open>npSelectConnected\<close>, lines 356-380.\<close>

definition npSelectConnected :: "topo_select \<Rightarrow> npMeshData \<Rightarrow> float \<Rightarrow> bool \<Rightarrow> int \<times> float list" where
  "npSelectConnected SelectConnected model strength clear =
     (let indices' = take (num_triangles model * 3) (indices model);
          vertices' = take (num_vertices model) (vertices model);
          targets = select_targets model True;
          sel = clear_selection model clear
      in fold (select_callback strength) (SelectConnected indices' 3 vertices' targets) (0, sel))"

text \<open>\<^verbatim>\<open>npSelectRect\<close>, lines 382-429. The blocks of \<^verbatim>\<open>parallel_for_blocked\<close> cover the
  index range once and an iteration writes only \<^verbatim>\<open>selection[vi]\<close>, so the loop is taken
  in index order.\<close>

definition select_rect_step ::
  "ray_triangles \<Rightarrow> npMeshData \<Rightarrow> float4x4 \<Rightarrow> float2 \<Rightarrow> float2 \<Rightarrow> float3 \<Rightarrow> float \<Rightarrow> bool \<Rightarrow>
   nat \<Rightarrow> int \<times> float list \<Rightarrow> int \<times> float list" where
  "select_rect_step rti model mvp rmin rmax lcampos strength frontface_only vi acc =
     (if inside_rect mvp rmin rmax (vertices model ! vi) then
        (if frontface_hit rti model lcampos frontface_only vi
         then (fst acc + 1, add_selection (snd acc) vi strength)
         else acc)
      else acc)"

definition npSelectRect ::
  "ray_triangles \<Rightarrow> npMeshData \<Rightarrow> float4x4 \<Rightarrow> float2 \<Rightarrow> float2 \<Rightarrow> float3 \<Rightarrow> float \<Rightarrow> bool \<Rightarrow>
   int \<times> float list" where
  "npSelectRect rti model mvp rmin rmax campos strength frontface_only =
     (let lcampos = mul_p (invert (transform model)) campos
      in fold (select_rect_step rti model mvp rmin rmax lcampos strength frontface_only)
           [0..<num_vertices model] (0, selection model))"

text \<open>\<^verbatim>\<open>npSelectLasso\<close>, lines 431-488. \<^verbatim>\<open>MinMax\<close> and \<^verbatim>\<open>PolyInside\<close> belong to the missing
  header and are parameters. \<^verbatim>\<open>PolyInside\<close> receives the screen position as the source
  computes it, \<open>None\<close> when it is not a number of the model.\<close>

type_synonym min_max = "float2 list \<Rightarrow> int \<Rightarrow> float2 \<times> float2"

type_synonym poly_inside =
  "float list \<Rightarrow> float list \<Rightarrow> int \<Rightarrow> float2 \<Rightarrow> float2 \<Rightarrow> float2 option \<Rightarrow> bool"

definition select_lasso_step ::
  "ray_triangles \<Rightarrow> poly_inside \<Rightarrow> npMeshData \<Rightarrow> float4x4 \<Rightarrow> float list \<Rightarrow> float list \<Rightarrow> int \<Rightarrow>
   float2 \<Rightarrow> float2 \<Rightarrow> float3 \<Rightarrow> float \<Rightarrow> bool \<Rightarrow> nat \<Rightarrow> int \<times> float list \<Rightarrow> int \<times> float list" where
  "select_lasso_step rti PolyInside model mvp polyx polyy num_lasso_points minp maxp lcampos
       strength frontface_only vi acc =
     (let sp = screen_pos mvp (vertices model ! vi)
      in if PolyInside polyx polyy num_lasso_points minp maxp sp then
           (if frontface_hit rti model lcampos frontface_only vi
            then (fst acc + 1, add_selection (snd acc) vi strength)
            else acc)
         else acc)"

definition npSelectLasso ::
  "ray_triangles \<Rightarrow> min_max \<Rightarrow> poly_inside \<Rightarrow> npMeshData \<Rightarrow> float4x4 \<Rightarrow> float2 list \<Rightarrow> int \<Rightarrow>
   float3 \<Rightarrow> float \<Rightarrow> bool \<Rightarrow> int \<times> float list" where
  "npSelectLasso rti MinMax PolyInside model mvp lasso num_lasso_points campos strength
       frontface_only =
     (if num_lasso_points < 3 then (0, selection model)
      else
        (let lcampos = mul_p (invert (transform model)) campos;
             minp = fst (MinMax lasso num_lasso_points);
             maxp = snd (MinMax lasso num_lasso_points);
             polyx = map (\<lambda>i. x2 (lasso ! i)) [0..<nat num_lasso_points];
             polyy = map (\<lambda>i. y2 (lasso ! i)) [0..<nat num_lasso_points]
         in fold (select_lasso_step rti PolyInside model mvp polyx polyy num_lasso_points
                    minp maxp lcampos strength frontface_only)
              [0..<num_vertices model] (0, selection model)))"

section \<open>Furthest vertex\<close>

text \<open>\<^verbatim>\<open>GetFurthestDistance\<close>, lines 101-127. \<^verbatim>\<open>furthest_vi\<close> is declared without a value:
  \<open>None\<close> until the loop first assigns it. The result is \<open>Some (vidx, dist)\<close> when the
  source returns true.\<close>

definition furthest_step ::
  "npMeshData \<Rightarrow> float3 \<Rightarrow> bool \<Rightarrow> nat \<Rightarrow> float \<times> nat option \<Rightarrow> float \<times> nat option" where
  "furthest_step model lpos use_mask vi acc =
     (if \<not> use_mask \<or> selection model ! vi > 0 then
        (let dsq = length_sq3 (sub3 (vertices model ! vi) lpos)
         in if dsq > fst acc then (dsq, Some vi) else acc)
      else acc)"

definition GetFurthestDistance :: "npMeshData \<Rightarrow> float3 \<Rightarrow> bool \<Rightarrow> (nat \<times> float) option" where
  "GetFurthestDistance model pos use_mask =
     (let lpos = mul_p (invert (transform model)) pos;
          r = fold (furthest_step model lpos use_mask) [0..<num_vertices model] (FLT_MIN, None)
      in if fst r > FLT_MIN then
           (case snd r of
              Some furthest_vi \<Rightarrow>
                Some (furthest_vi,
                      length3 (sub3 (mul_p (transform model) (vertices model ! furthest_vi)) pos))
            | None \<Rightarrow> None)
         else None)"

section \<open>Rotation about a pivot\<close>

text \<open>A float that may be NaN: \<open>None\<close> is NaN. \<^verbatim>\<open>near_equal\<close> on it is false for NaN, as every
  comparison with NaN is.\<close>

type_synonym nanfloat = "float option"

definition isnan :: "nanfloat \<Rightarrow> bool" where
  "isnan a = (a = None)"

definition near_equal_nan :: "nanfloat \<Rightarrow> float \<Rightarrow> float \<Rightarrow> bool" where
  "near_equal_nan a b eps = (case a of None \<Rightarrow> False | Some x \<Rightarrow> near_equal x b eps)"

text \<open>Modelled from the spec: the translation transform of the missing header, for row
  vectors.\<close>

definition translate :: "float3 \<Rightarrow> float4x4" where
  "translate t = Float4x4 (Float4 1 0 0 0) (Float4 0 1 0 0) (Float4 0 0 1 0)
                          (Float4 (x3 t) (y3 t) (z3 t) 1)"

text \<open>\<^verbatim>\<open>npRotatePivotVertices\<close>, lines 578-606; the result is the vertex buffer it leaves.
  The quaternion helpers \<^verbatim>\<open>to_axis_angle\<close>, \<^verbatim>\<open>to_mat4x4\<close>, \<^verbatim>\<open>invert\<close> (of a quaternion) and the
  default tolerance of \<^verbatim>\<open>near_equal\<close> belong to the missing header and are parameters.\<close>

definition rotate_vertex :: "npMeshData \<Rightarrow> float4x4 \<Rightarrow> bool \<Rightarrow> nat \<Rightarrow> float3 list \<Rightarrow> float3 list" where
  "rotate_vertex model rotation use_mask vi vs =
     (let s = (if use_mask then selection model ! vi else 1)
      in if s = 0 then vs
         else vs[vi := lerp3 (vs ! vi) (mul_p rotation (vs ! vi)) s])"

definition npRotatePivotVertices ::
  "(quatf \<Rightarrow> float3 \<times> nanfloat) \<Rightarrow> (quatf \<Rightarrow> float4x4) \<Rightarrow> (quatf \<Rightarrow> quatf) \<Rightarrow> float \<Rightarrow>
   npMeshData \<Rightarrow> quatf \<Rightarrow> float3 \<Rightarrow> quatf \<Rightarrow> bool \<Rightarrow> float3 list" where
  "npRotatePivotVertices to_axis_angle to_mat4x4 invert_quat default_eps
       model value pivot_pos pivot_rot use_mask =
     (let angle = snd (to_axis_angle value)
      in if near_equal_nan angle 0 default_eps \<or> isnan angle then vertices model
         else
           (let ptrans = mul44 (to_mat4x4 (invert_quat pivot_rot)) (translate pivot_pos);
                iptrans = invert ptrans;
                trans = transform model;
                itrans = invert trans;
                to_pivot_space = mul44 trans iptrans;
                to_local_space = mul44 ptrans itrans;
                rotation = mul44 (mul44 to_pivot_space (to_mat4x4 value)) to_local_space
            in fold (rotate_vertex model rotation use_mask) [0..<num_vertices model]
                 (vertices model)))"

section \<open>Weld\<close>

text \<open>\<^verbatim>\<open>angle_between\<close> belongs to the missing header and is a parameter; \<^verbatim>\<open>Rad2Deg\<close> turns
  radians into degrees.\<close>

definition Rad2Deg :: float where
  "Rad2Deg = 180 / pi"

text \<open>\<^verbatim>\<open>npWeld\<close>, lines 664-708. The inner loop carries the running normal \<^verbatim>\<open>n\<close>, the list
  \<^verbatim>\<open>shared\<close> and the flags \<^verbatim>\<open>checked\<close>; the outer loop carries the normals, the flags and
  the count. The result is the count and the normal buffer.\<close>

definition weld_inner ::
  "(float3 \<Rightarrow> float3 \<Rightarrow> float) \<Rightarrow> npMeshData \<Rightarrow> float3 list \<Rightarrow> bool \<Rightarrow> float \<Rightarrow> nat \<Rightarrow> float3 \<Rightarrow>
   nat \<Rightarrow> float3 \<times> nat list \<times> bool list \<Rightarrow> float3 \<times> nat list \<times> bool list" where
  "weld_inner angle_between model nrm smoothing weld_angle vi p i st =
     (let n = fst st; shared = fst (snd st); checked = snd (snd st)
      in if vi \<noteq> i \<and> \<not> checked ! i \<and>
            length3 (sub3 (vertices model ! i) p) < npEpsilon \<and>
            angle_between n (nrm ! i) * Rad2Deg \<le> weld_angle
         then ((if smoothing then add3 n (nrm ! i) else n), shared @ [i], checked[i := True])
         else st)"

definition weld_outer ::
  "(float3 \<Rightarrow> float3 \<Rightarrow> float) \<Rightarrow> npMeshData \<Rightarrow> bool \<Rightarrow> float \<Rightarrow> bool \<Rightarrow> nat \<Rightarrow>
   int \<times> float3 list \<times> bool list \<Rightarrow> int \<times> float3 list \<times> bool list" where
  "weld_outer angle_between model smoothing weld_angle use_mask vi st =
     (let ret = fst st; nrm = fst (snd st); checked = snd (snd st)
      in if checked ! vi then st
         else
           (let s = (if use_mask then selection model ! vi else 1)
            in if s = 0 then st
               else
                 (let p = vertices model ! vi;
                      r = fold (weld_inner angle_between model nrm smoothing weld_angle vi p)
                            [0..<num_vertices model] (nrm ! vi, [], checked);
                      shared = fst (snd r)
                  in if shared \<noteq> [] then
                       (let n = normalize3 (fst r)
                        in (ret + 1, fold (\<lambda>si ns. ns[si := n]) shared (nrm[vi := n]),
                            snd (snd r)))
                     else (ret, nrm, snd (snd r)))))"

definition npWeld ::
  "(float3 \<Rightarrow> float3 \<Rightarrow> float) \<Rightarrow> npMeshData \<Rightarrow> bool \<Rightarrow> float \<Rightarrow> bool \<Rightarrow> int \<times> float3 list" where
  "npWeld angle_between model smoothing weld_angle use_mask =
     (let r = fold (weld_outer angle_between model smoothing weld_angle use_mask)
                [0..<num_vertices model]
                (0, the (normals model), replicate (num_vertices model) False)
      in (fst r, fst (snd r)))"

section \<open>Mirroring relation\<close>

text \<open>Modelled from the spec: "Plane distance is signed: positive on the side the plane
  normal points to. Mirroring a point/vector across a plane negates twice the signed
  distance along the normal." The plane passes through the origin and is given by its
  normal (\<^verbatim>\<open>plane_distance\<close>, \<^verbatim>\<open>plane_mirror\<close> of the missing header).\<close>

definition plane_distance :: "float3 \<Rightarrow> float3 \<Rightarrow> float" where
  "plane_distance p n = dot3 p n"

definition plane_mirror :: "float3 \<Rightarrow> float3 \<Rightarrow> float3" where
  "plane_mirror p n = sub3 p (scale3 n (plane_distance p n * 2))"

text \<open>\<^verbatim>\<open>npBuildMirroringRelation\<close>, lines 1017-1057. \<open>mirror_match\<close> is the condition under
  which the inner loop stores \<^verbatim>\<open>i\<close> and breaks; \<open>mirror_rel\<close> is the value written to
  \<^verbatim>\<open>relation[vi]\<close>. Each iteration of the \<^verbatim>\<open>parallel_for\<close> writes its own slot. A null
  \<^verbatim>\<open>relation\<close> is \<open>None\<close>. The default tolerance of \<^verbatim>\<open>near_equal\<close> is a parameter.\<close>

definition mirror_match :: "npMeshData \<Rightarrow> float3 \<Rightarrow> float \<Rightarrow> float list \<Rightarrow> nat \<Rightarrow> nat \<Rightarrow> bool" where
  "mirror_match model mirror_plane epsilon distances vi i =
     (let d2 = distances ! i
      in d2 > 0 \<and>
         length3 (sub3 (vertices model ! vi)
                    (sub3 (vertices model ! i) (scale3 mirror_plane (d2 * 2)))) < epsilon \<and>
         (let n1 = the (normals model) ! vi;
              n2 = plane_mirror (the (normals model) ! i) mirror_plane
          in dot3 n1 n2 \<ge> 99 / 100))"

definition mirror_rel :: "float \<Rightarrow> npMeshData \<Rightarrow> float3 \<Rightarrow> float \<Rightarrow> float list \<Rightarrow> nat \<Rightarrow> int" where
  "mirror_rel default_eps model mirror_plane epsilon distances vi =
     (let d1 = distances ! vi
      in if d1 < 0 then
           (case find (mirror_match model mirror_plane epsilon distances vi)
                   [0..<num_vertices model] of
              Some i \<Rightarrow> int i
            | None \<Rightarrow> - 1)
         else if near_equal d1 0 default_eps then - 2
         else - 1)"

definition npBuildMirroringRelation ::
  "float \<Rightarrow> npMeshData \<Rightarrow> float3 \<Rightarrow> float \<Rightarrow> int list option \<Rightarrow> int \<times> int list option" where
  "npBuildMirroringRelation default_eps model mirror_plane epsilon relation =
     (case relation of
        None \<Rightarrow> (0, None)
      | Some rel \<Rightarrow>
          (let distances = map (\<lambda>vi. plane_distance (vertices model ! vi) mirror_plane)
                             [0..<num_vertices model];
               rels = map (mirror_rel default_eps model mirror_plane epsilon distances)
                        [0..<num_vertices model]
           in (int (length (filter (\<lambda>r. 0 \<le> r) rels)),
               Some (rels @ drop (num_vertices model) rel))))"

section \<open>Projection\<close>

text \<open>\<^verbatim>\<open>enum class npProjectVerticesMode\<close>, lines 1263-1268.\<close>

datatype npProjectVerticesMode = Forward | Backward | ForwardAndBackward

text \<open>\<^verbatim>\<open>RayTrianglesIntersectionSoA\<close> and \<^verbatim>\<open>triangle_interpolation\<close> (for \<^verbatim>\<open>float3\<close> and for
  \<^verbatim>\<open>float4\<close> attributes) belong to the missing header and are parameters: \<open>rts pos dir soa n\<close>
  is \<open>Some (ti, distance)\<close> when the source's call returns a positive hit count.\<close>

type_synonym ray_triangles_soa =
  "float3 \<Rightarrow> float3 \<Rightarrow> float list list \<Rightarrow> nat \<Rightarrow> (nat \<times> float) option"

type_synonym interpolation3 =
  "float3 \<Rightarrow> float3 \<Rightarrow> float3 \<Rightarrow> float3 \<Rightarrow> float3 \<Rightarrow> float3 \<Rightarrow> float3 \<Rightarrow> float3"

type_synonym interpolation4 =
  "float3 \<Rightarrow> float3 \<Rightarrow> float3 \<Rightarrow> float3 \<Rightarrow> float4 \<Rightarrow> float4 \<Rightarrow> float4 \<Rightarrow> float4"

text \<open>The flattened target triangles, lines 1286-1302: \<open>soa ! (i * 3 + c) ! ti\<close> is
  coordinate \<open>c\<close> of corner \<open>i\<close> of triangle \<open>ti\<close>, in the working mesh's local space.\<close>

fun coord3 :: "float3 \<Rightarrow> nat \<Rightarrow> float" where
  "coord3 (Float3 a b c) k = (if k = 0 then a else if k = 1 then b else c)"

definition make_soa :: "npMeshData \<Rightarrow> float4x4 \<Rightarrow> float list list" where
  "make_soa target to_local =
     map (\<lambda>k. map (\<lambda>ti. coord3 (mul_p to_local
                                   (vertices target ! (indices target ! (ti * 3 + k div 3))))
                            (k mod 3))
                [0..<num_triangles target])
       [0..<9]"

definition soa_corner :: "float list list \<Rightarrow> nat \<Rightarrow> nat \<Rightarrow> float3" where
  "soa_corner soa i ti =
     Float3 (soa ! (i * 3) ! ti) (soa ! (i * 3 + 1) ! ti) (soa ! (i * 3 + 2) ! ti)"

text \<open>The lambdas \<^verbatim>\<open>gen_normal\<close> and \<^verbatim>\<open>gen_tangent\<close>, lines 1319-1352.\<close>

definition gen_normal ::
  "interpolation3 \<Rightarrow> float list list \<Rightarrow> float4x4 \<Rightarrow> npMeshData \<Rightarrow> float3 \<Rightarrow> nat \<Rightarrow> float3" where
  "gen_normal tri3 soa to_local target pos ti =
     (case normals target of
        Some pnormals \<Rightarrow>
          (let ret = tri3 pos (soa_corner soa 0 ti) (soa_corner soa 1 ti) (soa_corner soa 2 ti)
                       (pnormals ! (indices target ! (ti * 3 + 0)))
                       (pnormals ! (indices target ! (ti * 3 + 1)))
                       (pnormals ! (indices target ! (ti * 3 + 2)))
           in normalize3 (mul_v to_local ret))
      | None \<Rightarrow> zero3)"

definition gen_tangent ::
  "interpolation4 \<Rightarrow> float list list \<Rightarrow> float4x4 \<Rightarrow> npMeshData \<Rightarrow> float3 \<Rightarrow> nat \<Rightarrow> float4" where
  "gen_tangent tri4 soa to_local target pos ti =
     (case tangents target of
        Some ptangents \<Rightarrow>
          (let ret = tri4 pos (soa_corner soa 0 ti) (soa_corner soa 1 ti) (soa_corner soa 2 ti)
                       (ptangents ! (indices target ! (ti * 3 + 0)))
                       (ptangents ! (indices target ! (ti * 3 + 1)))
                       (ptangents ! (indices target ! (ti * 3 + 2)))
           in set_xyz4 ret (normalize3 (mul_v to_local (xyz4 ret))))
      | None \<Rightarrow> zero4)"

text \<open>The two ray casts of one vertex, lines 1354-1381. The state is \<open>None\<close> while \<^verbatim>\<open>hit\<close>
  is false and \<open>Some (min_distance, rvertex, rnormal, rtangents)\<close> once it is true.\<close>

type_synonym projection_hit = "(float \<times> float3 \<times> float3 \<times> float4) option"

definition cast_forward ::
  "ray_triangles_soa \<Rightarrow> interpolation3 \<Rightarrow> interpolation4 \<Rightarrow> float list list \<Rightarrow> float4x4 \<Rightarrow>
   npMeshData \<Rightarrow> npProjectVerticesMode \<Rightarrow> float \<Rightarrow> float3 \<Rightarrow> float3 \<Rightarrow> projection_hit" where
  "cast_forward rts tri3 tri4 soa to_local target mode max_distance rpos rdir =
     (if mode = Forward \<or> mode = ForwardAndBackward then
        (case rts rpos rdir soa (num_triangles target) of
           Some (ti, distance) \<Rightarrow>
             (if distance < max_distance then
                Some (distance, add3 rpos (scale3 rdir distance),
                      gen_normal tri3 soa to_local target (add3 rpos (scale3 rdir distance)) ti,
                      gen_tangent tri4 soa to_local target (add3 rpos (scale3 rdir distance)) ti)
              else None)
         | None \<Rightarrow> None)
      else None)"

definition cast_backward ::
  "ray_triangles_soa \<Rightarrow> interpolation3 \<Rightarrow> interpolation4 \<Rightarrow> float list list \<Rightarrow> float4x4 \<Rightarrow>
   npMeshData \<Rightarrow> npProjectVerticesMode \<Rightarrow> float \<Rightarrow> float3 \<Rightarrow> float3 \<Rightarrow> projection_hit \<Rightarrow>
   projection_hit" where
  "cast_backward rts tri3 tri4 soa to_local target mode max_distance rpos rdir st =
     (if mode = Backward \<or> mode = ForwardAndBackward then
        (case rts rpos (neg3 rdir) soa (num_triangles target) of
           Some (ti, distance) \<Rightarrow>
             (if distance < max_distance \<and>
                 (case st of None \<Rightarrow> True | Some (min_distance, h) \<Rightarrow> distance < min_distance)
              then
                Some (distance, add3 rpos (scale3 (neg3 rdir) distance),
                      gen_normal tri3 soa to_local target
                        (add3 rpos (scale3 (neg3 rdir) distance)) ti,
                      gen_tangent tri4 soa to_local target
                        (add3 rpos (scale3 (neg3 rdir) distance)) ti)
              else st)
         | None \<Rightarrow> st)
      else st)"

text \<open>\<^verbatim>\<open>npProjectVerticesImpl\<close>, lines 1270-1394. The state is the three attribute buffers
  of the working mesh; an iteration of the \<^verbatim>\<open>parallel_for\<close> reads and writes only slot
  \<^verbatim>\<open>vi\<close>. \<open>ray_dirs vi\<close> is \<^verbatim>\<open>ray_dirs[vi]\<close>. Bit \<open>k\<close> of \<^verbatim>\<open>PNT\<close> is \<open>bit PNT k\<close>.\<close>

type_synonym attributes = "float3 list \<times> float3 list option \<times> float4 list option"

definition project_vertex ::
  "ray_triangles_soa \<Rightarrow> interpolation3 \<Rightarrow> interpolation4 \<Rightarrow> float list list \<Rightarrow> float4x4 \<Rightarrow>
   npMeshData \<Rightarrow> npMeshData \<Rightarrow> (nat \<Rightarrow> float3) \<Rightarrow> npProjectVerticesMode \<Rightarrow> float \<Rightarrow> int \<Rightarrow>
   bool \<Rightarrow> nat \<Rightarrow> attributes \<Rightarrow> attributes" where
  "project_vertex rts tri3 tri4 soa to_local model target ray_dirs mode max_distance PNT
       use_mask vi st =
     (let vs = fst st; ns = fst (snd st); ts = snd (snd st);
          s = (if use_mask then selection model ! vi else 1)
      in if s = 0 then st
         else
           (let rpos = vs ! vi;
                rdir = ray_dirs vi;
                h = cast_backward rts tri3 tri4 soa to_local target mode max_distance rpos rdir
                      (cast_forward rts tri3 tri4 soa to_local target mode max_distance rpos rdir)
            in case h of
                 None \<Rightarrow> st
               | Some (min_distance, rvertex, rnormal, rtangents) \<Rightarrow>
                   (let vs' = (if bit PNT 0 then vs[vi := lerp3 (vs ! vi) rvertex s] else vs);
                        ns' = (case ns of
                                 Some nl \<Rightarrow>
                                   (if bit PNT 1
                                    then Some (nl[vi := normalize3 (lerp3 (nl ! vi) rnormal s)])
                                    else ns)
                               | None \<Rightarrow> None);
                        ts' = (case ts of
                                 Some tgl \<Rightarrow>
                                   (if bit PNT 2
                                    then Some (tgl[vi := set_xyz4 (tgl ! vi)
                                                 (normalize3 (lerp3 (xyz4 (tgl ! vi))
                                                                (xyz4 rtangents) s))])
                                    else ts)
                               | None \<Rightarrow> None)
                    in (vs', ns', ts'))))"

definition npProjectVerticesImpl ::
  "ray_triangles_soa \<Rightarrow> interpolation3 \<Rightarrow> interpolation4 \<Rightarrow> npMeshData \<Rightarrow> npMeshData \<Rightarrow>
   (nat \<Rightarrow> float3) \<Rightarrow> npProjectVerticesMode \<Rightarrow> float \<Rightarrow> int \<Rightarrow> bool \<Rightarrow> attributes" where
  "npProjectVerticesImpl rts tri3 tri4 model target ray_dirs mode max_distance PNT use_mask =
     (let to_local = mul44 (transform target) (invert (transform model));
          soa = make_soa target to_local
      in fold (project_vertex rts tri3 tri4 soa to_local model target ray_dirs mode
                 max_distance PNT use_mask)
           [0..<num_vertices model] (vertices model, normals model, tangents model))"

text \<open>The four entry points, lines 1396-1437, differ in the ray direction of a vertex.\<close>

definition npProjectVertices ::
  "ray_triangles_soa \<Rightarrow> interpolation3 \<Rightarrow> interpolation4 \<Rightarrow> npMeshData \<Rightarrow> npMeshData \<Rightarrow>
   float3 list \<Rightarrow> npProjectVerticesMode \<Rightarrow> float \<Rightarrow> int \<Rightarrow> bool \<Rightarrow> attributes" where
  "npProjectVertices rts tri3 tri4 model target ray_dirs mode max_distance PNT use_mask =
     npProjectVerticesImpl rts tri3 tri4 model target (\<lambda>vi. ray_dirs ! vi) mode max_distance
       PNT use_mask"

definition radial_dir :: "npMeshData \<Rightarrow> float3 \<Rightarrow> nat \<Rightarrow> float3" where
  "radial_dir model center vi =
     (let ray_dir = normalize3 (sub3 (vertices model ! vi) center);
          n = the (normals model) ! vi
      in if dot3 ray_dir n > 0 then ray_dir else neg3 ray_dir)"

definition npProjectVerticesRadial ::
  "ray_triangles_soa \<Rightarrow> interpolation3 \<Rightarrow> interpolation4 \<Rightarrow> npMeshData \<Rightarrow> npMeshData \<Rightarrow>
   float3 \<Rightarrow> npProjectVerticesMode \<Rightarrow> float \<Rightarrow> int \<Rightarrow> bool \<Rightarrow> attributes" where
  "npProjectVerticesRadial rts tri3 tri4 model target center mode max_distance PNT use_mask =
     (let to_local = invert (transform model)
      in npProjectVerticesImpl rts tri3 tri4 model target
           (radial_dir model (mul_p to_local center)) mode max_distance PNT use_mask)"

definition directional_dir :: "npMeshData \<Rightarrow> float3 \<Rightarrow> nat \<Rightarrow> float3" where
  "directional_dir model ray_dir vi =
     (let n = the (normals model) ! vi
      in if dot3 ray_dir n > 0 then ray_dir else neg3 ray_dir)"

definition npProjectVerticesDirectional ::
  "ray_triangles_soa \<Rightarrow> interpolation3 \<Rightarrow> interpolation4 \<Rightarrow> npMeshData \<Rightarrow> npMeshData \<Rightarrow>
   float3 \<Rightarrow> npProjectVerticesMode \<Rightarrow> float \<Rightarrow> int \<Rightarrow> bool \<Rightarrow> attributes" where
  "npProjectVerticesDirectional rts tri3 tri4 model target ray_dir mode max_distance PNT
       use_mask =
     (let to_local = invert (transform model)
      in npProjectVerticesImpl rts tri3 tri4 model target
           (directional_dir model (normalize3 (mul_v to_local ray_dir))) mode max_distance PNT
           use_mask)"

section \<open>Skinning\<close>

text \<open>\<^verbatim>\<open>SkinningImpl\<close> with \<^verbatim>\<open>NumInfluence = 4\<close>, lines 1439-1485: the three attribute
  streams. A null input or output pointer is \<open>None\<close>, and then the output stays as it is.
  \<^verbatim>\<open>mul_v\<close> on a tangent transforms its direction and keeps \<open>w\<close>.\<close>

definition NumInfluence :: nat where
  "NumInfluence = 4"

definition skin_point :: "float4x4 list \<Rightarrow> Weights4 \<Rightarrow> float3 \<Rightarrow> float3" where
  "skin_point poses w p =
     fold (\<lambda>bi rp. add3 rp (scale3 (mul_p (poses ! (bone_indices w ! bi)) p)
                               (bone_weights w ! bi)))
       [0..<NumInfluence] zero3"

definition skin_normal :: "float4x4 list \<Rightarrow> Weights4 \<Rightarrow> float3 \<Rightarrow> float3" where
  "skin_normal poses w n =
     normalize3
       (fold (\<lambda>bi rn. add3 rn (scale3 (mul_v (poses ! (bone_indices w ! bi)) n)
                                  (bone_weights w ! bi)))
          [0..<NumInfluence] zero3)"

fun add4 :: "float4 \<Rightarrow> float4 \<Rightarrow> float4" where
  "add4 (Float4 a b c d) (Float4 e f g h) = Float4 (a + e) (b + f) (c + g) (d + h)"

definition mul_v4 :: "float4x4 \<Rightarrow> float4 \<Rightarrow> float4" where
  "mul_v4 m t = set_xyz4 t (mul_v m (xyz4 t))"

definition skin_tangent :: "float4x4 list \<Rightarrow> Weights4 \<Rightarrow> float4 \<Rightarrow> float4" where
  "skin_tangent poses w t =
     fold (\<lambda>bi rt. add4 rt (scale4 (mul_v4 (poses ! (bone_indices w ! bi)) t)
                               (bone_weights w ! bi)))
       [0..<NumInfluence] zero4"

definition skin_stream ::
  "nat \<Rightarrow> (Weights4 \<Rightarrow> 'a \<Rightarrow> 'a) \<Rightarrow> Weights4 list \<Rightarrow> 'a list option \<Rightarrow> 'a list option \<Rightarrow>
   'a list option" where
  "skin_stream n f ws input output =
     (case (input, output) of
        (Some i, Some out) \<Rightarrow> Some (map (\<lambda>vi. f (ws ! vi) (i ! vi)) [0..<n] @ drop n out)
      | _ \<Rightarrow> output)"

definition SkinningImpl ::
  "nat \<Rightarrow> float4x4 list \<Rightarrow> Weights4 list \<Rightarrow>
   float3 list option \<Rightarrow> float3 list option \<Rightarrow> float4 list option \<Rightarrow>
   float3 list option \<Rightarrow> float3 list option \<Rightarrow> float4 list option \<Rightarrow>
   float3 list option \<times> float3 list option \<times> float4 list option" where
  "SkinningImpl n poses ws ipoints inormals itangents opoints onormals otangents =
     (skin_stream n (skin_point poses) ws ipoints opoints,
      skin_stream n (skin_normal poses) ws inormals onormals,
      skin_stream n (skin_tangent poses) ws itangents otangents)"

text \<open>\<^verbatim>\<open>npApplySkinning\<close>, lines 1487-1500, and \<^verbatim>\<open>npApplyReverseSkinning\<close>, lines 1502-1515.\<close>

definition npApplySkinning ::
  "npSkinData \<Rightarrow> float3 list option \<Rightarrow> float3 list option \<Rightarrow> float4 list option \<Rightarrow>
   float3 list option \<Rightarrow> float3 list option \<Rightarrow> float4 list option \<Rightarrow>
   float3 list option \<times> float3 list option \<times> float4 list option" where
  "npApplySkinning skin ipoints inormals itangents opoints onormals otangents =
     (let iroot = invert (root skin);
          poses = map (\<lambda>bi. mul44 (mul44 (bindposes skin ! bi) (bones skin ! bi)) iroot)
                    [0..<num_bones skin]
      in SkinningImpl (npSkinData.num_vertices skin) poses (weights skin)
           ipoints inormals itangents opoints onormals otangents)"

definition npApplyReverseSkinning ::
  "npSkinData \<Rightarrow> float3 list option \<Rightarrow> float3 list option \<Rightarrow> float4 list option \<Rightarrow>
   float3 list option \<Rightarrow> float3 list option \<Rightarrow> float4 list option \<Rightarrow>
   float3 list option \<times> float3 list option \<times> float4 list option" where
  "npApplyReverseSkinning skin ipoints inormals itangents opoints onormals otangents =
     (let iroot = invert (root skin);
          poses = map (\<lambda>bi. invert (mul44 (mul44 (bindposes skin ! bi) (bones skin ! bi)) iroot))
                    [0..<num_bones skin]
      in SkinningImpl (npSkinData.num_vertices skin) poses (weights skin)
           ipoints inormals itangents opoints onormals otangents)"

text \<open>A selection weight is a scalar of the unit interval.\<close>

definition unit_weight :: "float \<Rightarrow> bool" where
  "unit_weight w = (0 \<le> w \<and> w \<le> 1)"

section \<open>Example inputs\<close>

text \<open>A one-triangle mesh in the plane \<open>z = 1\<close> with identity transform, and simple
  stand-ins for the helpers that are parameters of the model; the concrete instances of
  the theorems below are stated on them.\<close>

definition example_mesh :: npMeshData where
  "example_mesh = \<lparr> indices = [0, 1, 2],
      vertices = [Float3 0 0 1, Float3 1 0 1, Float3 0 1 1],
      normals = Some [Float3 0 0 (-1), Float3 0 0 (-1), Float3 0 0 (-1)],
      tangents = None, uv = [], selection = [0, 1 / 2, 1],
      num_vertices = 3, num_triangles = 1, transform = identity44 \<rparr>"

definition example_rti :: ray_triangles where
  "example_rti pos dir vs inds nt = Some (0, 1)"

definition example_topo :: topo_select where
  "example_topo inds ngon vs targets = [1, 2, 1]"

definition example_min_max :: min_max where
  "example_min_max lasso n = (Float2 (-2) (-2), Float2 2 2)"

definition example_poly_inside :: poly_inside where
  "example_poly_inside polyx polyy n minp maxp sp =
     (case sp of
        None \<Rightarrow> False
      | Some q \<Rightarrow> x2 minp \<le> x2 q \<and> x2 q \<le> x2 maxp \<and> y2 minp \<le> y2 q \<and> y2 q \<le> y2 maxp)"

definition scaled_mesh :: npMeshData where
  "scaled_mesh = \<lparr> indices = [], vertices = [Float3 1 0 0, Float3 0 2 0],
      normals = None, tangents = None, uv = [], selection = [],
      num_vertices = 2, num_triangles = 0,
      transform = Float4x4 (Float4 4 0 0 0) (Float4 0 1 0 0) (Float4 0 0 1 0) (Float4 0 0 0 1) \<rparr>"

definition example_to_axis_angle :: "quatf \<Rightarrow> float3 \<times> nanfloat" where
  "example_to_axis_angle q =
     (Float3 (qx q) (qy q) (qz q),
      if - 1 \<le> qw q \<and> qw q \<le> 1 then Some (2 * arccos (qw q)) else None)"

definition example_to_mat4x4 :: "quatf \<Rightarrow> float4x4" where
  "example_to_mat4x4 q = identity44"

definition example_invert_quat :: "quatf \<Rightarrow> quatf" where
  "example_invert_quat q = Quatf (- qx q) (- qy q) (- qz q) (qw q)"

definition coincident_mesh :: npMeshData where
  "coincident_mesh = \<lparr> indices = [], vertices = [Float3 0 0 0],
      normals = None, tangents = None, uv = [], selection = [],
      num_vertices = 1, num_triangles = 0, transform = identity44 \<rparr>"

definition is_mirror_partner :: "npMeshData \<Rightarrow> float3 \<Rightarrow> float \<Rightarrow> nat \<Rightarrow> nat \<Rightarrow> bool" where
  "is_mirror_partner model mirror_plane epsilon vi i =
     (plane_distance (vertices model ! i) mirror_plane > 0 \<and>
      length3 (sub3 (vertices model ! vi) (plane_mirror (vertices model ! i) mirror_plane)) < epsilon \<and>
      dot3 (the (normals model) ! vi) (plane_mirror (the (normals model) ! i) mirror_plane) \<ge> 99 / 100)"

definition mirror_mesh :: npMeshData where
  "mirror_mesh = \<lparr> indices = [],
      vertices = [Float3 (- 1) 0 0, Float3 1 0 0, Float3 0 1 0, Float3 1 1 0],
      normals = Some [Float3 (- 1) 0 0, Float3 1 0 0, Float3 0 1 0, Float3 1 0 0],
      tangents = None, uv = [], selection = [],
      num_vertices = 4, num_triangles = 0, transform = identity44 \<rparr>"

definition near_plane_mesh :: npMeshData where
  "near_plane_mesh = \<lparr> indices = [],
      vertices = [Float3 (- 1 / 131072) 0 0],
      normals = Some [Float3 1 0 0],
      tangents = None, uv = [], selection = [],
      num_vertices = 1, num_triangles = 0, transform = identity44 \<rparr>"

definition attr_at :: "attributes \<Rightarrow> nat \<Rightarrow> float3 \<times> float3 option \<times> float4 option" where
  "attr_at st i = (fst st ! i, map_option (\<lambda>l. l ! i) (fst (snd st)),
                   map_option (\<lambda>l. l ! i) (snd (snd st)))"

definition attr_fits :: "attributes \<Rightarrow> nat \<Rightarrow> bool" where
  "attr_fits st n = (n \<le> length (fst st)
      \<and> (case fst (snd st) of None \<Rightarrow> True | Some nl \<Rightarrow> n \<le> length nl)
      \<and> (case snd (snd st) of None \<Rightarrow> True | Some tgl \<Rightarrow> n \<le> length tgl))"

definition projection_model :: npMeshData where
  "projection_model = \<lparr> indices = [], vertices = [Float3 0 0 0],
      normals = Some [Float3 0 0 1], tangents = Some [Float4 1 0 0 1], uv = [],
      selection = [1 / 2], num_vertices = 1, num_triangles = 0, transform = identity44 \<rparr>"

definition projection_target :: npMeshData where
  "projection_target = \<lparr> indices = [0, 1, 2],
      vertices = [Float3 (- 1) (- 1) 1, Float3 1 (- 1) 1, Float3 0 1 1],
      normals = Some [Float3 0 0 1, Float3 0 0 1, Float3 0 0 1],
      tangents = Some [Float4 1 0 0 1, Float4 1 0 0 1, Float4 1 0 0 1], uv = [],
      selection = [0, 0, 0], num_vertices = 3, num_triangles = 1, transform = identity44 \<rparr>"

definition example_rts :: ray_triangles_soa where
  "example_rts pos dir soa n = (if z3 dir > 0 then Some (0, 1) else None)"

definition example_rts_both :: ray_triangles_soa where
  "example_rts_both pos dir soa n = (if z3 dir > 0 then Some (0, 2) else Some (0, 1))"

definition example_tri3 :: interpolation3 where
  "example_tri3 pos p0 p1 p2 a0 a1 a2 = a0"

definition example_tri4 :: interpolation4 where
  "example_tri4 pos p0 p1 p2 a0 a1 a2 = a0"

definition affine44 :: "float4x4 \<Rightarrow> bool" where
  "affine44 m = (w4 (row0 m) = 0 \<and> w4 (row1 m) = 0 \<and> w4 (row2 m) = 0 \<and> w4 (row3 m) = 1)"

definition scale2_matrix :: float4x4 where
  "scale2_matrix = Float4x4 (Float4 2 0 0 0) (Float4 0 2 0 0) (Float4 0 0 2 0) (Float4 0 0 0 1)"

definition half_weight_skin :: npSkinData where
  "half_weight_skin = \<lparr> weights = [Weights4 [1 / 2, 0, 0, 0] [0, 0, 0, 0]],
      bones = [identity44], bindposes = [identity44],
      num_vertices = 1, num_bones = 1, root = identity44 \<rparr>"

definition two_bone_skin :: npSkinData where
  "two_bone_skin = \<lparr> weights = [Weights4 [1 / 2, 1 / 2, 0, 0] [0, 1, 0, 0]],
      bones = [identity44, identity44], bindposes = [identity44, scale2_matrix],
      num_vertices = 1, num_bones = 2, root = identity44 \<rparr>"

definition identity_skin :: npSkinData where
  "identity_skin = \<lparr> weights = [Weights4 [1 / 2, 1 / 2, 0, 0] [0, 1, 0, 0]],
      bones = [identity44, identity44], bindposes = [identity44, identity44],
      num_vertices = 1, num_bones = 2, root = identity44 \<rparr>"

definition single_bone_skin :: npSkinData where
  "single_bone_skin = \<lparr> weights = [Weights4 [1, 0, 0, 0] [1, 0, 0, 0]],
      bones = [identity44, translate (Float3 1 2 3)], bindposes = [identity44, scale2_matrix],
      num_vertices = 1, num_bones = 2, root = identity44 \<rparr>"

fun pairwise_far :: "(nat \<times> float) list \<Rightarrow> bool" where
  "pairwise_far [] = True"
| "pairwise_far (x # xs) = ((\<forall>y \<in> set xs. npEpsilon \<le> \<bar>snd x - snd y\<bar>) \<and> pairwise_far xs)"

definition nearest_ok :: "nat \<times> float \<times> float \<Rightarrow> (nat \<times> float) set \<Rightarrow> float \<Rightarrow> bool" where
  "nearest_ok acc S slack =
     ((fst acc, fst (snd acc)) \<in> S \<and> (\<forall>c \<in> S. fst (snd acc) \<le> snd c + slack))"

text \<open>The facing value of a vertex, the quantity \<^verbatim>\<open>dot(normals[vi], dir)\<close> of lines 222-226.\<close>

definition facing :: "npMeshData \<Rightarrow> float3 \<Rightarrow> nat \<Rightarrow> float" where
  "facing model lcampos vi =
     dot3 (the (normals model) ! vi) (normalize3 (sub3 (vertices model ! vi) lcampos))"

text \<open>All distances of a candidate list are within \<^verbatim>\<open>npEpsilon\<close> of each other.\<close>

definition pairwise_tied :: "(nat \<times> float) list \<Rightarrow> bool" where
  "pairwise_tied xs = (\<forall>c \<in> set xs. \<forall>c' \<in> set xs. \<bar>snd c - snd c'\<bar> < npEpsilon)"

text \<open>A candidate that leaves the current nearest in place: on a tie its facing value is
  not smaller, otherwise it is farther.\<close>

definition kept :: "npMeshData \<Rightarrow> float3 \<Rightarrow> nat \<times> float \<times> float \<Rightarrow> nat \<times> float \<Rightarrow> bool" where
  "kept model lcampos acc c =
     (if near_equal (snd c) (fst (snd acc)) npEpsilon
      then snd (snd acc) \<le> facing model lcampos (fst c)
      else fst (snd acc) < snd c)"

text \<open>The current nearest is a candidate of \<open>S\<close>, carries its own facing value, and no
  candidate of \<open>S\<close> has a smaller one.\<close>

definition facing_ok :: "npMeshData \<Rightarrow> float3 \<Rightarrow> nat \<times> float \<times> float \<Rightarrow> (nat \<times> float) set \<Rightarrow> bool" where
  "facing_ok model lcampos acc S =
     ((fst acc, fst (snd acc)) \<in> S \<and> snd (snd acc) = facing model lcampos (fst acc) \<and>
      (\<forall>c \<in> S. snd (snd acc) \<le> facing model lcampos (fst c)))"

definition tie_mesh :: npMeshData where
  "tie_mesh = \<lparr> indices = [],
      vertices = [Float3 (1 / 2) 0 1, Float3 (8388609 / 16777216) 0 1],
      normals = Some [Float3 0 1 0, Float3 0 0 (- 1)],
      tangents = None, uv = [], selection = [0, 0],
      num_vertices = 2, num_triangles = 0, transform = identity44 \<rparr>"

definition pick_mesh :: npMeshData where
  "pick_mesh = \<lparr> indices = [],
      vertices = [Float3 3 0 1, Float3 0 4 1, Float3 1 0 1],
      normals = Some [Float3 0 0 (- 1), Float3 0 0 (- 1), Float3 0 0 (- 1)],
      tangents = None, uv = [], selection = [0, 0, 0],
      num_vertices = 3, num_triangles = 0, transform = identity44 \<rparr>"

text \<open>The coincidence test of \<^verbatim>\<open>npWeld\<close>, line 687, between two vertices of the mesh.\<close>

definition within_epsilon :: "npMeshData \<Rightarrow> nat \<Rightarrow> nat \<Rightarrow> bool" where
  "within_epsilon model i j =
     (length3 (sub3 (vertices model ! i) (vertices model ! j)) < npEpsilon)"

text \<open>Modelled from the spec: "whose normal differs by at most \<^verbatim>\<open>weld_angle\<close> degrees", the
  angle of two unit vectors in radians.\<close>

definition example_angle_between :: "float3 \<Rightarrow> float3 \<Rightarrow> float" where
  "example_angle_between a b = arccos (dot3 a b)"

text \<open>Four vertices on the x axis: a seed at the origin, two vertices at distance
  \<open>2\<^sup>-\<^sup>2\<^sup>4\<close> on either side of it, and a fourth at \<open>2\<^sup>-\<^sup>2\<^sup>3\<close>; \<open>2\<^sup>-\<^sup>2\<^sup>4 < npEpsilon < 2\<^sup>-\<^sup>2\<^sup>3\<close>.\<close>

definition weld_mesh :: npMeshData where
  "weld_mesh = \<lparr> indices = [],
      vertices = [Float3 0 0 0, Float3 (1 / 16777216) 0 0, Float3 (- 1 / 16777216) 0 0,
                  Float3 (1 / 8388608) 0 0],
      normals = Some [Float3 0 1 0, Float3 1 0 0, Float3 0 0 1, Float3 1 0 0],
      tangents = None, uv = [], selection = [1, 1, 1, 1],
      num_vertices = 4, num_triangles = 0, transform = identity44 \<rparr>"

text \<open>Two coincident vertices with one normal and a third vertex far away.\<close>

definition weld_pair_mesh :: npMeshData where
  "weld_pair_mesh = \<lparr> indices = [],
      vertices = [Float3 0 0 0, Float3 (1 / 16777216) 0 0, Float3 1 0 0],
      normals = Some [Float3 0 1 0, Float3 0 1 0, Float3 1 0 0],
      tangents = None, uv = [], selection = [1, 1, 1],
      num_vertices = 3, num_triangles = 0, transform = identity44 \<rparr>"

section \<open>Properties\<close>

subsection \<open>Selection weights and brush lookup\<close>

lemma clamp01_range: "0 \<le> clamp01 v \<and> clamp01 v \<le> 1"
  by (simp add: clamp01_def)

lemma GetBrushSampleIndex_edge:
  assumes "0 < r"
  shows "GetBrushSampleIndex r r n = 0"
  using assms by (simp add: GetBrushSampleIndex_def clamp01_def float_to_int_def)

lemma GetBrushSampleIndex_center:
  assumes "0 < r" "1 \<le> n"
  shows "GetBrushSampleIndex 0 r n = n - 1"
  using assms by (simp add: GetBrushSampleIndex_def clamp01_def float_to_int_def)

lemma fold_own_slot:
  fixes step :: "nat \<Rightarrow> int \<times> float list \<Rightarrow> int \<times> float list"
  assumes step: "\<And>vi acc. snd (step vi acc) = (if P vi then (snd acc)[vi := g vi (snd acc ! vi)] else snd acc)"
    and "distinct xs" and "i < length (snd acc)"
  shows "snd (fold step xs acc) ! i = (if i \<in> set xs \<and> P i then g i (snd acc ! i) else snd acc ! i)"
  using assms(2,3)
proof (induction xs arbitrary: acc)
  case Nil
  then show ?case by simp
next
  case (Cons x xs)
  have len: "length (snd (step x acc)) = length (snd acc)" by (simp add: step)
  have "snd (fold step (x # xs) acc) ! i = snd (fold step xs (step x acc)) ! i" by simp
  also have "\<dots> = (if i \<in> set xs \<and> P i then g i (snd (step x acc) ! i) else snd (step x acc) ! i)"
    using Cons.IH[of "step x acc"] Cons.prems len by simp
  also have "\<dots> = (if i \<in> set (x # xs) \<and> P i then g i (snd acc ! i) else snd acc ! i)"
    using Cons.prems by (cases "x = i") (auto simp: step nth_list_update)
  finally show ?case .
qed

lemma fold_add_selection_nth:
  assumes "i < length sel"
  shows "fold (\<lambda>v s. add_selection s v d) vs sel ! i
         = ((\<lambda>w. clamp01 (w + d)) ^^ count_list vs i) (sel ! i)"
  using assms
proof (induction vs arbitrary: sel)
  case Nil
  then show ?case by simp
next
  case (Cons v vs)
  have len: "i < length (add_selection sel v d)"
    using Cons.prems by (simp add: add_selection_def)
  have "fold (\<lambda>v s. add_selection s v d) (v # vs) sel ! i
        = ((\<lambda>w. clamp01 (w + d)) ^^ count_list vs i) (add_selection sel v d ! i)"
    using Cons.IH[OF len] by simp
  also have "\<dots> = ((\<lambda>w. clamp01 (w + d)) ^^ count_list (v # vs) i) (sel ! i)"
    using Cons.prems funpow_swap1[of "\<lambda>w. clamp01 (w + d)" "count_list vs i" "sel ! i"]
    by (cases "v = i") (simp_all add: add_selection_def)
  finally show ?case .
qed

lemma snd_fold_select_callback:
  "snd (fold (select_callback d) vs acc) = fold (\<lambda>v s. add_selection s v d) vs (snd acc)"
  by (induction vs arbitrary: acc) (simp_all add: select_callback_def)

lemma funpow_clamp01_unit:
  assumes "unit_weight w"
  shows "unit_weight (((\<lambda>w. clamp01 (w + d)) ^^ k) w)"
  using assms by (cases k) (simp_all add: unit_weight_def clamp01_range)

lemma clear_selection_nth:
  assumes "length (selection model) = num_vertices model" "vi < num_vertices model"
  shows "clear_selection model clear ! vi = (if clear then 0 else selection model ! vi)"
  using assms by (simp add: clear_selection_def nth_append)

lemma clear_selection_length:
  "length (clear_selection model clear) = length (selection model)"
  by (cases clear) (simp_all add: clear_selection_def min_def)

lemma npSelectTriangle_nth:
  assumes "vi < length (selection model)"
  shows "snd (npSelectTriangle rti model pos dir strength) ! vi =
     (case Raycast rti model pos dir of
        None \<Rightarrow> selection model ! vi
      | Some (ti, distance) \<Rightarrow>
          ((\<lambda>w. clamp01 (w + strength))
             ^^ count_list (map (\<lambda>i. indices model ! (ti * 3 + i)) [0..<3]) vi)
            (selection model ! vi))"
proof (cases "Raycast rti model pos dir")
  case None
  then show ?thesis by (simp add: npSelectTriangle_def)
next
  case (Some a)
  obtain ti distance where a: "a = (ti, distance)" by (cases a)
  have "fold (\<lambda>i sel. add_selection sel (indices model ! (ti * 3 + i)) strength) [0..<3] (selection model)
        = fold (\<lambda>v s. add_selection s v strength) (map (\<lambda>i. indices model ! (ti * 3 + i)) [0..<3]) (selection model)"
    by (simp only: fold_map comp_def)
  then show ?thesis
    using Some a assms by (simp only: npSelectTriangle_def option.case prod.case snd_conv fold_add_selection_nth)
qed

lemma npSelectEdge_nth:
  assumes "length (selection model) = num_vertices model" "vi < num_vertices model"
  shows "snd (npSelectEdge SelectEdge model strength clear use_mask) ! vi =
     ((\<lambda>w. clamp01 (w + strength))
        ^^ count_list (SelectEdge (take (num_triangles model * 3) (indices model)) 3
                         (take (num_vertices model) (vertices model))
                         (select_targets model use_mask)) vi)
       (if clear then 0 else selection model ! vi)"
  using assms
  by (simp add: npSelectEdge_def Let_def snd_fold_select_callback fold_add_selection_nth
      clear_selection_length clear_selection_nth)

lemma npSelectRect_nth:
  assumes "length (selection model) = num_vertices model" "vi < num_vertices model"
  shows "snd (npSelectRect rti model mvp rmin rmax campos strength ff) ! vi =
     (if inside_rect mvp rmin rmax (vertices model ! vi) \<and>
         frontface_hit rti model (mul_p (invert (transform model)) campos) ff vi
      then clamp01 (selection model ! vi + strength) else selection model ! vi)"
proof -
  let ?lc = "mul_p (invert (transform model)) campos"
  have "snd (fold (select_rect_step rti model mvp rmin rmax ?lc strength ff)
              [0..<num_vertices model] (0, selection model)) ! vi
        = (if vi \<in> set [0..<num_vertices model] \<and>
              (inside_rect mvp rmin rmax (vertices model ! vi) \<and> frontface_hit rti model ?lc ff vi)
           then clamp01 (snd (0::int, selection model) ! vi + strength)
           else snd (0::int, selection model) ! vi)"
    by (rule fold_own_slot) (use assms in \<open>simp_all add: select_rect_step_def add_selection_def\<close>)
  then show ?thesis using assms by (simp add: npSelectRect_def Let_def)
qed

lemma npSelectHole_nth:
  assumes "length (selection model) = num_vertices model" "vi < num_vertices model"
  shows "snd (npSelectHole SelectHole model strength clear use_mask) ! vi =
     ((\<lambda>w. clamp01 (w + strength))
        ^^ count_list (SelectHole (take (num_triangles model * 3) (indices model)) 3
                         (take (num_vertices model) (vertices model))
                         (select_targets model use_mask)) vi)
       (if clear then 0 else selection model ! vi)"
  using assms
  by (simp add: npSelectHole_def Let_def snd_fold_select_callback fold_add_selection_nth
      clear_selection_length clear_selection_nth)

lemma npSelectConnected_nth:
  assumes "length (selection model) = num_vertices model" "vi < num_vertices model"
  shows "snd (npSelectConnected SelectConnected model strength clear) ! vi =
     ((\<lambda>w. clamp01 (w + strength))
        ^^ count_list (SelectConnected (take (num_triangles model * 3) (indices model)) 3
                         (take (num_vertices model) (vertices model))
                         (select_targets model True)) vi)
       (if clear then 0 else selection model ! vi)"
  using assms
  by (simp add: npSelectConnected_def Let_def snd_fold_select_callback fold_add_selection_nth
      clear_selection_length clear_selection_nth)

lemma npSelectSingle_nth:
  assumes "vi < length (selection model)"
  shows "snd (npSelectSingle rti sched model mvp rmin rmax campos strength ff) ! vi =
     (if npSelectNearestImpl rti sched model mvp rmin rmax campos ff = Some vi
      then clamp01 (selection model ! vi + strength) else selection model ! vi)"
  using assms
  by (cases "npSelectNearestImpl rti sched model mvp rmin rmax campos ff")
     (auto simp: npSelectSingle_def add_selection_def nth_list_update)

lemma npSelectLasso_nth:
  assumes "length (selection model) = num_vertices model" "vi < num_vertices model"
  shows "snd (npSelectLasso rti MinMax PolyInside model mvp lasso num_lasso_points campos strength ff) ! vi =
     (if 3 \<le> num_lasso_points \<and>
         PolyInside (map (\<lambda>i. x2 (lasso ! i)) [0..<nat num_lasso_points])
                    (map (\<lambda>i. y2 (lasso ! i)) [0..<nat num_lasso_points])
                    num_lasso_points (fst (MinMax lasso num_lasso_points))
                    (snd (MinMax lasso num_lasso_points))
                    (screen_pos mvp (vertices model ! vi)) \<and>
         frontface_hit rti model (mul_p (invert (transform model)) campos) ff vi
      then clamp01 (selection model ! vi + strength) else selection model ! vi)"
proof (cases "num_lasso_points < 3")
  case True
  then show ?thesis by (simp add: npSelectLasso_def)
next
  case False
  let ?lc = "mul_p (invert (transform model)) campos"
  let ?px = "map (\<lambda>i. x2 (lasso ! i)) [0..<nat num_lasso_points]"
  let ?py = "map (\<lambda>i. y2 (lasso ! i)) [0..<nat num_lasso_points]"
  let ?mn = "fst (MinMax lasso num_lasso_points)"
  let ?mx = "snd (MinMax lasso num_lasso_points)"
  have "snd (fold (select_lasso_step rti PolyInside model mvp ?px ?py num_lasso_points ?mn ?mx ?lc strength ff)
              [0..<num_vertices model] (0, selection model)) ! vi
        = (if vi \<in> set [0..<num_vertices model] \<and>
              (PolyInside ?px ?py num_lasso_points ?mn ?mx (screen_pos mvp (vertices model ! vi))
               \<and> frontface_hit rti model ?lc ff vi)
           then clamp01 (snd (0::int, selection model) ! vi + strength)
           else snd (0::int, selection model) ! vi)"
    by (rule fold_own_slot)
       (use assms in \<open>simp_all add: select_lasso_step_def add_selection_def Let_def\<close>)
  then show ?thesis using assms False by (simp add: npSelectLasso_def Let_def)
qed

lemma npSelectBrush_nth:
  assumes "length (selection model) = num_vertices model" "vi < num_vertices model"
  shows "snd (npSelectBrush model pos radius strength num_bsamples bsamples) ! vi =
     (let dsq = length_sq3 (sub3 (mul_p (transform model) (vertices model ! vi)) pos)
      in if dsq \<le> radius * radius
         then clamp01 (selection model ! vi
                       + GetBrushSample (sqrt dsq) radius bsamples num_bsamples * strength)
         else selection model ! vi)"
proof -
  let ?dsq = "\<lambda>vi. length_sq3 (sub3 (mul_p (transform model) (vertices model ! vi)) pos)"
  let ?body = "\<lambda>vi d (p::float3) sel.
          let s = GetBrushSample d radius bsamples num_bsamples * strength
          in sel[vi := clamp01 (sel ! vi + s)]"
  have "snd (fold (do_select model pos radius ?body) [0..<num_vertices model] (0, selection model)) ! vi
        = (if vi \<in> set [0..<num_vertices model] \<and> ?dsq vi \<le> radius * radius
           then clamp01 (snd (0::int, selection model) ! vi
                         + GetBrushSample (sqrt (?dsq vi)) radius bsamples num_bsamples * strength)
           else snd (0::int, selection model) ! vi)"
    by (rule fold_own_slot) (use assms in \<open>simp_all add: do_select_def Let_def\<close>)
  then show ?thesis using assms by (simp add: npSelectBrush_def SelectInside_def Let_def)
qed

text \<open>Claim C10. \<^verbatim>\<open>npSelectLasso\<close> called with fewer than three lasso points returns 0
  and leaves the selection buffer as it was.\<close>

theorem C10_lasso_fewer_than_three_points:
  assumes "num_lasso_points < 3"
  shows "npSelectLasso rti MinMax PolyInside model mvp lasso num_lasso_points campos strength
           frontface_only = (0, selection model)"
  using assms by (simp add: npSelectLasso_def)

lemma length_eq_sqrt:
  assumes "0 < r" "length3 v = r"
  shows "length_sq3 v = r * r"
proof -
  have "sqrt (length_sq3 v) = r" using assms by (simp add: length3_def)
  then have "length_sq3 v = r\<^sup>2" using assms(1)
    by (metis less_eq_real_def real_sqrt_eq_iff real_sqrt_abs abs_of_nonneg real_sqrt_unique)
  then show ?thesis by (simp add: power2_eq_square)
qed

lemma length_sq3_self: "length_sq3 (sub3 p p) = 0"
  by (cases p) (simp add: length_sq3_def)

lemma GetBrushSampleIndex_floor:
  assumes "0 < r" "1 \<le> n" "0 \<le> d" "d \<le> r"
  shows "GetBrushSampleIndex d r n = \<lfloor>(1 - d / r) * real_of_int (n - 1)\<rfloor>"
    and "0 \<le> GetBrushSampleIndex d r n" and "GetBrushSampleIndex d r n \<le> n - 1"
proof -
  have a: "0 \<le> 1 - d / r" "1 - d / r \<le> 1" using assms by simp_all
  then have c: "clamp01 (1 - d / r) = 1 - d / r" by (simp add: clamp01_def)
  have nn: "0 \<le> (1 - d / r) * real_of_int (n - 1)" using a assms(2) by simp
  show i: "GetBrushSampleIndex d r n = \<lfloor>(1 - d / r) * real_of_int (n - 1)\<rfloor>"
    using nn by (simp add: GetBrushSampleIndex_def c float_to_int_def)
  show "0 \<le> GetBrushSampleIndex d r n" using nn by (simp add: i)
  have "(1 - d / r) * real_of_int (n - 1) \<le> 1 * real_of_int (n - 1)"
    using a assms(2) by (intro mult_right_mono) simp_all
  then have "\<lfloor>(1 - d / r) * real_of_int (n - 1)\<rfloor> \<le> \<lfloor>real_of_int (n - 1)\<rfloor>"
    by (intro floor_mono) simp
  then show "GetBrushSampleIndex d r n \<le> n - 1" by (simp add: i)
qed

text \<open>Claim C2, as amended. The sample index grows towards the brush centre: for a brush of
  positive radius and at least one sample, a vertex at distance exactly the radius
  receives sample 0 and a vertex at the centre receives sample \<open>N - 1\<close>; in between the
  multiplier is the single sample at the truncated index \<open>floor ((1 - d / radius) * (N - 1))\<close>,
  never an interpolation of two samples. \<^verbatim>\<open>npSelectBrush\<close> adds exactly that sample times the
  strength, saturating, to the weight of such a vertex.\<close>

theorem C2_brush_sample_lookup:
  assumes "0 < radius" and "1 \<le> num_bsamples"
  shows "GetBrushSample radius radius bsamples num_bsamples = bsamples ! 0
       \<and> GetBrushSample 0 radius bsamples num_bsamples = bsamples ! nat (num_bsamples - 1)
       \<and> (\<forall>d. 0 \<le> d \<and> d \<le> radius \<longrightarrow>
             GetBrushSample d radius bsamples num_bsamples
               = bsamples ! nat \<lfloor>(1 - d / radius) * real_of_int (num_bsamples - 1)\<rfloor>
             \<and> nat \<lfloor>(1 - d / radius) * real_of_int (num_bsamples - 1)\<rfloor> < nat num_bsamples)
       \<and> (\<forall>vi. vi < num_vertices model \<and> length (selection model) = num_vertices model \<longrightarrow>
             (length3 (sub3 (mul_p (transform model) (vertices model ! vi)) pos) = radius \<longrightarrow>
                snd (npSelectBrush model pos radius strength num_bsamples bsamples) ! vi
                  = clamp01 (selection model ! vi + bsamples ! 0 * strength))
           \<and> (mul_p (transform model) (vertices model ! vi) = pos \<longrightarrow>
                snd (npSelectBrush model pos radius strength num_bsamples bsamples) ! vi
                  = clamp01 (selection model ! vi + bsamples ! nat (num_bsamples - 1) * strength)))"
proof -
  have edge: "GetBrushSample radius radius bsamples num_bsamples = bsamples ! 0"
    using assms by (simp add: GetBrushSample_def GetBrushSampleIndex_edge)
  have center: "GetBrushSample 0 radius bsamples num_bsamples = bsamples ! nat (num_bsamples - 1)"
    using assms by (simp add: GetBrushSample_def GetBrushSampleIndex_center)
  have bucket: "GetBrushSample d radius bsamples num_bsamples
               = bsamples ! nat \<lfloor>(1 - d / radius) * real_of_int (num_bsamples - 1)\<rfloor>
             \<and> nat \<lfloor>(1 - d / radius) * real_of_int (num_bsamples - 1)\<rfloor> < nat num_bsamples"
    if "0 \<le> d" "d \<le> radius" for d
    using GetBrushSampleIndex_floor[OF assms that] assms(2)
    by (simp add: GetBrushSample_def)
  have at_edge: "snd (npSelectBrush model pos radius strength num_bsamples bsamples) ! vi
                  = clamp01 (selection model ! vi + bsamples ! 0 * strength)"
    if "vi < num_vertices model" "length (selection model) = num_vertices model"
       "length3 (sub3 (mul_p (transform model) (vertices model ! vi)) pos) = radius" for vi
  proof -
    have sq: "length_sq3 (sub3 (mul_p (transform model) (vertices model ! vi)) pos) = radius * radius"
      using length_eq_sqrt[OF assms(1) that(3)] .
    have "sqrt (radius * radius) = radius" using assms(1) by simp
    then show ?thesis
      using npSelectBrush_nth[OF that(2) that(1)] sq edge by (simp add: Let_def)
  qed
  have at_center: "snd (npSelectBrush model pos radius strength num_bsamples bsamples) ! vi
                  = clamp01 (selection model ! vi + bsamples ! nat (num_bsamples - 1) * strength)"
    if "vi < num_vertices model" "length (selection model) = num_vertices model"
       "mul_p (transform model) (vertices model ! vi) = pos" for vi
    using npSelectBrush_nth[OF that(2) that(1)] that(3) center
    by (simp add: Let_def length_sq3_self)
  show ?thesis using edge center bucket at_edge at_center by blast
qed

text \<open>Claim C2 as stated fails. With the samples 10, 20, 30 (index 0 the centre sample and
  index 2 the edge sample in the claim's reading), a vertex at distance equal to the
  radius receives 10, not the edge sample 30, and a vertex at the centre receives 30, not
  the centre sample 10. The lookup also truncates: at distance 1/8 of a unit radius the
  curve position is 1.75, whose nearest bucket is 2, and the index used is 1.\<close>

theorem C2_counterexample:
  "GetBrushSample 1 1 [10, 20, 30] 3 = 10
   \<and> GetBrushSample 1 1 [10, 20, 30] 3 \<noteq> [10, 20, 30] ! nat (3 - 1)
   \<and> GetBrushSample 0 1 [10, 20, 30] 3 = 30
   \<and> GetBrushSample 0 1 [10, 20, 30] 3 \<noteq> [10, 20, 30] ! 0
   \<and> GetBrushSampleIndex (1 / 8) 1 3 = 1
   \<and> round ((1 - (1 / 8) / 1) * real_of_int (3 - 1)) = 2"
  by (simp add: GetBrushSample_def GetBrushSampleIndex_def clamp01_def float_to_int_def round_def)

text \<open>Claim C1. On a selection buffer of \<^verbatim>\<open>num_vertices\<close> weights that all lie in [0,1],
  each of the eight selection entry points leaves every weight in [0,1], and the weight
  of a vertex is its old weight (zero after a clear) to which \<open>clamp01 (w + delta)\<close> was
  applied once per time the entry point selected the vertex.\<close>

theorem C1_selection_weights_stay_in_unit_interval:
  assumes len: "length (selection model) = num_vertices model"
    and inv: "\<forall>i. i < num_vertices model \<longrightarrow> 0 \<le> selection model ! i \<and> selection model ! i \<le> 1"
    and vi: "vi < num_vertices model"
  shows
    "(let w = snd (npSelectSingle rti sched model mvp rmin rmax campos strength ff) ! vi
      in 0 \<le> w \<and> w \<le> 1 \<and>
         w = (if npSelectNearestImpl rti sched model mvp rmin rmax campos ff = Some vi
              then clamp01 (selection model ! vi + strength) else selection model ! vi))
   \<and> (let w = snd (npSelectTriangle rti model pos dir strength) ! vi
      in 0 \<le> w \<and> w \<le> 1 \<and>
         w = (case Raycast rti model pos dir of
                None \<Rightarrow> selection model ! vi
              | Some (ti, distance) \<Rightarrow>
                  ((\<lambda>w. clamp01 (w + strength))
                     ^^ count_list (map (\<lambda>i. indices model ! (ti * 3 + i)) [0..<3]) vi)
                    (selection model ! vi)))
   \<and> (let w = snd (npSelectEdge SelectEdge model strength clear use_mask) ! vi
      in 0 \<le> w \<and> w \<le> 1 \<and>
         w = ((\<lambda>w. clamp01 (w + strength))
                ^^ count_list (SelectEdge (take (num_triangles model * 3) (indices model)) 3
                                 (take (num_vertices model) (vertices model))
                                 (select_targets model use_mask)) vi)
               (if clear then 0 else selection model ! vi))
   \<and> (let w = snd (npSelectHole SelectHole model strength clear use_mask) ! vi
      in 0 \<le> w \<and> w \<le> 1 \<and>
         w = ((\<lambda>w. clamp01 (w + strength))
                ^^ count_list (SelectHole (take (num_triangles model * 3) (indices model)) 3
                                 (take (num_vertices model) (vertices model))
                                 (select_targets model use_mask)) vi)
               (if clear then 0 else selection model ! vi))
   \<and> (let w = snd (npSelectConnected SelectConnected model strength clear) ! vi
      in 0 \<le> w \<and> w \<le> 1 \<and>
         w = ((\<lambda>w. clamp01 (w + strength))
                ^^ count_list (SelectConnected (take (num_triangles model * 3) (indices model)) 3
                                 (take (num_vertices model) (vertices model))
                                 (select_targets model True)) vi)
               (if clear then 0 else selection model ! vi))
   \<and> (let w = snd (npSelectRect rti model mvp rmin rmax campos strength ff) ! vi
      in 0 \<le> w \<and> w \<le> 1 \<and>
         w = (if inside_rect mvp rmin rmax (vertices model ! vi) \<and>
                 frontface_hit rti model (mul_p (invert (transform model)) campos) ff vi
              then clamp01 (selection model ! vi + strength) else selection model ! vi))
   \<and> (let w = snd (npSelectLasso rti MinMax PolyInside model mvp lasso num_lasso_points
                      campos strength ff) ! vi
      in 0 \<le> w \<and> w \<le> 1 \<and>
         w = (if 3 \<le> num_lasso_points \<and>
                 PolyInside (map (\<lambda>i. x2 (lasso ! i)) [0..<nat num_lasso_points])
                            (map (\<lambda>i. y2 (lasso ! i)) [0..<nat num_lasso_points])
                            num_lasso_points (fst (MinMax lasso num_lasso_points))
                            (snd (MinMax lasso num_lasso_points))
                            (screen_pos mvp (vertices model ! vi)) \<and>
                 frontface_hit rti model (mul_p (invert (transform model)) campos) ff vi
              then clamp01 (selection model ! vi + strength) else selection model ! vi))
   \<and> (let w = snd (npSelectBrush model bpos radius strength num_bsamples bsamples) ! vi
      in 0 \<le> w \<and> w \<le> 1 \<and>
         w = (let dsq = length_sq3 (sub3 (mul_p (transform model) (vertices model ! vi)) bpos)
              in if dsq \<le> radius * radius
                 then clamp01 (selection model ! vi
                               + GetBrushSample (sqrt dsq) radius bsamples num_bsamples * strength)
                 else selection model ! vi))"
proof -
  have old: "unit_weight (selection model ! vi)"
    using inv vi by (simp add: unit_weight_def)
  have zero: "unit_weight 0" by (simp add: unit_weight_def)
  have cl: "unit_weight (clamp01 x)" for x by (simp add: unit_weight_def clamp01_range)
  have pw: "unit_weight (((\<lambda>w. clamp01 (w + strength)) ^^ k) (if c then 0 else selection model ! vi))"
    for k c using funpow_clamp01_unit old zero by simp
  have pw': "unit_weight (((\<lambda>w. clamp01 (w + strength)) ^^ k) (selection model ! vi))"
    for k using funpow_clamp01_unit old by simp
  have vi': "vi < length (selection model)" using len vi by simp
  have single: "unit_weight (snd (npSelectSingle rti sched model mvp rmin rmax campos strength ff) ! vi)"
    using old cl by (simp add: npSelectSingle_nth[OF vi'])
  have tri: "unit_weight (snd (npSelectTriangle rti model pos dir strength) ! vi)"
    using old pw' by (simp add: npSelectTriangle_nth[OF vi'] split: option.split)
  have edge: "unit_weight (snd (npSelectEdge SelectEdge model strength clear use_mask) ! vi)"
    using pw by (simp only: npSelectEdge_nth[OF len vi])
  have hole: "unit_weight (snd (npSelectHole SelectHole model strength clear use_mask) ! vi)"
    using pw by (simp only: npSelectHole_nth[OF len vi])
  have conn: "unit_weight (snd (npSelectConnected SelectConnected model strength clear) ! vi)"
    using pw by (simp only: npSelectConnected_nth[OF len vi])
  have rect: "unit_weight (snd (npSelectRect rti model mvp rmin rmax campos strength ff) ! vi)"
    using old cl by (simp add: npSelectRect_nth[OF len vi])
  have lasso: "unit_weight (snd (npSelectLasso rti MinMax PolyInside model mvp lasso
                  num_lasso_points campos strength ff) ! vi)"
    using old cl by (simp add: npSelectLasso_nth[OF len vi])
  have brush: "unit_weight (snd (npSelectBrush model bpos radius strength num_bsamples bsamples) ! vi)"
    using old cl by (simp add: npSelectBrush_nth[OF len vi] Let_def)
  show ?thesis
    unfolding Let_def
    using single tri edge hole conn rect lasso brush
      npSelectSingle_nth[OF vi', of rti sched mvp rmin rmax campos strength ff]
      npSelectTriangle_nth[OF vi', of rti pos dir strength]
      npSelectEdge_nth[OF len vi, of SelectEdge strength clear use_mask]
      npSelectHole_nth[OF len vi, of SelectHole strength clear use_mask]
      npSelectConnected_nth[OF len vi, of SelectConnected strength clear]
      npSelectRect_nth[OF len vi, of rti mvp rmin rmax campos strength ff]
      npSelectLasso_nth[OF len vi, of rti MinMax PolyInside mvp lasso num_lasso_points campos strength ff]
      npSelectBrush_nth[OF len vi, of bpos radius strength num_bsamples bsamples]
    unfolding Let_def unit_weight_def
    by (intro conjI) (simp_all only:)
qed

lemma invert_identity44: "invert identity44 = identity44"
  by (simp add: invert_def identity44_def adjugate44_def det44_def scale44_def)

lemma mul_p_identity44: "mul_p identity44 v = v"
  by (cases v) (simp add: mul_p_def identity44_def)

lemma mul4_identity44: "mul4 identity44 (Float3 a b c) = Float4 a b c 1"
  by (simp add: mul4_def identity44_def)

lemma mul_v_identity44: "mul_v identity44 v = v"
  by (cases v) (simp add: mul_v_def identity44_def)

lemma upt_0_3: "[0..<3] = [0, 1, 2]"
  by code_simp

text \<open>Claim C1 on the example mesh, vertex 1 (weight 1/2), strength 1/4.\<close>

theorem C1_witness:
 "length (selection example_mesh) = num_vertices example_mesh
  \<and> list_all (\<lambda>w. 0 \<le> w \<and> w \<le> 1) (selection example_mesh)
  \<and> (1::nat) < num_vertices example_mesh
  \<and> snd (npSelectSingle example_rti [0, 1, 2] example_mesh identity44 (Float2 (1 / 2) (- 1 / 2))
            (Float2 (3 / 2) (1 / 2)) (Float3 1 0 0) (1 / 4) False) ! 1 = 3 / 4
  \<and> snd (npSelectTriangle example_rti example_mesh (Float3 0 0 0) (Float3 0 0 1) (1 / 4)) ! 1 = 3 / 4
  \<and> snd (npSelectEdge example_topo example_mesh (1 / 4) False False) ! 1 = 1
  \<and> snd (npSelectHole example_topo example_mesh (1 / 4) False False) ! 1 = 1
  \<and> snd (npSelectConnected example_topo example_mesh (1 / 4) False) ! 1 = 1
  \<and> snd (npSelectRect example_rti example_mesh identity44 (Float2 (1 / 2) (- 1 / 2))
            (Float2 (3 / 2) (1 / 2)) (Float3 1 0 0) (1 / 4) False) ! 1 = 3 / 4
  \<and> snd (npSelectLasso example_rti example_min_max example_poly_inside example_mesh identity44
            [Float2 (- 2) (- 2), Float2 2 (- 2), Float2 0 2] 3 (Float3 1 0 0) (1 / 4) False) ! 1 = 3 / 4
  \<and> snd (npSelectBrush example_mesh (Float3 1 0 1) 1 (1 / 4) 3 [1 / 2, 1, 1]) ! 1 = 3 / 4"
proof -
  have h1: "length (selection example_mesh) = num_vertices example_mesh"
    by (simp add: example_mesh_def)
  have h2: "\<forall>i. i < num_vertices example_mesh \<longrightarrow>
              0 \<le> selection example_mesh ! i \<and> selection example_mesh ! i \<le> 1"
    by (simp add: example_mesh_def nth_Cons' less_Suc_eq numeral_3_eq_3)
  have h3: "(1::nat) < num_vertices example_mesh"
    by (simp add: example_mesh_def)
  have pick: "npSelectNearestImpl example_rti [0, 1, 2] example_mesh identity44
                (Float2 (1 / 2) (- 1 / 2)) (Float2 (3 / 2) (1 / 2)) (Float3 1 0 0) False = Some 1"
    by (simp add: npSelectNearestImpl_def gather_inside_def is_candidate_def inside_rect_def
        screen_pos_def frontface_hit_def search_nearest_def nearest_step_def near_equal_def
        FLT_MAX_def npEpsilon_def max_inside_def example_mesh_def invert_identity44
        mul_p_identity44 mul4_identity44 Let_def)
  have ray: "Raycast example_rti example_mesh (Float3 0 0 0) (Float3 0 0 1) = Some (0, 1)"
    by (simp add: Raycast_def example_rti_def example_mesh_def invert_identity44
        mul_p_identity44 mul_v_identity44 Let_def normalize3_def length3_def length_sq3_def)
  have inside: "inside_rect identity44 (Float2 (1 / 2) (- 1 / 2)) (Float2 (3 / 2) (1 / 2))
                  (vertices example_mesh ! 1)"
    by (simp add: inside_rect_def screen_pos_def example_mesh_def mul4_identity44 Let_def)
  have poly: "example_poly_inside polyx polyy 3 (fst (example_min_max l 3)) (snd (example_min_max l 3))
                (screen_pos identity44 (vertices example_mesh ! 1))" for polyx polyy l
    by (simp add: example_poly_inside_def example_min_max_def screen_pos_def example_mesh_def
        mul4_identity44 Let_def)
  have dsq: "length_sq3 (sub3 (mul_p (transform example_mesh) (vertices example_mesh ! 1))
               (Float3 1 0 1)) = 0"
    by (simp add: example_mesh_def mul_p_identity44 length_sq3_def)
  have smp: "GetBrushSample 0 1 [1 / 2, 1, 1] 3 = 1"
    by (simp add: GetBrushSample_def GetBrushSampleIndex_def clamp01_def float_to_int_def)
  have cnt: "count_list (example_topo a b c d) 1 = 2" for a b c d
    by (simp add: example_topo_def)
  have tri: "count_list (map (\<lambda>i. indices example_mesh ! (0 * 3 + i)) [0..<3]) 1 = 1"
    by (simp add: example_mesh_def upt_0_3)
  have sel1: "selection example_mesh ! 1 = 1 / 2"
    by (simp add: example_mesh_def)
  have two: "(f ^^ 2) x = f (f x)" for f :: "real \<Rightarrow> real" and x
    by (simp add: numeral_2_eq_2)
  note c1 = C1_selection_weights_stay_in_unit_interval[OF h1 h2 h3,
      of example_rti "[0, 1, 2]" identity44 "Float2 (1 / 2) (- 1 / 2)" "Float2 (3 / 2) (1 / 2)"
         "Float3 1 0 0" "1 / 4" False "Float3 0 0 0" "Float3 0 0 1" example_topo False False
         example_topo example_topo example_min_max example_poly_inside
         "[Float2 (- 2) (- 2), Float2 2 (- 2), Float2 0 2]" 3 "Float3 1 0 1" 1 3 "[1 / 2, 1, 1]"]
  have sel_all: "list_all (\<lambda>w. 0 \<le> w \<and> w \<le> 1) (selection example_mesh)"
    by (simp add: example_mesh_def)
  from c1 have
    s1: "snd (npSelectSingle example_rti [0, 1, 2] example_mesh identity44 (Float2 (1 / 2) (- 1 / 2))
            (Float2 (3 / 2) (1 / 2)) (Float3 1 0 0) (1 / 4) False) ! 1 = 3 / 4"
    unfolding Let_def pick sel1 by (simp add: clamp01_def)
  from c1 have
    s2: "snd (npSelectTriangle example_rti example_mesh (Float3 0 0 0) (Float3 0 0 1) (1 / 4)) ! 1 = 3 / 4"
    unfolding Let_def ray option.case prod.case tri sel1 by (simp add: clamp01_def)
  from c1 have
    s3: "snd (npSelectEdge example_topo example_mesh (1 / 4) False False) ! 1 = 1"
    unfolding Let_def cnt two sel1 if_False by (simp add: clamp01_def)
  from c1 have
    s4: "snd (npSelectHole example_topo example_mesh (1 / 4) False False) ! 1 = 1"
    unfolding Let_def cnt two sel1 if_False by (simp add: clamp01_def)
  from c1 have
    s5: "snd (npSelectConnected example_topo example_mesh (1 / 4) False) ! 1 = 1"
    unfolding Let_def cnt two sel1 if_False by (simp add: clamp01_def)
  have ffh: "frontface_hit r m c False v" for r m c v
    by (simp add: frontface_hit_def)
  from c1 inside have
    s6: "snd (npSelectRect example_rti example_mesh identity44 (Float2 (1 / 2) (- 1 / 2))
            (Float2 (3 / 2) (1 / 2)) (Float3 1 0 0) (1 / 4) False) ! 1 = 3 / 4"
    unfolding Let_def sel1 by (simp add: ffh clamp01_def)
  from c1 poly have
    s7: "snd (npSelectLasso example_rti example_min_max example_poly_inside example_mesh identity44
            [Float2 (- 2) (- 2), Float2 2 (- 2), Float2 0 2] 3 (Float3 1 0 0) (1 / 4) False) ! 1 = 3 / 4"
    unfolding Let_def sel1 by (simp add: ffh clamp01_def)
  from c1 have
    s8: "snd (npSelectBrush example_mesh (Float3 1 0 1) 1 (1 / 4) 3 [1 / 2, 1, 1]) ! 1 = 3 / 4"
    unfolding Let_def dsq sel1 by (simp add: smp clamp01_def)
  show ?thesis
    using h1 h3 sel_all s1 s2 s3 s4 s5 s6 s7 s8 by (intro conjI) assumption+
qed

text \<open>Claim C2 (amended) on the example mesh: a brush of radius 1 centred on vertex 1;
  vertex 0 lies at distance exactly 1.\<close>

theorem C2_witness:
  "(0::real) < 1 \<and> (1::int) \<le> 3
   \<and> GetBrushSample 1 1 [1 / 2, 3 / 4, 1] 3 = 1 / 2
   \<and> GetBrushSample 0 1 [1 / 2, 3 / 4, 1] 3 = 1
   \<and> GetBrushSample (1 / 2) 1 [1 / 2, 3 / 4, 1] 3 = 3 / 4
   \<and> length3 (sub3 (mul_p (transform example_mesh) (vertices example_mesh ! 0)) (Float3 1 0 1)) = 1
   \<and> snd (npSelectBrush example_mesh (Float3 1 0 1) 1 (1 / 4) 3 [1 / 2, 3 / 4, 1]) ! 0 = 1 / 8
   \<and> mul_p (transform example_mesh) (vertices example_mesh ! 1) = Float3 1 0 1
   \<and> snd (npSelectBrush example_mesh (Float3 1 0 1) 1 (1 / 4) 3 [1 / 2, 3 / 4, 1]) ! 1 = 3 / 4"
proof -
  have h1: "(0::real) < 1" and h2: "(1::int) \<le> 3" by simp_all
  note c2 = C2_brush_sample_lookup[OF h1 h2, of "[1 / 2, 3 / 4, 1]" example_mesh "Float3 1 0 1" "1 / 4"]
  have n: "(0::nat) < num_vertices example_mesh" "(1::nat) < num_vertices example_mesh"
      "length (selection example_mesh) = num_vertices example_mesh"
    by (simp_all add: example_mesh_def)
  have d0: "length3 (sub3 (mul_p (transform example_mesh) (vertices example_mesh ! 0)) (Float3 1 0 1)) = 1"
    by (simp add: example_mesh_def mul_p_identity44 length3_def length_sq3_def)
  have d1: "mul_p (transform example_mesh) (vertices example_mesh ! 1) = Float3 1 0 1"
    by (simp add: example_mesh_def mul_p_identity44)
  have sel: "selection example_mesh ! 0 = 0" "selection example_mesh ! 1 = 1 / 2"
    by (simp_all add: example_mesh_def)
  from c2 have e: "GetBrushSample 1 1 [1 / 2, 3 / 4, 1] 3 = 1 / 2" by simp
  from c2 have c: "GetBrushSample 0 1 [1 / 2, 3 / 4, 1] 3 = 1" by simp
  from c2 have "GetBrushSample (1 / 2) 1 [1 / 2, 3 / 4, 1] 3
      = [1 / 2, 3 / 4, 1] ! nat \<lfloor>(1 - (1 / 2) / 1) * real_of_int (3 - 1)\<rfloor>"
    by simp
  then have m: "GetBrushSample (1 / 2) 1 [1 / 2, 3 / 4, 1] 3 = 3 / 4" by simp
  from c2 n(1) n(3) d0
  have v0: "snd (npSelectBrush example_mesh (Float3 1 0 1) 1 (1 / 4) 3 [1 / 2, 3 / 4, 1]) ! 0
              = clamp01 (selection example_mesh ! 0 + [1 / 2, 3 / 4, 1] ! 0 * (1 / 4))"
    by blast
  from c2 n(2) n(3) d1
  have v1: "snd (npSelectBrush example_mesh (Float3 1 0 1) 1 (1 / 4) 3 [1 / 2, 3 / 4, 1]) ! 1
              = clamp01 (selection example_mesh ! 1 + [1 / 2, 3 / 4, 1] ! nat (3 - 1) * (1 / 4))"
    by blast
  have v0': "snd (npSelectBrush example_mesh (Float3 1 0 1) 1 (1 / 4) 3 [1 / 2, 3 / 4, 1]) ! 0 = 1 / 8"
    unfolding v0 sel by (simp add: clamp01_def)
  have v1': "snd (npSelectBrush example_mesh (Float3 1 0 1) 1 (1 / 4) 3 [1 / 2, 3 / 4, 1]) ! 1 = 3 / 4"
    unfolding v1 sel by (simp add: clamp01_def)
  show ?thesis using h1 h2 e c m d0 v0' d1 v1' by (intro conjI) assumption+
qed

text \<open>Claim C10 on the example mesh with a two-point lasso.\<close>

theorem C10_witness:
  "(2::int) < 3
   \<and> npSelectLasso example_rti example_min_max example_poly_inside example_mesh identity44
        [Float2 0 0, Float2 1 1] 2 (Float3 0 0 0) 1 False = (0, [0, 1 / 2, 1])"
proof -
  have h: "(2::int) < 3" by simp
  show ?thesis
    using C10_lasso_fewer_than_three_points[OF h, of example_rti example_min_max
        example_poly_inside example_mesh identity44 "[Float2 0 0, Float2 1 1]" "Float3 0 0 0" 1 False]
    by (simp add: example_mesh_def)
qed

subsection \<open>Furthest vertex\<close>

lemma fold_furthest_step:
  assumes "fold (furthest_step model lpos use_mask) xs acc = r"
  shows "fst acc \<le> fst r
       \<and> (\<forall>vi \<in> set xs. (\<not> use_mask \<or> selection model ! vi > 0) \<longrightarrow>
             length_sq3 (sub3 (vertices model ! vi) lpos) \<le> fst r)
       \<and> (r = acc \<or>
           (fst acc < fst r \<and>
            (\<exists>v \<in> set xs. snd r = Some v \<and> (\<not> use_mask \<or> selection model ! v > 0) \<and>
               length_sq3 (sub3 (vertices model ! v) lpos) = fst r)))"
  using assms
proof (induction xs arbitrary: acc)
  case Nil
  then show ?case by simp
next
  case (Cons x xs)
  let ?a = "furthest_step model lpos use_mask x acc"
  have r: "fold (furthest_step model lpos use_mask) xs ?a = r" using Cons.prems by simp
  note ih = Cons.IH[OF r]
  have step: "fst acc \<le> fst ?a
     \<and> ((\<not> use_mask \<or> selection model ! x > 0) \<longrightarrow> length_sq3 (sub3 (vertices model ! x) lpos) \<le> fst ?a)
     \<and> (?a = acc \<or> (fst acc < fst ?a \<and> snd ?a = Some x \<and> (\<not> use_mask \<or> selection model ! x > 0)
           \<and> length_sq3 (sub3 (vertices model ! x) lpos) = fst ?a))"
    by (auto simp: furthest_step_def Let_def)
  show ?case
  proof (intro conjI)
    show "fst acc \<le> fst r" using ih step by linarith
    show "\<forall>vi\<in>set (x # xs). (\<not> use_mask \<or> 0 < selection model ! vi) \<longrightarrow>
            length_sq3 (sub3 (vertices model ! vi) lpos) \<le> fst r"
      using ih step by (auto intro: order_trans)
    show "r = acc \<or> (fst acc < fst r \<and>
            (\<exists>v\<in>set (x # xs). snd r = Some v \<and> (\<not> use_mask \<or> 0 < selection model ! v) \<and>
               length_sq3 (sub3 (vertices model ! v) lpos) = fst r))"
    proof -
      from ih have "r = ?a \<or> (fst ?a < fst r \<and>
            (\<exists>v\<in>set xs. snd r = Some v \<and> (\<not> use_mask \<or> 0 < selection model ! v) \<and>
               length_sq3 (sub3 (vertices model ! v) lpos) = fst r))" by blast
      then show ?thesis
      proof
        assume "r = ?a"
        then show ?thesis using step by auto
      next
        assume a: "fst ?a < fst r \<and>
            (\<exists>v\<in>set xs. snd r = Some v \<and> (\<not> use_mask \<or> 0 < selection model ! v) \<and>
               length_sq3 (sub3 (vertices model ! v) lpos) = fst r)"
        then have "fst acc < fst r" using step by linarith
        then show ?thesis using a by auto
      qed
    qed
  qed
qed

lemma upt_0_2: "[0..<2] = [0, 1]"
  by code_simp

text \<open>Claim C9, as amended. When some vertex passing the mask (mask disabled, or selection
  weight above 0) has a squared distance above \<^verbatim>\<open>FLT_MIN\<close> from the query point taken into
  mesh-local space, \<^verbatim>\<open>GetFurthestDistance\<close> succeeds and yields a passing vertex that
  maximises the mesh-local distance, together with the world-space distance of that vertex;
  the vertex maximises the world-space distance when the transform scales every squared
  distance from the point by one factor.\<close>

theorem C9_furthest_vertex:
  assumes far: "\<exists>vi. vi < num_vertices model \<and> (\<not> use_mask \<or> selection model ! vi > 0) \<and>
            length_sq3 (sub3 (vertices model ! vi) (mul_p (invert (transform model)) pos)) > FLT_MIN"
  shows "\<exists>vidx dist.
           GetFurthestDistance model pos use_mask = Some (vidx, dist)
         \<and> vidx < num_vertices model
         \<and> (\<not> use_mask \<or> selection model ! vidx > 0)
         \<and> (\<forall>vi. vi < num_vertices model \<and> (\<not> use_mask \<or> selection model ! vi > 0) \<longrightarrow>
               length_sq3 (sub3 (vertices model ! vi) (mul_p (invert (transform model)) pos))
               \<le> length_sq3 (sub3 (vertices model ! vidx) (mul_p (invert (transform model)) pos)))
         \<and> dist = length3 (sub3 (mul_p (transform model) (vertices model ! vidx)) pos)
         \<and> ((\<exists>k. \<forall>p. length_sq3 (sub3 (mul_p (transform model) p) pos)
                        = k * length_sq3 (sub3 p (mul_p (invert (transform model)) pos)) \<and> 0 \<le> k) \<longrightarrow>
             (\<forall>vi. vi < num_vertices model \<and> (\<not> use_mask \<or> selection model ! vi > 0) \<longrightarrow>
                length3 (sub3 (mul_p (transform model) (vertices model ! vi)) pos) \<le> dist))"
proof -
  let ?lpos = "mul_p (invert (transform model)) pos"
  let ?d = "\<lambda>vi. length_sq3 (sub3 (vertices model ! vi) ?lpos)"
  let ?pass = "\<lambda>vi. \<not> use_mask \<or> selection model ! vi > 0"
  let ?w = "\<lambda>vi. length3 (sub3 (mul_p (transform model) (vertices model ! vi)) pos)"
  define r where "r = fold (furthest_step model ?lpos use_mask) [0..<num_vertices model] (FLT_MIN, None)"
  from fold_furthest_step[OF r_def[symmetric]]
  have le: "\<forall>vi \<in> set [0..<num_vertices model]. ?pass vi \<longrightarrow> ?d vi \<le> fst r"
    and alt: "r = (FLT_MIN, None) \<or>
        (FLT_MIN < fst r \<and> (\<exists>v \<in> set [0..<num_vertices model]. snd r = Some v \<and> ?pass v \<and> ?d v = fst r))"
    by simp_all
  from far obtain u where u: "u < num_vertices model" "?pass u" "?d u > FLT_MIN" by blast
  have "?d u \<le> fst r" using le u(1,2) by simp
  then have "FLT_MIN < fst r" using u(3) by linarith
  with alt obtain v where v: "v < num_vertices model" "snd r = Some v" "?pass v" "?d v = fst r"
    by auto
  have res: "GetFurthestDistance model pos use_mask = Some (v, ?w v)"
    using \<open>FLT_MIN < fst r\<close> v(2) by (simp add: GetFurthestDistance_def Let_def r_def[symmetric])
  have mx: "\<forall>vi. vi < num_vertices model \<and> ?pass vi \<longrightarrow> ?d vi \<le> ?d v"
    using le v(4) by simp
  have world: "\<forall>vi. vi < num_vertices model \<and> ?pass vi \<longrightarrow> ?w vi \<le> ?w v"
    if "\<exists>k. \<forall>p. length_sq3 (sub3 (mul_p (transform model) p) pos) = k * length_sq3 (sub3 p ?lpos) \<and> 0 \<le> k"
  proof -
    from that obtain k where k: "\<And>p. length_sq3 (sub3 (mul_p (transform model) p) pos)
        = k * length_sq3 (sub3 p ?lpos)" "0 \<le> k" by blast
    show ?thesis
    proof (intro allI impI)
      fix vi assume "vi < num_vertices model \<and> ?pass vi"
      then have "?d vi \<le> ?d v" using mx by blast
      then have "k * ?d vi \<le> k * ?d v" using k(2) by (rule mult_left_mono)
      then show "?w vi \<le> ?w v" by (simp add: length3_def k(1))
    qed
  qed
  show ?thesis
    using res v(1) v(3) mx world by (intro exI[of _ v] exI[of _ "?w v"]) blast
qed

text \<open>Claim C9 as stated fails on \<open>scaled_mesh\<close>, whose transform stretches x by 4. Queried
  from the origin, the vertex returned is vertex 1 at world distance 2, while vertex 0 is at
  world distance 4: in mesh-local space vertex 1 is the farther one.\<close>

theorem C9_counterexample:
  "GetFurthestDistance scaled_mesh (Float3 0 0 0) False = Some (1, 2)
   \<and> length3 (sub3 (mul_p (transform scaled_mesh) (vertices scaled_mesh ! 0)) (Float3 0 0 0)) = 4
   \<and> length3 (sub3 (mul_p (transform scaled_mesh) (vertices scaled_mesh ! 1)) (Float3 0 0 0)) = 2"
proof -
  have inv: "invert (transform scaled_mesh)
     = Float4x4 (Float4 (1 / 4) 0 0 0) (Float4 0 1 0 0) (Float4 0 0 1 0) (Float4 0 0 0 1)"
    by (simp add: scaled_mesh_def invert_def adjugate44_def det44_def scale44_def)
  have lpos: "mul_p (invert (transform scaled_mesh)) (Float3 0 0 0) = Float3 0 0 0"
    unfolding inv by (simp add: mul_p_def)
  have f: "fold (furthest_step scaled_mesh (Float3 0 0 0) False) [0..<num_vertices scaled_mesh]
             (FLT_MIN, None) = (4, Some 1)"
    by (simp add: scaled_mesh_def upt_0_2 furthest_step_def length_sq3_def FLT_MIN_def)
  have w0: "length3 (sub3 (mul_p (transform scaled_mesh) (vertices scaled_mesh ! 0)) (Float3 0 0 0)) = 4"
    by (simp add: scaled_mesh_def mul_p_def length3_def length_sq3_def)
  have w1: "length3 (sub3 (mul_p (transform scaled_mesh) (vertices scaled_mesh ! 1)) (Float3 0 0 0)) = 2"
    by (simp add: scaled_mesh_def mul_p_def length3_def length_sq3_def)
  have "GetFurthestDistance scaled_mesh (Float3 0 0 0) False = Some (1, 2)"
    unfolding GetFurthestDistance_def lpos Let_def f using w1 by (simp add: FLT_MIN_def)
  then show ?thesis using w0 w1 by simp
qed

text \<open>Claim C9 (amended) on the example mesh with the mask on, queried from the position
  of vertex 0: vertices 1 and 2 are both at distance 1 and the first of them is returned.\<close>

theorem C9_witness:
  "(1::nat) < num_vertices example_mesh \<and> selection example_mesh ! 1 > 0
   \<and> length_sq3 (sub3 (vertices example_mesh ! 1)
        (mul_p (invert (transform example_mesh)) (Float3 0 0 1))) > FLT_MIN
   \<and> GetFurthestDistance example_mesh (Float3 0 0 1) True = Some (1, 1)"
proof -
  have lpos: "mul_p (invert (transform example_mesh)) (Float3 0 0 1) = Float3 0 0 1"
    by (simp add: example_mesh_def invert_identity44 mul_p_identity44)
  have h: "(1::nat) < num_vertices example_mesh" "selection example_mesh ! 1 > 0"
      "length_sq3 (sub3 (vertices example_mesh ! 1)
        (mul_p (invert (transform example_mesh)) (Float3 0 0 1))) > FLT_MIN"
    unfolding lpos by (simp_all add: example_mesh_def length_sq3_def FLT_MIN_def)
  have f: "fold (furthest_step example_mesh (Float3 0 0 1) True) [0..<num_vertices example_mesh]
             (FLT_MIN, None) = (1, Some 1)"
    by (simp add: example_mesh_def upt_0_3 furthest_step_def length_sq3_def FLT_MIN_def)
  have ev: "GetFurthestDistance example_mesh (Float3 0 0 1) True = Some (1, 1)"
    unfolding GetFurthestDistance_def lpos Let_def f
    by (simp add: FLT_MIN_def example_mesh_def mul_p_identity44 length3_def length_sq3_def)
  have "\<exists>vi. vi < num_vertices example_mesh \<and> (\<not> True \<or> selection example_mesh ! vi > 0) \<and>
            length_sq3 (sub3 (vertices example_mesh ! vi)
              (mul_p (invert (transform example_mesh)) (Float3 0 0 1))) > FLT_MIN"
    using h by blast
  from C9_furthest_vertex[OF this] ev h show ?thesis by simp
qed

text \<open>The search starts from \<^verbatim>\<open>FLT_MIN\<close>, the smallest positive float, and compares with
  \<^verbatim>\<open>>\<close>: on a mesh whose only vertex is the query point no vertex is found and the query
  fails.\<close>

lemma GetFurthestDistance_coincident_vertex:
  "GetFurthestDistance coincident_mesh (Float3 0 0 0) False = None"
proof -
  have lpos: "mul_p (invert (transform coincident_mesh)) (Float3 0 0 0) = Float3 0 0 0"
    by (simp add: coincident_mesh_def invert_identity44 mul_p_identity44)
  have f: "fold (furthest_step coincident_mesh (Float3 0 0 0) False)
             [0..<num_vertices coincident_mesh] (FLT_MIN, None) = (FLT_MIN, None)"
    by (simp add: coincident_mesh_def furthest_step_def length_sq3_def FLT_MIN_def)
  show ?thesis unfolding GetFurthestDistance_def lpos Let_def f by simp
qed

subsection \<open>Rotation about a pivot\<close>

text \<open>Claim C8. When the angle of the axis-angle decomposition of the rotation is near zero
  or is NaN, \<^verbatim>\<open>npRotatePivotVertices\<close> returns at once: the vertex buffer is the one it was
  given, whatever the pivot, the mask and the mesh.\<close>

theorem C8_rotation_by_zero_or_nan_angle_is_noop:
  assumes "near_equal_nan (snd (to_axis_angle value)) 0 default_eps
           \<or> isnan (snd (to_axis_angle value))"
  shows "npRotatePivotVertices to_axis_angle to_mat4x4 invert_quat default_eps
           model value pivot_pos pivot_rot use_mask = vertices model"
  using assms by (simp add: npRotatePivotVertices_def Let_def)

text \<open>Claim C8 on the example mesh, for the identity quaternion (angle 0) and for a
  quaternion whose angle is NaN.\<close>

theorem C8_witness:
  "near_equal_nan (snd (example_to_axis_angle (Quatf 0 0 0 1))) 0 (1 / 8192)
   \<and> npRotatePivotVertices example_to_axis_angle example_to_mat4x4 example_invert_quat (1 / 8192)
        example_mesh (Quatf 0 0 0 1) (Float3 1 2 3) (Quatf 0 0 0 1) False
      = [Float3 0 0 1, Float3 1 0 1, Float3 0 1 1]
   \<and> isnan (snd (example_to_axis_angle (Quatf 0 0 0 2)))
   \<and> npRotatePivotVertices example_to_axis_angle example_to_mat4x4 example_invert_quat (1 / 8192)
        example_mesh (Quatf 0 0 0 2) (Float3 1 2 3) (Quatf 0 0 0 1) False
      = [Float3 0 0 1, Float3 1 0 1, Float3 0 1 1]"
proof -
  have a: "near_equal_nan (snd (example_to_axis_angle (Quatf 0 0 0 1))) 0 (1 / 8192)"
    by (simp add: example_to_axis_angle_def near_equal_nan_def near_equal_def)
  have b: "isnan (snd (example_to_axis_angle (Quatf 0 0 0 2)))"
    by (simp add: example_to_axis_angle_def isnan_def)
  have v: "vertices example_mesh = [Float3 0 0 1, Float3 1 0 1, Float3 0 1 1]"
    by (simp add: example_mesh_def)
  have a': "near_equal_nan (snd (example_to_axis_angle (Quatf 0 0 0 1))) 0 (1 / 8192)
            \<or> isnan (snd (example_to_axis_angle (Quatf 0 0 0 1)))"
    using a by simp
  have b': "near_equal_nan (snd (example_to_axis_angle (Quatf 0 0 0 2))) 0 (1 / 8192)
            \<or> isnan (snd (example_to_axis_angle (Quatf 0 0 0 2)))"
    using b by simp
  show ?thesis
    using a b
      C8_rotation_by_zero_or_nan_angle_is_noop[of example_to_axis_angle "Quatf 0 0 0 1"
        "1 / 8192" example_to_mat4x4 example_invert_quat example_mesh "Float3 1 2 3"
        "Quatf 0 0 0 1" False, OF a']
      C8_rotation_by_zero_or_nan_angle_is_noop[of example_to_axis_angle "Quatf 0 0 0 2"
        "1 / 8192" example_to_mat4x4 example_invert_quat example_mesh "Float3 1 2 3"
        "Quatf 0 0 0 1" False, OF b']
    unfolding v by (intro conjI) assumption+
qed

subsection \<open>Mirroring relation\<close>

lemma mirror_match_iff:
  assumes "i < num_vertices model"
  shows "mirror_match model mirror_plane epsilon
           (map (\<lambda>vi. plane_distance (vertices model ! vi) mirror_plane) [0..<num_vertices model]) vi i
         = is_mirror_partner model mirror_plane epsilon vi i"
  using assms by (simp add: mirror_match_def is_mirror_partner_def plane_mirror_def Let_def)

lemma find_upt_cong:
  assumes "\<And>i. i < n \<Longrightarrow> P i = Q i"
  shows "find P [0..<n] = find Q [0..<n]"
proof -
  have "find P xs = find Q xs" if "\<forall>x \<in> set xs. P x = Q x" for xs
    using that by (induction xs) auto
  then show ?thesis using assms by simp
qed

lemma find_upt_Some:
  "find P [0..<n] = Some i \<longleftrightarrow> i < n \<and> P i \<and> (\<forall>j<i. \<not> P j)"
  by (auto simp: find_Some_iff)

lemma find_upt_None: "find P [0..<n] = None \<longleftrightarrow> (\<forall>i<n. \<not> P i)"
  by (auto simp: find_None_iff)

lemma npBuildMirroringRelation_nth:
  assumes "vi < num_vertices model"
  shows "the (snd (npBuildMirroringRelation default_eps model mirror_plane epsilon (Some rel))) ! vi
         = (let d1 = plane_distance (vertices model ! vi) mirror_plane
            in if d1 < 0 then
                 (case find (is_mirror_partner model mirror_plane epsilon vi) [0..<num_vertices model] of
                    Some i \<Rightarrow> int i | None \<Rightarrow> - 1)
               else if near_equal d1 0 default_eps then - 2 else - 1)"
proof -
  let ?ds = "map (\<lambda>vi. plane_distance (vertices model ! vi) mirror_plane) [0..<num_vertices model]"
  have f: "find (mirror_match model mirror_plane epsilon ?ds vi) [0..<num_vertices model]
           = find (is_mirror_partner model mirror_plane epsilon vi) [0..<num_vertices model]"
    by (rule find_upt_cong) (rule mirror_match_iff)
  have "the (snd (npBuildMirroringRelation default_eps model mirror_plane epsilon (Some rel))) ! vi
        = mirror_rel default_eps model mirror_plane epsilon ?ds vi"
    using assms by (simp add: npBuildMirroringRelation_def Let_def nth_append)
  then show ?thesis using assms by (simp add: mirror_rel_def Let_def f)
qed

lemma upt_0_4: "[0..<4] = [0, 1, 2, 3]"
  by code_simp

text \<open>Claim C5, as amended. For a vertex of negative signed distance the relation holds
  the first vertex of positive distance whose mirrored position is within epsilon and whose
  mirrored normal has a dot product of at least 0.99 with the normal of the vertex, or -1 when
  there is none. A vertex of non-negative distance within tolerance of zero is tagged -2, and
  every other vertex of non-negative distance gets -1. Without a relation buffer the call
  returns 0.\<close>

theorem C5_mirroring_relation:
  assumes "vi < num_vertices model"
  shows "(let d1 = plane_distance (vertices model ! vi) mirror_plane;
              r = the (snd (npBuildMirroringRelation default_eps model mirror_plane epsilon
                              (Some rel))) ! vi
          in (d1 < 0 \<longrightarrow>
                (\<exists>i. i < num_vertices model \<and> is_mirror_partner model mirror_plane epsilon vi i \<and>
                      (\<forall>j<i. \<not> is_mirror_partner model mirror_plane epsilon vi j) \<and> r = int i)
                \<or> ((\<forall>i<num_vertices model. \<not> is_mirror_partner model mirror_plane epsilon vi i)
                    \<and> r = - 1))
           \<and> (0 \<le> d1 \<and> near_equal d1 0 default_eps \<longrightarrow> r = - 2)
           \<and> (0 \<le> d1 \<and> \<not> near_equal d1 0 default_eps \<longrightarrow> r = - 1))
       \<and> npBuildMirroringRelation default_eps model mirror_plane epsilon None = (0, None)"
proof -
  let ?P = "is_mirror_partner model mirror_plane epsilon vi"
  let ?n = "num_vertices model"
  have neg: "(\<exists>i. i < ?n \<and> ?P i \<and> (\<forall>j<i. \<not> ?P j) \<and>
                 (case find ?P [0..<?n] of Some i \<Rightarrow> int i | None \<Rightarrow> - 1) = int i)
             \<or> ((\<forall>i<?n. \<not> ?P i) \<and> (case find ?P [0..<?n] of Some i \<Rightarrow> int i | None \<Rightarrow> - 1) = - 1)"
  proof (cases "find ?P [0..<?n]")
    case None
    then show ?thesis using find_upt_None[of ?P ?n] by simp
  next
    case (Some i)
    then show ?thesis using find_upt_Some[of ?P ?n i] by auto
  qed
  show ?thesis
    unfolding npBuildMirroringRelation_nth[OF assms] Let_def
    using neg by (auto simp: npBuildMirroringRelation_def)
qed

text \<open>Claim C5 as stated fails for a vertex at signed distance \<open>-2\<^sup>-\<^sup>1\<^sup>7\<close> with the tolerance
  \<open>2\<^sup>-\<^sup>1\<^sup>3\<close>: it is within tolerance of the plane, yet it is searched for a partner and gets
  -1, not -2.\<close>

theorem C5_counterexample:
  "near_equal (plane_distance (vertices near_plane_mesh ! 0) (Float3 1 0 0)) 0 (1 / 8192)
   \<and> snd (npBuildMirroringRelation (1 / 8192) near_plane_mesh (Float3 1 0 0) (1 / 1000) (Some [0]))
       = Some [- 1]"
  by (simp add: npBuildMirroringRelation_def mirror_rel_def mirror_match_def near_plane_mesh_def
      plane_distance_def near_equal_def Let_def)

text \<open>Claim C5 (amended) on \<open>mirror_mesh\<close> and the plane \<open>x = 0\<close>: vertex 0 at \<open>x = -1\<close> gets
  its partner, vertex 1; the whole relation is 1, -1, -2, -1.\<close>

theorem C5_witness:
  "(0::nat) < num_vertices mirror_mesh
   \<and> plane_distance (vertices mirror_mesh ! 0) (Float3 1 0 0) < 0
   \<and> is_mirror_partner mirror_mesh (Float3 1 0 0) (1 / 1000) 0 1
   \<and> \<not> is_mirror_partner mirror_mesh (Float3 1 0 0) (1 / 1000) 0 0
   \<and> the (snd (npBuildMirroringRelation (1 / 8192) mirror_mesh (Float3 1 0 0) (1 / 1000)
                  (Some [0, 0, 0, 0]))) ! 0 = 1
   \<and> npBuildMirroringRelation (1 / 8192) mirror_mesh (Float3 1 0 0) (1 / 1000) (Some [0, 0, 0, 0])
       = (1, Some [1, - 1, - 2, - 1])"
proof -
  have h: "(0::nat) < num_vertices mirror_mesh" by (simp add: mirror_mesh_def)
  have d: "plane_distance (vertices mirror_mesh ! 0) (Float3 1 0 0) < 0"
    by (simp add: mirror_mesh_def plane_distance_def)
  have p1: "is_mirror_partner mirror_mesh (Float3 1 0 0) (1 / 1000) 0 1"
    by (simp add: is_mirror_partner_def mirror_mesh_def plane_distance_def plane_mirror_def
        length3_def length_sq3_def)
  have p0: "\<not> is_mirror_partner mirror_mesh (Float3 1 0 0) (1 / 1000) 0 0"
    by (simp add: is_mirror_partner_def mirror_mesh_def plane_distance_def)
  have ev: "npBuildMirroringRelation (1 / 8192) mirror_mesh (Float3 1 0 0) (1 / 1000)
              (Some [0, 0, 0, 0]) = (1, Some [1, - 1, - 2, - 1])"
    by (simp add: npBuildMirroringRelation_def mirror_rel_def mirror_match_def mirror_mesh_def
        plane_distance_def plane_mirror_def near_equal_def length3_def length_sq3_def
        upt_0_4 Let_def)
  from C5_mirroring_relation[OF h, of "Float3 1 0 0" "1 / 8192" "1 / 1000" "[0, 0, 0, 0]"]
  have r: "the (snd (npBuildMirroringRelation (1 / 8192) mirror_mesh (Float3 1 0 0) (1 / 1000)
                  (Some [0, 0, 0, 0]))) ! 0 = 1"
    using ev by simp
  show ?thesis using h d p1 p0 r ev by (intro conjI) assumption+
qed

subsection \<open>Projection\<close>

lemma project_vertex_fits:
  "attr_fits (project_vertex rts tri3 tri4 soa to_local model target ray_dirs mode max_distance
                PNT use_mask vi st) n = attr_fits st n"
  by (auto simp: project_vertex_def attr_fits_def Let_def split: option.splits prod.splits)

lemma project_vertex_other:
  assumes "j \<noteq> vi"
  shows "attr_at (project_vertex rts tri3 tri4 soa to_local model target ray_dirs mode max_distance
                PNT use_mask vi st) j = attr_at st j"
  using assms
  by (auto simp: project_vertex_def attr_at_def Let_def split: option.splits prod.splits)

lemma project_vertex_cong:
  assumes "attr_at st1 vi = attr_at st2 vi" "attr_fits st1 n" "attr_fits st2 n" "vi < n"
  shows "attr_at (project_vertex rts tri3 tri4 soa to_local model target ray_dirs mode max_distance
                PNT use_mask vi st1) vi
       = attr_at (project_vertex rts tri3 tri4 soa to_local model target ray_dirs mode max_distance
                PNT use_mask vi st2) vi"
proof -
  obtain vs1 ns1 ts1 where s1: "st1 = (vs1, ns1, ts1)" by (cases st1) auto
  obtain vs2 ns2 ts2 where s2: "st2 = (vs2, ns2, ts2)" by (cases st2) auto
  show ?thesis
    using assms unfolding s1 s2
    by (cases ns1; cases ns2; cases ts1; cases ts2)
       (auto simp: project_vertex_def attr_at_def attr_fits_def Let_def split: option.splits prod.splits)
qed

lemma project_fold_slot:
  assumes "distinct xs" "attr_fits st n" "vi < n"
  shows "attr_at (fold (project_vertex rts tri3 tri4 soa to_local model target ray_dirs mode
                          max_distance PNT use_mask) xs st) vi
         = (if vi \<in> set xs
            then attr_at (project_vertex rts tri3 tri4 soa to_local model target ray_dirs mode
                            max_distance PNT use_mask vi st) vi
            else attr_at st vi)"
  using assms
proof (induction xs arbitrary: st)
  case Nil
  then show ?case by simp
next
  case (Cons x xs)
  let ?pv = "project_vertex rts tri3 tri4 soa to_local model target ray_dirs mode
               max_distance PNT use_mask"
  have fits: "attr_fits (?pv x st) n" using Cons.prems by (simp add: project_vertex_fits)
  have ih: "attr_at (fold ?pv xs (?pv x st)) vi
            = (if vi \<in> set xs then attr_at (?pv vi (?pv x st)) vi else attr_at (?pv x st) vi)"
    using Cons.IH[OF _ fits Cons.prems(3)] Cons.prems(1) by simp
  show ?case
  proof (cases "x = vi")
    case True
    then have "vi \<notin> set xs" using Cons.prems(1) by simp
    then show ?thesis using ih True by simp
  next
    case False
    have same: "attr_at (?pv x st) vi = attr_at st vi"
      using False by (simp add: project_vertex_other)
    have "attr_at (?pv vi (?pv x st)) vi = attr_at (?pv vi st) vi"
      by (rule project_vertex_cong[OF same fits Cons.prems(2) Cons.prems(3)])
    then show ?thesis using ih False same by simp
  qed
qed

lemma cast_none:
  assumes "\<forall>ti d. rts rpos rdir soa (num_triangles target) = Some (ti, d) \<longrightarrow> max_distance \<le> d"
      and "\<forall>ti d. rts rpos (neg3 rdir) soa (num_triangles target) = Some (ti, d) \<longrightarrow> max_distance \<le> d"
  shows "cast_backward rts tri3 tri4 soa to_local target mode max_distance rpos rdir
           (cast_forward rts tri3 tri4 soa to_local target mode max_distance rpos rdir) = None"
proof -
  have f: "cast_forward rts tri3 tri4 soa to_local target mode max_distance rpos rdir = None"
    using assms(1) by (auto simp: cast_forward_def split: option.splits)
  show ?thesis
    unfolding f using assms(2) by (auto simp: cast_backward_def split: option.splits)
qed

text \<open>The hit state after both casts, by mode, in terms of what the two rays report.\<close>

lemma cast_forward_mode:
  "cast_backward rts tri3 tri4 soa to_local target Forward max_distance rpos rdir
     (cast_forward rts tri3 tri4 soa to_local target Forward max_distance rpos rdir)
   = (case rts rpos rdir soa (num_triangles target) of
        None \<Rightarrow> None
      | Some (ti, d) \<Rightarrow>
          if d < max_distance
          then Some (d, add3 rpos (scale3 rdir d),
                     gen_normal tri3 soa to_local target (add3 rpos (scale3 rdir d)) ti,
                     gen_tangent tri4 soa to_local target (add3 rpos (scale3 rdir d)) ti)
          else None)"
  by (simp add: cast_forward_def cast_backward_def split: option.splits)

lemma cast_backward_mode:
  "cast_backward rts tri3 tri4 soa to_local target Backward max_distance rpos rdir
     (cast_forward rts tri3 tri4 soa to_local target Backward max_distance rpos rdir)
   = (case rts rpos (neg3 rdir) soa (num_triangles target) of
        None \<Rightarrow> None
      | Some (ti, d) \<Rightarrow>
          if d < max_distance
          then Some (d, add3 rpos (scale3 (neg3 rdir) d),
                     gen_normal tri3 soa to_local target (add3 rpos (scale3 (neg3 rdir) d)) ti,
                     gen_tangent tri4 soa to_local target (add3 rpos (scale3 (neg3 rdir) d)) ti)
          else None)"
  by (simp add: cast_forward_def cast_backward_def split: option.splits)

lemma cast_both_modes:
  "cast_backward rts tri3 tri4 soa to_local target ForwardAndBackward max_distance rpos rdir
     (cast_forward rts tri3 tri4 soa to_local target ForwardAndBackward max_distance rpos rdir)
   = (let f = (case rts rpos rdir soa (num_triangles target) of
                 None \<Rightarrow> None
               | Some (ti, d) \<Rightarrow>
                   if d < max_distance
                   then Some (d, add3 rpos (scale3 rdir d),
                          gen_normal tri3 soa to_local target (add3 rpos (scale3 rdir d)) ti,
                          gen_tangent tri4 soa to_local target (add3 rpos (scale3 rdir d)) ti)
                   else None);
          b = (case rts rpos (neg3 rdir) soa (num_triangles target) of
                 None \<Rightarrow> None
               | Some (ti, d) \<Rightarrow>
                   if d < max_distance
                   then Some (d, add3 rpos (scale3 (neg3 rdir) d),
                          gen_normal tri3 soa to_local target
                            (add3 rpos (scale3 (neg3 rdir) d)) ti,
                          gen_tangent tri4 soa to_local target
                            (add3 rpos (scale3 (neg3 rdir) d)) ti)
                   else None)
      in case f of
           None \<Rightarrow> b
         | Some hf \<Rightarrow> (case b of None \<Rightarrow> f
                               | Some hb \<Rightarrow> if fst hb < fst hf then b else f))"
  by (auto simp: cast_forward_def cast_backward_def Let_def split: option.splits)

lemma project_vertex_slot:
  assumes "attr_fits st n" "vi < n"
  shows "attr_at (project_vertex rts tri3 tri4 soa to_local model target ray_dirs mode max_distance
                    PNT use_mask vi st) vi
       = (let s = (if use_mask then selection model ! vi else 1);
              h = cast_backward rts tri3 tri4 soa to_local target mode max_distance
                    (fst st ! vi) (ray_dirs vi)
                    (cast_forward rts tri3 tri4 soa to_local target mode max_distance
                       (fst st ! vi) (ray_dirs vi))
          in if s = 0 then attr_at st vi
             else case h of
                    None \<Rightarrow> attr_at st vi
                  | Some (md, rv, rn, rt) \<Rightarrow>
                      ((if bit PNT 0 then lerp3 (fst st ! vi) rv s else fst st ! vi),
                       map_option (\<lambda>l. if bit PNT 1 then normalize3 (lerp3 (l ! vi) rn s) else l ! vi)
                         (fst (snd st)),
                       map_option (\<lambda>l. if bit PNT 2
                                        then set_xyz4 (l ! vi)
                                               (normalize3 (lerp3 (xyz4 (l ! vi)) (xyz4 rt) s))
                                        else l ! vi)
                         (snd (snd st))))"
proof -
  obtain vs ns ts where s: "st = (vs, ns, ts)" by (cases st) auto
  show ?thesis
    using assms unfolding s
    by (cases ns; cases ts)
       (auto simp: project_vertex_def attr_at_def attr_fits_def Let_def split: option.splits prod.splits)
qed

text \<open>Claim C6, as amended. For a vertex of a model whose attribute buffers hold
  \<^verbatim>\<open>num_vertices\<close> entries. A ray hits when the intersection routine reports a triangle at
  a distance below \<^verbatim>\<open>max_distance\<close>; the hit of a ray is the point at that distance along
  the ray, with the normal and the tangent interpolated on the triangle. In forward mode the
  hit is that of the forward ray, if any; in backward mode that of the backward ray, if
  any; in forward-and-backward mode that of the one ray that hits, and with both rays
  hitting that of the smaller distance, the forward one on a tie. When no ray that the mode
  casts hits, or the weight is 0, position, normal and tangent stay as they were; on a hit
  exactly the attributes selected by the bits of \<^verbatim>\<open>PNT\<close> (and present) are blended towards
  the hit by the weight, which is the selection weight when \<^verbatim>\<open>mask\<close> is set and 1
  otherwise.\<close>

theorem C6_projection:
  assumes vi: "vi < num_vertices model"
    and fits: "attr_fits (vertices model, normals model, tangents model) (num_vertices model)"
  shows "(let to_local = mul44 (transform target) (invert (transform model));
              soa = make_soa target to_local;
              s = (if use_mask then selection model ! vi else 1);
              rpos = vertices model ! vi;
              rdir = ray_dirs vi;
              fwd = rts rpos rdir soa (num_triangles target);
              bwd = rts rpos (neg3 rdir) soa (num_triangles target);
              hitf = (\<lambda>ti d. (d, add3 rpos (scale3 rdir d),
                        gen_normal tri3 soa to_local target (add3 rpos (scale3 rdir d)) ti,
                        gen_tangent tri4 soa to_local target (add3 rpos (scale3 rdir d)) ti));
              hitb = (\<lambda>ti d. (d, add3 rpos (scale3 (neg3 rdir) d),
                        gen_normal tri3 soa to_local target
                          (add3 rpos (scale3 (neg3 rdir) d)) ti,
                        gen_tangent tri4 soa to_local target
                          (add3 rpos (scale3 (neg3 rdir) d)) ti));
              missf = (\<forall>ti d. fwd = Some (ti, d) \<longrightarrow> max_distance \<le> d);
              missb = (\<forall>ti d. bwd = Some (ti, d) \<longrightarrow> max_distance \<le> d);
              h = cast_backward rts tri3 tri4 soa to_local target mode max_distance rpos rdir
                    (cast_forward rts tri3 tri4 soa to_local target mode max_distance rpos rdir);
              new = attr_at (npProjectVerticesImpl rts tri3 tri4 model target ray_dirs mode
                               max_distance PNT use_mask) vi;
              old = attr_at (vertices model, normals model, tangents model) vi
          in (missf \<and> missb \<longrightarrow> h = None)
           \<and> (mode = Forward \<longrightarrow>
                (missf \<longrightarrow> h = None)
              \<and> (\<forall>ti d. fwd = Some (ti, d) \<and> d < max_distance \<longrightarrow> h = Some (hitf ti d)))
           \<and> (mode = Backward \<longrightarrow>
                (missb \<longrightarrow> h = None)
              \<and> (\<forall>ti d. bwd = Some (ti, d) \<and> d < max_distance \<longrightarrow> h = Some (hitb ti d)))
           \<and> (mode = ForwardAndBackward \<longrightarrow>
                (\<forall>ti d. fwd = Some (ti, d) \<and> d < max_distance \<and> missb \<longrightarrow>
                   h = Some (hitf ti d))
              \<and> (\<forall>ti d. bwd = Some (ti, d) \<and> d < max_distance \<and> missf \<longrightarrow>
                   h = Some (hitb ti d))
              \<and> (\<forall>tf df tb db. fwd = Some (tf, df) \<and> bwd = Some (tb, db) \<and>
                     df < max_distance \<and> db < max_distance \<longrightarrow>
                   h = Some (if db < df then hitb tb db else hitf tf df)))
           \<and> (h = None \<or> s = 0 \<longrightarrow> new = old)
           \<and> (\<forall>md rv rn rt. h = Some (md, rv, rn, rt) \<and> s \<noteq> 0 \<longrightarrow>
                 new = ((if bit PNT 0 then lerp3 (vertices model ! vi) rv s else vertices model ! vi),
                        map_option (\<lambda>l. if bit PNT 1 then normalize3 (lerp3 (l ! vi) rn s)
                                         else l ! vi) (normals model),
                        map_option (\<lambda>l. if bit PNT 2
                                         then set_xyz4 (l ! vi)
                                                (normalize3 (lerp3 (xyz4 (l ! vi)) (xyz4 rt) s))
                                         else l ! vi) (tangents model))))"
proof -
  let ?tl = "mul44 (transform target) (invert (transform model))"
  let ?soa = "make_soa target ?tl"
  let ?st = "(vertices model, normals model, tangents model)"
  let ?s = "if use_mask then selection model ! vi else 1"
  let ?h = "cast_backward rts tri3 tri4 ?soa ?tl target mode max_distance (vertices model ! vi)
              (ray_dirs vi)
              (cast_forward rts tri3 tri4 ?soa ?tl target mode max_distance (vertices model ! vi)
                 (ray_dirs vi))"
  have "attr_at (npProjectVerticesImpl rts tri3 tri4 model target ray_dirs mode max_distance PNT
                   use_mask) vi
        = attr_at (project_vertex rts tri3 tri4 ?soa ?tl model target ray_dirs mode max_distance
                     PNT use_mask vi ?st) vi"
    using project_fold_slot[OF distinct_upt fits vi, of rts tri3 tri4 ?soa ?tl model target
        ray_dirs mode max_distance PNT use_mask 0] vi
    by (simp add: npProjectVerticesImpl_def Let_def)
  also have "\<dots> = (if ?s = 0 then attr_at ?st vi
             else case ?h of
                    None \<Rightarrow> attr_at ?st vi
                  | Some (md, rv, rn, rt) \<Rightarrow>
                      ((if bit PNT 0 then lerp3 (vertices model ! vi) rv ?s else vertices model ! vi),
                       map_option (\<lambda>l. if bit PNT 1 then normalize3 (lerp3 (l ! vi) rn ?s) else l ! vi)
                         (normals model),
                       map_option (\<lambda>l. if bit PNT 2
                                        then set_xyz4 (l ! vi)
                                               (normalize3 (lerp3 (xyz4 (l ! vi)) (xyz4 rt) ?s))
                                        else l ! vi)
                         (tangents model)))"
    using project_vertex_slot[OF fits vi, of rts tri3 tri4 ?soa ?tl model target ray_dirs mode
        max_distance PNT use_mask]
    by (simp add: Let_def split: option.splits prod.splits)
  finally have new: "attr_at (npProjectVerticesImpl rts tri3 tri4 model target ray_dirs mode
                       max_distance PNT use_mask) vi = \<dots>" .
  show ?thesis
  proof (cases mode)
    case Forward
    show ?thesis
      unfolding Let_def new unfolding Forward cast_forward_mode
      by (auto split: option.splits)
  next
    case Backward
    show ?thesis
      unfolding Let_def new unfolding Backward cast_backward_mode
      by (auto split: option.splits)
  next
    case ForwardAndBackward
    show ?thesis
      unfolding Let_def new unfolding ForwardAndBackward cast_both_modes
      by (auto split: option.splits)
  qed
qed

lemma mul44_identity44: "mul44 identity44 identity44 = identity44"
  by (simp add: mul44_def identity44_def row_mul_def)

lemma projection_example_forward:
  "cast_forward example_rts example_tri3 example_tri4 soa identity44 projection_target mode 10
     (Float3 0 0 0) (Float3 0 0 1)
   = (if mode = Forward \<or> mode = ForwardAndBackward
      then Some (1, Float3 0 0 1, Float3 0 0 1, Float4 1 0 0 1) else None)"
  by (simp add: cast_forward_def example_rts_def gen_normal_def gen_tangent_def
      projection_target_def example_tri3_def example_tri4_def mul_v_identity44
      normalize3_def length3_def length_sq3_def Let_def)

lemma projection_example_backward:
  "cast_backward example_rts example_tri3 example_tri4 soa identity44 projection_target mode 10
     (Float3 0 0 0) (Float3 0 0 1) st = st"
  by (simp add: cast_backward_def example_rts_def)

lemma projection_example_impl:
  "npProjectVerticesImpl example_rts example_tri3 example_tri4 projection_model projection_target
     rd mode 10 PNT use_mask
   = project_vertex example_rts example_tri3 example_tri4
       (make_soa projection_target identity44) identity44 projection_model projection_target
       rd mode 10 PNT use_mask 0
       ([Float3 0 0 0], Some [Float3 0 0 1], Some [Float4 1 0 0 1])"
proof -
  have t: "mul44 (transform projection_target) (invert (transform projection_model)) = identity44"
    by (simp add: projection_target_def projection_model_def invert_identity44 mul44_identity44)
  have n: "[0..<num_vertices projection_model] = [0]"
    by (simp add: projection_model_def)
  show ?thesis
    unfolding npProjectVerticesImpl_def Let_def t n
    by (simp add: projection_model_def)
qed

lemma projection_example_vertex:
  assumes "rd 0 = Float3 0 0 1" "mode \<noteq> Backward"
  shows "project_vertex example_rts example_tri3 example_tri4 soa identity44 projection_model
           projection_target rd mode 10 PNT use_mask 0
           ([Float3 0 0 0], Some [Float3 0 0 1], Some [Float4 1 0 0 1])
         = ([if bit PNT 0 then Float3 0 0 (if use_mask then 1 / 2 else 1) else Float3 0 0 0],
            Some [Float3 0 0 1], Some [Float4 1 0 0 1])"
proof -
  have m: "mode = Forward \<or> mode = ForwardAndBackward" using assms(2) by (cases mode) auto
  show ?thesis
    unfolding project_vertex_def Let_def fst_conv snd_conv assms(1) nth_Cons_0
      projection_example_backward projection_example_forward
    using m
    by (simp add: projection_model_def lerp3_def normalize3_def length3_def length_sq3_def)
qed

text \<open>Claim C6 as stated fails without the mask. The vertex at the origin has selection
  weight 1/2 and its forward ray hits the target at \<open>(0, 0, 1)\<close>: the position written is the
  hit point, not the blend by the selection weight, which is \<open>(0, 0, 1/2)\<close>.\<close>

theorem C6_counterexample:
  "fst (npProjectVertices example_rts example_tri3 example_tri4 projection_model projection_target
          [Float3 0 0 1] Forward 10 1 False) ! 0 = Float3 0 0 1
   \<and> selection projection_model ! 0 = 1 / 2
   \<and> lerp3 (vertices projection_model ! 0) (Float3 0 0 1) (selection projection_model ! 0)
       = Float3 0 0 (1 / 2)"
proof -
  have "npProjectVertices example_rts example_tri3 example_tri4 projection_model projection_target
          [Float3 0 0 1] Forward 10 1 False
        = ([Float3 0 0 1], Some [Float3 0 0 1], Some [Float4 1 0 0 1])"
    unfolding npProjectVertices_def projection_example_impl
    by (subst projection_example_vertex) simp_all
  then show ?thesis
    by (simp add: projection_model_def lerp3_def)
qed

lemma projection_example_attributes:
  "gen_normal example_tri3 soa identity44 projection_target pos 0 = Float3 0 0 1"
  "gen_tangent example_tri4 soa identity44 projection_target pos 0 = Float4 1 0 0 1"
  by (simp_all add: gen_normal_def gen_tangent_def projection_target_def example_tri3_def
      example_tri4_def mul_v_identity44 normalize3_def length3_def length_sq3_def Let_def)

text \<open>Claim C6 (amended) on the same model with the mask on, the vertex at the origin having
  selection weight 1/2. In forward mode the forward ray hits at \<open>(0, 0, 1)\<close> and in backward
  mode the backward ray does: positions and normals being selected, the position moves
  half-way to the hit point. In forward-and-backward mode with the forward ray hitting at
  distance 2 and the backward ray at distance 1, the position moves half-way to the backward
  hit.\<close>

theorem C6_witness:
  "(0::nat) < num_vertices projection_model
   \<and> attr_fits (vertices projection_model, normals projection_model, tangents projection_model)
        (num_vertices projection_model)
   \<and> attr_at (vertices projection_model, normals projection_model, tangents projection_model) 0
       = (Float3 0 0 0, Some (Float3 0 0 1), Some (Float4 1 0 0 1))
   \<and> attr_at (npProjectVerticesImpl example_rts example_tri3 example_tri4 projection_model
                 projection_target (\<lambda>vi. Float3 0 0 1) Forward 10 3 True) 0
       = (Float3 0 0 (1 / 2), Some (Float3 0 0 1), Some (Float4 1 0 0 1))
   \<and> attr_at (npProjectVerticesImpl example_rts example_tri3 example_tri4 projection_model
                 projection_target (\<lambda>vi. Float3 0 0 (- 1)) Backward 10 3 True) 0
       = (Float3 0 0 (1 / 2), Some (Float3 0 0 1), Some (Float4 1 0 0 1))
   \<and> attr_at (npProjectVerticesImpl example_rts_both example_tri3 example_tri4 projection_model
                 projection_target (\<lambda>vi. Float3 0 0 1) ForwardAndBackward 10 1 True) 0
       = (Float3 0 0 (- 1 / 2), Some (Float3 0 0 1), Some (Float4 1 0 0 1))"
proof -
  have h1: "(0::nat) < num_vertices projection_model" by (simp add: projection_model_def)
  have h2: "attr_fits (vertices projection_model, normals projection_model,
              tangents projection_model) (num_vertices projection_model)"
    by (simp add: projection_model_def attr_fits_def)
  have old: "attr_at (vertices projection_model, normals projection_model,
               tangents projection_model) 0
             = (Float3 0 0 0, Some (Float3 0 0 1), Some (Float4 1 0 0 1))"
    by (simp add: projection_model_def attr_at_def)
  have t: "mul44 (transform projection_target) (invert (transform projection_model)) = identity44"
    by (simp add: projection_target_def projection_model_def invert_identity44 mul44_identity44)
  have v0: "vertices projection_model ! 0 = Float3 0 0 0"
    by (simp add: projection_model_def)
  have s: "(if True then selection projection_model ! 0 else 1) \<noteq> 0"
    by (simp add: projection_model_def)
  have lt: "(1::real) < 10" "(2::real) < 10" by simp_all
  have up: "example_rts p (Float3 0 0 1) soa n = Some (0, 1)" for p soa n
    by (simp add: example_rts_def)
  have down: "example_rts p (neg3 (Float3 0 0 (- 1))) soa n = Some (0, 1)" for p soa n
    by (simp add: example_rts_def)
  have both: "example_rts_both p (Float3 0 0 1) soa n = Some (0, 2)"
    "example_rts_both p (neg3 (Float3 0 0 1)) soa n = Some (0, 1)" for p soa n
    by (simp_all add: example_rts_both_def)
  note f6 = C6_projection[OF h1 h2, of projection_target True "\<lambda>vi. Float3 0 0 1" example_rts
      example_tri3 example_tri4 10 Forward 3, unfolded Let_def t v0]
  note f_hit = f6[THEN conjunct2, THEN conjunct1, rule_format, OF refl, THEN conjunct2,
      rule_format, OF conjI[OF up lt(1)], unfolded projection_example_attributes]
  note f_new = f6[THEN conjunct2, THEN conjunct2, THEN conjunct2, THEN conjunct2,
      THEN conjunct2, rule_format, OF conjI[OF f_hit s]]
  have ev1: "attr_at (npProjectVerticesImpl example_rts example_tri3 example_tri4
                 projection_model projection_target (\<lambda>vi. Float3 0 0 1) Forward 10 3 True) 0
       = (Float3 0 0 (1 / 2), Some (Float3 0 0 1), Some (Float4 1 0 0 1))"
    unfolding f_new
    by (simp add: projection_model_def lerp3_def normalize3_def length3_def length_sq3_def)
  note b6 = C6_projection[OF h1 h2, of projection_target True "\<lambda>vi. Float3 0 0 (- 1)"
      example_rts example_tri3 example_tri4 10 Backward 3, unfolded Let_def t v0]
  note b_hit = b6[THEN conjunct2, THEN conjunct2, THEN conjunct1, rule_format, OF refl,
      THEN conjunct2, rule_format, OF conjI[OF down lt(1)],
      unfolded projection_example_attributes]
  note b_new = b6[THEN conjunct2, THEN conjunct2, THEN conjunct2, THEN conjunct2,
      THEN conjunct2, rule_format, OF conjI[OF b_hit s]]
  have ev2: "attr_at (npProjectVerticesImpl example_rts example_tri3 example_tri4
                 projection_model projection_target (\<lambda>vi. Float3 0 0 (- 1)) Backward 10 3 True) 0
       = (Float3 0 0 (1 / 2), Some (Float3 0 0 1), Some (Float4 1 0 0 1))"
    unfolding b_new
    by (simp add: projection_model_def lerp3_def normalize3_def length3_def length_sq3_def)
  note a6 = C6_projection[OF h1 h2, of projection_target True "\<lambda>vi. Float3 0 0 1"
      example_rts_both example_tri3 example_tri4 10 ForwardAndBackward 1, unfolded Let_def t v0]
  note a_hit = a6[THEN conjunct2, THEN conjunct2, THEN conjunct2, THEN conjunct1, rule_format,
      OF refl, THEN conjunct2, THEN conjunct2, rule_format,
      OF conjI[OF both(1) conjI[OF both(2) conjI[OF lt(2) lt(1)]]]]
  have a_hit': "cast_backward example_rts_both example_tri3 example_tri4
                  (make_soa projection_target identity44) identity44 projection_target
                  ForwardAndBackward 10 (Float3 0 0 0) (Float3 0 0 1)
                  (cast_forward example_rts_both example_tri3 example_tri4
                     (make_soa projection_target identity44) identity44 projection_target
                     ForwardAndBackward 10 (Float3 0 0 0) (Float3 0 0 1))
                = Some (1, Float3 0 0 (- 1), Float3 0 0 1, Float4 1 0 0 1)"
    unfolding a_hit by (simp add: projection_example_attributes)
  note a_new = a6[THEN conjunct2, THEN conjunct2, THEN conjunct2, THEN conjunct2,
      THEN conjunct2, rule_format, OF conjI[OF a_hit' s]]
  have ev3: "attr_at (npProjectVerticesImpl example_rts_both example_tri3 example_tri4
                 projection_model projection_target (\<lambda>vi. Float3 0 0 1) ForwardAndBackward 10 1
                 True) 0
       = (Float3 0 0 (- 1 / 2), Some (Float3 0 0 1), Some (Float4 1 0 0 1))"
    unfolding a_new
    by (simp add: projection_model_def lerp3_def)
  show ?thesis
    using h1 h2 old ev1 ev2 ev3 by (intro conjI) assumption+
qed

subsection \<open>Skinning\<close>

lemma mul_p_scale44: "mul_p (scale44 a c) q = scale3 (mul_p a q) c"
proof -
  obtain r0 r1 r2 r3 where m: "a = Float4x4 r0 r1 r2 r3" by (cases a)
  obtain a00 a01 a02 a03 where r0: "r0 = Float4 a00 a01 a02 a03" by (cases r0)
  obtain a10 a11 a12 a13 where r1: "r1 = Float4 a10 a11 a12 a13" by (cases r1)
  obtain a20 a21 a22 a23 where r2: "r2 = Float4 a20 a21 a22 a23" by (cases r2)
  obtain a30 a31 a32 a33 where r3: "r3 = Float4 a30 a31 a32 a33" by (cases r3)
  obtain x y z where p: "q = Float3 x y z" by (cases q)
  show ?thesis
    by (simp add: m r0 r1 r2 r3 p scale44_def mul_p_def algebra_simps)
qed

lemma adjugate_mul_p:
  assumes "affine44 m"
  shows "mul_p (adjugate44 m) (mul_p m p) = scale3 p (det44 m)"
proof -
  obtain r0 r1 r2 r3 where m: "m = Float4x4 r0 r1 r2 r3" by (cases m)
  obtain a00 a01 a02 a03 where r0: "r0 = Float4 a00 a01 a02 a03" by (cases r0)
  obtain a10 a11 a12 a13 where r1: "r1 = Float4 a10 a11 a12 a13" by (cases r1)
  obtain a20 a21 a22 a23 where r2: "r2 = Float4 a20 a21 a22 a23" by (cases r2)
  obtain a30 a31 a32 a33 where r3: "r3 = Float4 a30 a31 a32 a33" by (cases r3)
  obtain x y z where p: "p = Float3 x y z" by (cases p)
  have aff: "a03 = 0" "a13 = 0" "a23 = 0" "a33 = 1"
    using assms(1) by (simp_all add: affine44_def m r0 r1 r2 r3)
  show ?thesis
    by (simp add: m r0 r1 r2 r3 p aff adjugate44_def det44_def mul_p_def Let_def algebra_simps)
qed

lemma invert_mul_p:
  assumes "affine44 m" "det44 m \<noteq> 0"
  shows "mul_p (invert m) (mul_p m p) = p"
proof -
  have "mul_p (invert m) (mul_p m p) = scale3 (scale3 p (det44 m)) (1 / det44 m)"
    by (simp add: invert_def mul_p_scale44 adjugate_mul_p[OF assms(1)])
  also have "\<dots> = p" using assms(2) by (cases p) simp
  finally show ?thesis .
qed

lemma upt_NumInfluence: "[0..<NumInfluence] = [0, 1, 2, 3]"
  unfolding NumInfluence_def by code_simp

lemma scale3_zero: "scale3 v 0 = zero3"
  by (cases v) (simp add: zero3_def)

lemma skin_point_single_pose:
  assumes same: "\<forall>k<4. bone_weights w ! k \<noteq> 0 \<longrightarrow> mul_p (poses ! (bone_indices w ! k)) p = q"
    and sum1: "bone_weights w ! 0 + bone_weights w ! 1 + bone_weights w ! 2 + bone_weights w ! 3 = 1"
  shows "skin_point poses w p = q"
proof -
  have tm: "scale3 (mul_p (poses ! (bone_indices w ! k)) p) (bone_weights w ! k)
              = scale3 q (bone_weights w ! k)" if "k < 4" for k
    using same that by (cases "bone_weights w ! k = 0") (simp_all add: scale3_zero)
  have "skin_point poses w p
        = add3 (add3 (add3 (add3 zero3 (scale3 q (bone_weights w ! 0)))
                  (scale3 q (bone_weights w ! 1))) (scale3 q (bone_weights w ! 2)))
            (scale3 q (bone_weights w ! 3))"
    unfolding skin_point_def upt_NumInfluence by (simp add: tm)
  also have "\<dots> = scale3 q (bone_weights w ! 0 + bone_weights w ! 1 + bone_weights w ! 2
                        + bone_weights w ! 3)"
    by (cases q) (simp add: zero3_def algebra_simps)
  also have "\<dots> = q" unfolding sum1 by (cases q) simp
  finally show ?thesis .
qed

lemma skin_stream_nth:
  assumes "vi < n"
  shows "the (skin_stream n f ws (Some i) (Some out)) ! vi = f (ws ! vi) (i ! vi)"
  using assms by (simp add: skin_stream_def nth_append)

lemma skin_stream_Some:
  "skin_stream n f ws (Some i) (Some out)
   = Some (the (skin_stream n f ws (Some i) (Some out)))"
  by (simp add: skin_stream_def)

text \<open>Claim C3, as amended. For a vertex whose four bone indices are valid and whose four
  weights sum to 1: when every bindpose, every bone and the root are the identity,
  \<^verbatim>\<open>npApplySkinning\<close> writes the input position; and when every influence of non-zero
  weight has one and the same affine, invertible pose, \<^verbatim>\<open>npApplySkinning\<close> followed by
  \<^verbatim>\<open>npApplyReverseSkinning\<close> gives back the input position.\<close>

theorem C3_skinning:
  assumes vi: "vi < npSkinData.num_vertices skin"
    and idx: "\<forall>k<4. bone_indices (weights skin ! vi) ! k < num_bones skin"
    and sum1: "bone_weights (weights skin ! vi) ! 0 + bone_weights (weights skin ! vi) ! 1
               + bone_weights (weights skin ! vi) ! 2 + bone_weights (weights skin ! vi) ! 3 = 1"
  shows "((\<forall>bi<num_bones skin. bindposes skin ! bi = identity44 \<and> bones skin ! bi = identity44)
          \<and> root skin = identity44 \<longrightarrow>
            the (fst (npApplySkinning skin (Some ipoints) inormals itangents
                        (Some opoints) onormals otangents)) ! vi = ipoints ! vi)
       \<and> (affine44 P \<and> det44 P \<noteq> 0 \<and>
          (\<forall>k<4. bone_weights (weights skin ! vi) ! k \<noteq> 0 \<longrightarrow>
                 mul44 (mul44 (bindposes skin ! (bone_indices (weights skin ! vi) ! k))
                              (bones skin ! (bone_indices (weights skin ! vi) ! k)))
                       (invert (root skin)) = P) \<longrightarrow>
            the (fst (npApplyReverseSkinning skin
                        (fst (npApplySkinning skin (Some ipoints) inormals itangents
                                (Some opoints) onormals otangents))
                        inormals2 itangents2 (Some opoints2) onormals2 otangents2)) ! vi
            = ipoints ! vi)"
proof -
  let ?w = "weights skin ! vi"
  let ?pose = "\<lambda>bi. mul44 (mul44 (bindposes skin ! bi) (bones skin ! bi)) (invert (root skin))"
  let ?poses = "map ?pose [0..<num_bones skin]"
  let ?rposes = "map (\<lambda>bi. invert (?pose bi)) [0..<num_bones skin]"
  have p: "?poses ! (bone_indices ?w ! k) = ?pose (bone_indices ?w ! k)" if "k < 4" for k
    using idx that by simp
  have rp: "?rposes ! (bone_indices ?w ! k) = invert (?pose (bone_indices ?w ! k))" if "k < 4" for k
    using idx that by simp
  have fwd: "fst (npApplySkinning skin (Some ipoints) inormals itangents (Some opoints) onormals
                    otangents)
             = Some (the (skin_stream (npSkinData.num_vertices skin) (skin_point ?poses)
                            (weights skin) (Some ipoints) (Some opoints)))"
    by (simp add: npApplySkinning_def SkinningImpl_def Let_def skin_stream_Some[symmetric])
  have fwd_vi: "the (fst (npApplySkinning skin (Some ipoints) inormals itangents (Some opoints)
                            onormals otangents)) ! vi
                = skin_point ?poses ?w (ipoints ! vi)"
    unfolding fwd using vi by (simp add: skin_stream_nth)
  have A: "the (fst (npApplySkinning skin (Some ipoints) inormals itangents
                        (Some opoints) onormals otangents)) ! vi = ipoints ! vi"
    if "\<forall>bi<num_bones skin. bindposes skin ! bi = identity44 \<and> bones skin ! bi = identity44"
       "root skin = identity44"
  proof -
    have "mul_p (?poses ! (bone_indices ?w ! k)) (ipoints ! vi) = ipoints ! vi" if "k < 4" for k
      using p[OF that] idx that \<open>\<forall>bi<num_bones skin. _\<close> \<open>root skin = identity44\<close>
      by (simp add: invert_identity44 mul44_identity44 mul_p_identity44)
    then show ?thesis
      unfolding fwd_vi by (intro skin_point_single_pose sum1) simp
  qed
  have B: "the (fst (npApplyReverseSkinning skin
                        (fst (npApplySkinning skin (Some ipoints) inormals itangents
                                (Some opoints) onormals otangents))
                        inormals2 itangents2 (Some opoints2) onormals2 otangents2)) ! vi
            = ipoints ! vi"
    if aff: "affine44 P" and det: "det44 P \<noteq> 0"
      and same: "\<forall>k<4. bone_weights ?w ! k \<noteq> 0 \<longrightarrow> ?pose (bone_indices ?w ! k) = P"
  proof -
    have f: "skin_point ?poses ?w (ipoints ! vi) = mul_p P (ipoints ! vi)"
      by (intro skin_point_single_pose sum1) (use same p in simp)
    have "the (fst (npApplyReverseSkinning skin
                        (fst (npApplySkinning skin (Some ipoints) inormals itangents
                                (Some opoints) onormals otangents))
                        inormals2 itangents2 (Some opoints2) onormals2 otangents2)) ! vi
          = skin_point ?rposes ?w
              (the (fst (npApplySkinning skin (Some ipoints) inormals itangents (Some opoints)
                           onormals otangents)) ! vi)"
      unfolding fwd using vi
      by (simp add: npApplyReverseSkinning_def SkinningImpl_def Let_def skin_stream_nth)
    also have "\<dots> = skin_point ?rposes ?w (mul_p P (ipoints ! vi))"
      by (simp only: fwd_vi f)
    also have "\<dots> = ipoints ! vi"
      by (intro skin_point_single_pose sum1)
         (use same rp invert_mul_p[OF aff det] in simp)
    finally show ?thesis .
  qed
  show ?thesis using A B by blast
qed

lemma mul44_identity44_left: "mul44 identity44 m = m"
proof -
  obtain r0 r1 r2 r3 where m: "m = Float4x4 r0 r1 r2 r3" by (cases m)
  obtain a00 a01 a02 a03 where r0: "r0 = Float4 a00 a01 a02 a03" by (cases r0)
  obtain a10 a11 a12 a13 where r1: "r1 = Float4 a10 a11 a12 a13" by (cases r1)
  obtain a20 a21 a22 a23 where r2: "r2 = Float4 a20 a21 a22 a23" by (cases r2)
  obtain a30 a31 a32 a33 where r3: "r3 = Float4 a30 a31 a32 a33" by (cases r3)
  show ?thesis by (simp add: m r0 r1 r2 r3 mul44_def identity44_def row_mul_def)
qed

lemma mul44_identity44_right: "mul44 m identity44 = m"
proof -
  obtain r0 r1 r2 r3 where m: "m = Float4x4 r0 r1 r2 r3" by (cases m)
  obtain a00 a01 a02 a03 where r0: "r0 = Float4 a00 a01 a02 a03" by (cases r0)
  obtain a10 a11 a12 a13 where r1: "r1 = Float4 a10 a11 a12 a13" by (cases r1)
  obtain a20 a21 a22 a23 where r2: "r2 = Float4 a20 a21 a22 a23" by (cases r2)
  obtain a30 a31 a32 a33 where r3: "r3 = Float4 a30 a31 a32 a33" by (cases r3)
  show ?thesis by (simp add: m r0 r1 r2 r3 mul44_def identity44_def row_mul_def)
qed

lemma invert_scale2_matrix:
  "invert scale2_matrix
   = Float4x4 (Float4 (1 / 2) 0 0 0) (Float4 0 (1 / 2) 0 0) (Float4 0 0 (1 / 2) 0) (Float4 0 0 0 1)"
  by (simp add: scale2_matrix_def invert_def adjugate44_def det44_def scale44_def)

text \<open>Claim C3 as stated fails twice. With identity transforms and the weights
  1/2, 0, 0, 0 the position \<open>(1, 0, 0)\<close> is written as \<open>(1/2, 0, 0)\<close>. With two bones of invertible
  poses (the identity and a scaling by 2) and the weights 1/2, 1/2 the position \<open>(1, 0, 0)\<close>
  is skinned to \<open>(3/2, 0, 0)\<close> and taken back to \<open>(9/8, 0, 0)\<close>.\<close>

theorem C3_counterexample:
  "bindposes half_weight_skin = [identity44] \<and> bones half_weight_skin = [identity44]
   \<and> root half_weight_skin = identity44
   \<and> fst (npApplySkinning half_weight_skin (Some [Float3 1 0 0]) None None
             (Some [Float3 0 0 0]) None None) = Some [Float3 (1 / 2) 0 0]
   \<and> det44 (mul44 (mul44 (bindposes two_bone_skin ! 0) (bones two_bone_skin ! 0))
               (invert (root two_bone_skin))) = 1
   \<and> det44 (mul44 (mul44 (bindposes two_bone_skin ! 1) (bones two_bone_skin ! 1))
               (invert (root two_bone_skin))) = 8
   \<and> fst (npApplySkinning two_bone_skin (Some [Float3 1 0 0]) None None
             (Some [Float3 0 0 0]) None None) = Some [Float3 (3 / 2) 0 0]
   \<and> fst (npApplyReverseSkinning two_bone_skin
             (fst (npApplySkinning two_bone_skin (Some [Float3 1 0 0]) None None
                     (Some [Float3 0 0 0]) None None))
             None None (Some [Float3 0 0 0]) None None) = Some [Float3 (9 / 8) 0 0]"
proof -
  have a: "fst (npApplySkinning half_weight_skin (Some [Float3 1 0 0]) None None
             (Some [Float3 0 0 0]) None None) = Some [Float3 (1 / 2) 0 0]"
    by (simp add: npApplySkinning_def SkinningImpl_def skin_stream_def skin_point_def
        upt_NumInfluence half_weight_skin_def invert_identity44 mul44_identity44
        mul_p_identity44 zero3_def Let_def)
  have f: "fst (npApplySkinning two_bone_skin (Some [Float3 1 0 0]) None None
             (Some [Float3 0 0 0]) None None) = Some [Float3 (3 / 2) 0 0]"
    by (simp add: npApplySkinning_def SkinningImpl_def skin_stream_def skin_point_def
        upt_NumInfluence upt_0_2 two_bone_skin_def invert_identity44 mul44_identity44
        mul44_identity44_right mul_p_identity44 zero3_def Let_def)
       (simp add: scale2_matrix_def mul_p_def)
  have r: "fst (npApplyReverseSkinning two_bone_skin (Some [Float3 (3 / 2) 0 0])
             None None (Some [Float3 0 0 0]) None None) = Some [Float3 (9 / 8) 0 0]"
    by (simp add: npApplyReverseSkinning_def SkinningImpl_def skin_stream_def skin_point_def
        upt_NumInfluence upt_0_2 two_bone_skin_def invert_identity44 mul44_identity44
        mul44_identity44_right mul_p_identity44 zero3_def Let_def invert_scale2_matrix)
       (simp add: mul_p_def)
  have d0: "det44 (mul44 (mul44 (bindposes two_bone_skin ! 0) (bones two_bone_skin ! 0))
               (invert (root two_bone_skin))) = 1"
    by (simp add: two_bone_skin_def invert_identity44 mul44_identity44)
       (simp add: identity44_def det44_def)
  have d1: "det44 (mul44 (mul44 (bindposes two_bone_skin ! 1) (bones two_bone_skin ! 1))
               (invert (root two_bone_skin))) = 8"
    by (simp add: two_bone_skin_def invert_identity44 mul44_identity44_right)
       (simp add: scale2_matrix_def det44_def)
  show ?thesis
    using a f r d0 d1 by (simp add: half_weight_skin_def)
qed

text \<open>Claim C3 (amended): identity transforms with the weights 1/2, 1/2, 0, 0, and a
  vertex bound to one bone whose pose scales by 2 and translates.\<close>

theorem C3_witness:
  "(0::nat) < npSkinData.num_vertices identity_skin
   \<and> bindposes identity_skin = [identity44, identity44]
   \<and> bones identity_skin = [identity44, identity44]
   \<and> root identity_skin = identity44
   \<and> bone_weights (weights identity_skin ! 0) = [1 / 2, 1 / 2, 0, 0]
   \<and> the (fst (npApplySkinning identity_skin (Some [Float3 1 2 3]) None None
                  (Some [Float3 0 0 0]) None None)) ! 0 = Float3 1 2 3
   \<and> affine44 (Float4x4 (Float4 2 0 0 0) (Float4 0 2 0 0) (Float4 0 0 2 0) (Float4 1 2 3 1))
   \<and> det44 (Float4x4 (Float4 2 0 0 0) (Float4 0 2 0 0) (Float4 0 0 2 0) (Float4 1 2 3 1)) = 8
   \<and> mul44 (mul44 (bindposes single_bone_skin ! 1) (bones single_bone_skin ! 1))
        (invert (root single_bone_skin))
       = Float4x4 (Float4 2 0 0 0) (Float4 0 2 0 0) (Float4 0 0 2 0) (Float4 1 2 3 1)
   \<and> the (fst (npApplyReverseSkinning single_bone_skin
                  (fst (npApplySkinning single_bone_skin (Some [Float3 1 1 1]) None None
                          (Some [Float3 0 0 0]) None None))
                  None None (Some [Float3 0 0 0]) None None)) ! 0 = Float3 1 1 1"
proof -
  let ?P = "Float4x4 (Float4 2 0 0 0) (Float4 0 2 0 0) (Float4 0 0 2 0) (Float4 1 2 3 1)"
  have lt4: "(\<forall>k<4. Q k) \<longleftrightarrow> Q 0 \<and> Q 1 \<and> Q 2 \<and> Q (3::nat)" for Q
  proof -
    have "{..<4::nat} = {0, 1, 2, 3}" by auto
    then have "(\<forall>k<4. Q k) \<longleftrightarrow> (\<forall>k \<in> {0, 1, 2, 3::nat}. Q k)" by (metis lessThan_iff)
    then show ?thesis by simp
  qed
  have a1: "(0::nat) < npSkinData.num_vertices identity_skin" by (simp add: identity_skin_def)
  have a2: "\<forall>k<4. bone_indices (weights identity_skin ! 0) ! k < num_bones identity_skin"
    unfolding lt4 by (simp add: identity_skin_def)
  have a3: "bone_weights (weights identity_skin ! 0) ! 0 + bone_weights (weights identity_skin ! 0) ! 1
            + bone_weights (weights identity_skin ! 0) ! 2
            + bone_weights (weights identity_skin ! 0) ! 3 = 1"
    by (simp add: identity_skin_def)
  have a4: "(\<forall>bi<num_bones identity_skin. bindposes identity_skin ! bi = identity44
               \<and> bones identity_skin ! bi = identity44) \<and> root identity_skin = identity44"
    by (simp add: identity_skin_def less_Suc_eq numeral_2_eq_2)
  have A: "the (fst (npApplySkinning identity_skin (Some [Float3 1 2 3]) None None
                  (Some [Float3 0 0 0]) None None)) ! 0 = Float3 1 2 3"
    using C3_skinning[OF a1 a2 a3, of "[Float3 1 2 3]" None None "[Float3 0 0 0]" None None]
      a4 by simp
  have b1: "(0::nat) < npSkinData.num_vertices single_bone_skin" by (simp add: single_bone_skin_def)
  have b2: "\<forall>k<4. bone_indices (weights single_bone_skin ! 0) ! k < num_bones single_bone_skin"
    unfolding lt4 by (simp add: single_bone_skin_def)
  have b3: "bone_weights (weights single_bone_skin ! 0) ! 0
            + bone_weights (weights single_bone_skin ! 0) ! 1
            + bone_weights (weights single_bone_skin ! 0) ! 2
            + bone_weights (weights single_bone_skin ! 0) ! 3 = 1"
    by (simp add: single_bone_skin_def)
  have P: "mul44 (mul44 (bindposes single_bone_skin ! 1) (bones single_bone_skin ! 1))
             (invert (root single_bone_skin)) = ?P"
    by (simp add: single_bone_skin_def invert_identity44 mul44_identity44_right)
       (simp add: scale2_matrix_def translate_def mul44_def row_mul_def)
  have b4: "affine44 ?P" by (simp add: affine44_def)
  have b5: "det44 ?P = 8" by (simp add: det44_def)
  have b5': "det44 ?P \<noteq> 0" unfolding b5 by simp
  have b6: "\<forall>k<4. bone_weights (weights single_bone_skin ! 0) ! k \<noteq> 0 \<longrightarrow>
              mul44 (mul44 (bindposes single_bone_skin ! (bone_indices (weights single_bone_skin ! 0) ! k))
                      (bones single_bone_skin ! (bone_indices (weights single_bone_skin ! 0) ! k)))
                (invert (root single_bone_skin)) = ?P"
    unfolding lt4 using P by (simp add: single_bone_skin_def)
  have B: "the (fst (npApplyReverseSkinning single_bone_skin
                  (fst (npApplySkinning single_bone_skin (Some [Float3 1 1 1]) None None
                          (Some [Float3 0 0 0]) None None))
                  None None (Some [Float3 0 0 0]) None None)) ! 0 = Float3 1 1 1"
    using C3_skinning[OF b1 b2 b3, of "[Float3 1 1 1]" None None "[Float3 0 0 0]" None None ?P
        None None "[Float3 0 0 0]" None None] b4 b5' b6
    by simp
  show ?thesis
    using a1 A b4 b5 P B by (simp add: identity_skin_def)
qed

subsection \<open>Nearest pick\<close>

lemma npEpsilon_pos: "0 < npEpsilon"
  by (simp add: npEpsilon_def)

lemma nearest_step_ok:
  assumes "nearest_ok acc S slack" "0 \<le> slack"
  shows "nearest_ok (nearest_step model lcampos c acc) (insert c S) (slack + npEpsilon)"
proof -
  obtain vi d where c: "c = (vi, d)" by (cases c)
  obtain ni nd nf where acc: "acc = (ni, nd, nf)" by (cases acc)
  have in_S: "(ni, nd) \<in> S" and le: "\<And>x. x \<in> S \<Longrightarrow> nd \<le> snd x + slack"
    using assms(1) by (auto simp: nearest_ok_def acc)
  have e: "0 < npEpsilon" by (rule npEpsilon_pos)
  consider (tie_take) "near_equal d nd npEpsilon"
      "dot3 (the (normals model) ! vi) (normalize3 (sub3 (vertices model ! vi) lcampos)) < nf"
    | (tie_keep) "near_equal d nd npEpsilon"
      "\<not> dot3 (the (normals model) ! vi) (normalize3 (sub3 (vertices model ! vi) lcampos)) < nf"
    | (less) "\<not> near_equal d nd npEpsilon" "d < nd"
    | (keep) "\<not> near_equal d nd npEpsilon" "\<not> d < nd"
    by blast
  then show ?thesis
  proof cases
    case tie_take
    then have s: "nearest_step model lcampos c acc
        = (vi, d, dot3 (the (normals model) ! vi) (normalize3 (sub3 (vertices model ! vi) lcampos)))"
      by (simp add: nearest_step_def c acc Let_def)
    have "d < nd + npEpsilon" using tie_take(1) by (simp add: near_equal_def)
    then have "d \<le> snd x + (slack + npEpsilon)" if "x \<in> S" for x using le[OF that] by linarith
    moreover have "d \<le> d + (slack + npEpsilon)" using assms(2) e by linarith
    ultimately show ?thesis unfolding s by (auto simp: nearest_ok_def c)
  next
    case tie_keep
    then have s: "nearest_step model lcampos c acc = acc"
      by (simp add: nearest_step_def c acc Let_def)
    have "nd < d + npEpsilon" using tie_keep(1) by (simp add: near_equal_def)
    then have "nd \<le> d + (slack + npEpsilon)" using assms(2) by linarith
    moreover have "nd \<le> snd x + (slack + npEpsilon)" if "x \<in> S" for x
      using le[OF that] e by linarith
    ultimately show ?thesis unfolding s using in_S by (auto simp: nearest_ok_def c acc)
  next
    case less
    then have s: "nearest_step model lcampos c acc
        = (vi, d, dot3 (the (normals model) ! vi) (normalize3 (sub3 (vertices model ! vi) lcampos)))"
      by (simp add: nearest_step_def c acc Let_def)
    have "d \<le> snd x + (slack + npEpsilon)" if "x \<in> S" for x
      using le[OF that] less(2) e by linarith
    moreover have "d \<le> d + (slack + npEpsilon)" using assms(2) e by linarith
    ultimately show ?thesis unfolding s by (auto simp: nearest_ok_def c)
  next
    case keep
    then have s: "nearest_step model lcampos c acc = acc"
      by (simp add: nearest_step_def c acc Let_def)
    have "nd \<le> d + (slack + npEpsilon)" using keep(2) assms(2) e by linarith
    moreover have "nd \<le> snd x + (slack + npEpsilon)" if "x \<in> S" for x
      using le[OF that] e by linarith
    ultimately show ?thesis unfolding s using in_S by (auto simp: nearest_ok_def c acc)
  qed
qed

lemma nearest_fold_ok:
  assumes "nearest_ok acc S slack" "0 \<le> slack"
  shows "nearest_ok (fold (nearest_step model lcampos) xs acc) (S \<union> set xs)
           (slack + real (length xs) * npEpsilon)"
  using assms
proof (induction xs arbitrary: acc S slack)
  case Nil
  then show ?case by simp
next
  case (Cons x xs)
  have s: "nearest_ok (nearest_step model lcampos x acc) (insert x S) (slack + npEpsilon)"
    by (rule nearest_step_ok[OF Cons.prems])
  have "0 \<le> slack + npEpsilon" using Cons.prems(2) npEpsilon_pos by linarith
  from Cons.IH[OF s this]
  show ?case by (simp add: algebra_simps)
qed

lemma nearest_step_first:
  assumes "snd c + npEpsilon \<le> FLT_MAX"
  shows "nearest_ok (nearest_step model lcampos c (0, FLT_MAX, 1)) {c} 0"
proof -
  obtain vi d where c: "c = (vi, d)" by (cases c)
  have "\<not> near_equal d FLT_MAX npEpsilon" "d < FLT_MAX"
    using assms npEpsilon_pos by (auto simp: near_equal_def c)
  then show ?thesis
    by (simp add: nearest_step_def nearest_ok_def c Let_def)
qed

lemma search_nearest_ok:
  assumes "insider \<noteq> []" "\<forall>c \<in> set insider. snd c + npEpsilon \<le> FLT_MAX"
  shows "nearest_ok (search_nearest model lcampos insider) (set insider)
           (real (length insider - 1) * npEpsilon)"
proof -
  obtain c cs where i: "insider = c # cs" using assms(1) by (cases insider) auto
  have f: "nearest_ok (nearest_step model lcampos c (0, FLT_MAX, 1)) {c} 0"
    using assms(2) by (intro nearest_step_first) (simp add: i)
  from nearest_fold_ok[OF f, of model lcampos cs]
  show ?thesis by (simp add: search_nearest_def i)
qed

lemma nearest_step_exact:
  assumes "nearest_ok acc S 0" "\<forall>s \<in> S. npEpsilon \<le> \<bar>snd c - snd s\<bar>"
  shows "nearest_ok (nearest_step model lcampos c acc) (insert c S) 0"
proof -
  obtain vi d where c: "c = (vi, d)" by (cases c)
  obtain ni nd nf where acc: "acc = (ni, nd, nf)" by (cases acc)
  have in_S: "(ni, nd) \<in> S" and le: "\<And>x. x \<in> S \<Longrightarrow> nd \<le> snd x"
    using assms(1) by (auto simp: nearest_ok_def acc)
  have "npEpsilon \<le> \<bar>d - nd\<bar>" using assms(2) in_S by (auto simp: c)
  then have far: "\<not> near_equal d nd npEpsilon" by (simp add: near_equal_def)
  show ?thesis
  proof (cases "d < nd")
    case True
    then have s: "nearest_step model lcampos c acc
        = (vi, d, dot3 (the (normals model) ! vi) (normalize3 (sub3 (vertices model ! vi) lcampos)))"
      using far by (simp add: nearest_step_def c acc Let_def)
    have "d \<le> snd x" if "x \<in> S" for x using le[OF that] True by linarith
    then show ?thesis unfolding s by (auto simp: nearest_ok_def c)
  next
    case False
    then have s: "nearest_step model lcampos c acc = acc"
      using far by (simp add: nearest_step_def c acc Let_def)
    show ?thesis unfolding s using in_S le False by (auto simp: nearest_ok_def c acc)
  qed
qed

lemma nearest_fold_exact:
  assumes "nearest_ok acc S 0" "pairwise_far xs"
    "\<forall>x \<in> set xs. \<forall>s \<in> S. npEpsilon \<le> \<bar>snd x - snd s\<bar>"
  shows "nearest_ok (fold (nearest_step model lcampos) xs acc) (S \<union> set xs) 0"
  using assms
proof (induction xs arbitrary: acc S)
  case Nil
  then show ?case by simp
next
  case (Cons x xs)
  have s: "nearest_ok (nearest_step model lcampos x acc) (insert x S) 0"
    using Cons.prems by (intro nearest_step_exact) auto
  have far: "\<forall>y \<in> set xs. \<forall>s \<in> insert x S. npEpsilon \<le> \<bar>snd y - snd s\<bar>"
    using Cons.prems(2,3) by (auto simp: abs_minus_commute)
  from Cons.IH[OF s _ far] Cons.prems(2)
  show ?case by simp
qed

lemma search_nearest_exact:
  assumes "insider \<noteq> []" "\<forall>c \<in> set insider. snd c + npEpsilon \<le> FLT_MAX"
    "pairwise_far insider"
  shows "nearest_ok (search_nearest model lcampos insider) (set insider) 0"
proof -
  obtain c cs where i: "insider = c # cs" using assms(1) by (cases insider) auto
  have f: "nearest_ok (nearest_step model lcampos c (0, FLT_MAX, 1)) {c} 0"
    using assms(2) by (intro nearest_step_first) (simp add: i)
  have far: "\<forall>x \<in> set cs. \<forall>s \<in> {c}. npEpsilon \<le> \<bar>snd x - snd s\<bar>"
    using assms(3) by (auto simp: i abs_minus_commute)
  from nearest_fold_exact[OF f _ far, of model lcampos] assms(3)
  show ?thesis by (simp add: search_nearest_def i)
qed

lemma inside_rect_distance:
  assumes "inside_rect mvp rmin rmax v"
  shows "length2 (sub2 (the (screen_pos mvp v)) (scale2 (add2 rmin rmax) (1 / 2)))
         \<le> length2 (sub2 rmax rmin) / 2"
proof -
  obtain q where q: "screen_pos mvp v = Some q"
    using assms by (auto simp: inside_rect_def Let_def split: option.splits)
  obtain sx sy where sp: "q = Float2 sx sy" by (cases q)
  obtain ax ay where a: "rmin = Float2 ax ay" by (cases rmin)
  obtain bx by' where b: "rmax = Float2 bx by'" by (cases rmax)
  have bounds: "ax \<le> sx" "sx \<le> bx" "ay \<le> sy" "sy \<le> by'"
    using assms by (simp_all add: inside_rect_def Let_def q sp a b)
  have x: "\<bar>sx - (ax + bx) * (1 / 2)\<bar> \<le> (bx - ax) / 2" using bounds by (simp add: abs_le_iff field_simps)
  have y: "\<bar>sy - (ay + by') * (1 / 2)\<bar> \<le> (by' - ay) / 2" using bounds by (simp add: abs_le_iff field_simps)
  have sq: "u * u \<le> w * w" if "\<bar>u\<bar> \<le> w" for u w :: real
  proof -
    have "\<bar>u\<bar> * \<bar>u\<bar> \<le> w * w" using that by (intro mult_mono) simp_all
    then show ?thesis by simp
  qed
  have x2: "(sx - (ax + bx) * (1 / 2)) * (sx - (ax + bx) * (1 / 2)) \<le> ((bx - ax) / 2) * ((bx - ax) / 2)"
    by (rule sq[OF x])
  have y2: "(sy - (ay + by') * (1 / 2)) * (sy - (ay + by') * (1 / 2)) \<le> ((by' - ay) / 2) * ((by' - ay) / 2)"
    by (rule sq[OF y])
  have "sqrt ((sx - (ax + bx) * (1 / 2)) * (sx - (ax + bx) * (1 / 2))
              + (sy - (ay + by') * (1 / 2)) * (sy - (ay + by') * (1 / 2)))
        \<le> sqrt (((bx - ax) / 2) * ((bx - ax) / 2) + ((by' - ay) / 2) * ((by' - ay) / 2))"
    using x2 y2 by (intro real_sqrt_le_mono) linarith
  also have "((bx - ax) / 2) * ((bx - ax) / 2) + ((by' - ay) / 2) * ((by' - ay) / 2)
             = ((bx - ax) * (bx - ax) + (by' - ay) * (by' - ay)) / 4"
    by (simp add: field_simps)
  also have "sqrt (\<dots>) = sqrt ((bx - ax) * (bx - ax) + (by' - ay) * (by' - ay)) / 2"
    by (simp add: real_sqrt_divide)
  finally show ?thesis by (simp add: q sp a b)
qed

lemma FLT_MAX_half: "FLT_MAX / 2 + npEpsilon \<le> FLT_MAX"
  by (simp add: FLT_MAX_def npEpsilon_def)

text \<open>A step of the search leaves the current nearest in place or replaces it by the
  candidate with the candidate's facing value.\<close>

lemma nearest_step_kept:
  assumes "kept model lcampos acc c"
  shows "nearest_step model lcampos c acc = acc"
  using assms by (auto simp: nearest_step_def kept_def facing_def Let_def split: if_splits)

lemma nearest_step_taken:
  assumes "\<not> kept model lcampos acc c"
  shows "nearest_step model lcampos c acc = (fst c, snd c, facing model lcampos (fst c))"
proof (cases "near_equal (snd c) (fst (snd acc)) npEpsilon")
  case True
  then show ?thesis
    using assms by (auto simp: nearest_step_def kept_def facing_def Let_def)
next
  case False
  then have "snd c \<noteq> fst (snd acc)" using npEpsilon_pos by (auto simp: near_equal_def)
  then have "snd c < fst (snd acc)" using assms False by (auto simp: kept_def)
  then show ?thesis
    using False by (simp add: nearest_step_def facing_def Let_def)
qed

lemma nearest_fold_split:
  "(fold (nearest_step model lcampos) xs acc = acc \<and> (\<forall>c \<in> set xs. kept model lcampos acc c))
   \<or> (\<exists>pre c post. xs = pre @ c # post
         \<and> fold (nearest_step model lcampos) xs acc = (fst c, snd c, facing model lcampos (fst c))
         \<and> (\<forall>c' \<in> set post. kept model lcampos (fst c, snd c, facing model lcampos (fst c)) c'))"
proof (induction xs arbitrary: acc)
  case Nil
  then show ?case by simp
next
  case (Cons x xs)
  show ?case
  proof (cases "kept model lcampos acc x")
    case True
    then have s: "nearest_step model lcampos x acc = acc" by (rule nearest_step_kept)
    from Cons.IH[of acc] show ?thesis
    proof
      assume "fold (nearest_step model lcampos) xs acc = acc
              \<and> (\<forall>c \<in> set xs. kept model lcampos acc c)"
      then show ?thesis using True s by simp
    next
      assume "\<exists>pre c post. xs = pre @ c # post
         \<and> fold (nearest_step model lcampos) xs acc = (fst c, snd c, facing model lcampos (fst c))
         \<and> (\<forall>c' \<in> set post. kept model lcampos (fst c, snd c, facing model lcampos (fst c)) c')"
      then obtain pre c post where p: "xs = pre @ c # post"
        "fold (nearest_step model lcampos) xs acc = (fst c, snd c, facing model lcampos (fst c))"
        "\<forall>c' \<in> set post. kept model lcampos (fst c, snd c, facing model lcampos (fst c)) c'"
        by blast
      have "x # xs = (x # pre) @ c # post" using p(1) by simp
      then show ?thesis using p(2,3) s by (intro disjI2 exI[of _ "x # pre"] exI[of _ c] exI[of _ post]) simp
    qed
  next
    case False
    let ?a = "(fst x, snd x, facing model lcampos (fst x))"
    from False have s: "nearest_step model lcampos x acc = ?a" by (rule nearest_step_taken)
    from Cons.IH[of ?a] show ?thesis
    proof
      assume "fold (nearest_step model lcampos) xs ?a = ?a
              \<and> (\<forall>c \<in> set xs. kept model lcampos ?a c)"
      then show ?thesis
        using s by (intro disjI2 exI[of _ "[]"] exI[of _ x] exI[of _ xs]) simp
    next
      assume "\<exists>pre c post. xs = pre @ c # post
         \<and> fold (nearest_step model lcampos) xs ?a = (fst c, snd c, facing model lcampos (fst c))
         \<and> (\<forall>c' \<in> set post. kept model lcampos (fst c, snd c, facing model lcampos (fst c)) c')"
      then obtain pre c post where p: "xs = pre @ c # post"
        "fold (nearest_step model lcampos) xs ?a = (fst c, snd c, facing model lcampos (fst c))"
        "\<forall>c' \<in> set post. kept model lcampos (fst c, snd c, facing model lcampos (fst c)) c'"
        by blast
      have "x # xs = (x # pre) @ c # post" using p(1) by simp
      then show ?thesis using p(2,3) s by (intro disjI2 exI[of _ "x # pre"] exI[of _ c] exI[of _ post]) simp
    qed
  qed
qed

lemma first_not_kept:
  assumes "snd c + npEpsilon \<le> FLT_MAX"
  shows "\<not> kept model lcampos (0, FLT_MAX, 1) c"
  using assms npEpsilon_pos by (auto simp: kept_def near_equal_def)

lemma search_nearest_split:
  assumes "insider \<noteq> []" "\<forall>c \<in> set insider. snd c + npEpsilon \<le> FLT_MAX"
  shows "\<exists>pre c post. insider = pre @ c # post
         \<and> search_nearest model lcampos insider = (fst c, snd c, facing model lcampos (fst c))
         \<and> (\<forall>c' \<in> set post. kept model lcampos (fst c, snd c, facing model lcampos (fst c)) c')"
proof -
  obtain c0 cs where i: "insider = c0 # cs" using assms(1) by (cases insider) auto
  have "\<not> kept model lcampos (0, FLT_MAX, 1) c0"
    using assms(2) by (intro first_not_kept) (simp add: i)
  then have "\<not> (\<forall>c \<in> set insider. kept model lcampos (0, FLT_MAX, 1) c)" by (auto simp: i)
  then show ?thesis
    using nearest_fold_split[of model lcampos insider "(0, FLT_MAX, 1)"]
    by (auto simp: search_nearest_def)
qed

text \<open>When all distances are tied, every step compares facing values only.\<close>

lemma nearest_step_tied:
  assumes "facing_ok model lcampos acc S" "\<bar>snd c - fst (snd acc)\<bar> < npEpsilon"
  shows "facing_ok model lcampos (nearest_step model lcampos c acc) (insert c S)"
proof (cases "kept model lcampos acc c")
  case True
  then have "snd (snd acc) \<le> facing model lcampos (fst c)"
    using assms(2) by (simp add: kept_def near_equal_def)
  then show ?thesis
    using assms(1) by (auto simp: nearest_step_kept[OF True] facing_ok_def)
next
  case False
  then have "facing model lcampos (fst c) < snd (snd acc)"
    using assms(2) by (simp add: kept_def near_equal_def)
  then show ?thesis
    using assms(1) by (fastforce simp: nearest_step_taken[OF False] facing_ok_def)
qed

lemma nearest_fold_tied:
  assumes "facing_ok model lcampos acc S" "S \<subseteq> T" "set xs \<subseteq> T"
    "\<forall>c \<in> T. \<forall>c' \<in> T. \<bar>snd c - snd c'\<bar> < npEpsilon"
  shows "facing_ok model lcampos (fold (nearest_step model lcampos) xs acc) (S \<union> set xs)"
  using assms(1-3)
proof (induction xs arbitrary: acc S)
  case Nil
  then show ?case by simp
next
  case (Cons x xs)
  have "(fst acc, fst (snd acc)) \<in> T" using Cons.prems(1,2) by (auto simp: facing_ok_def)
  moreover have "x \<in> T" using Cons.prems(3) by simp
  ultimately have "\<bar>snd x - fst (snd acc)\<bar> < npEpsilon" using assms(4) by fastforce
  then have s: "facing_ok model lcampos (nearest_step model lcampos x acc) (insert x S)"
    by (rule nearest_step_tied[OF Cons.prems(1)])
  from Cons.IH[OF s] Cons.prems(2,3)
  show ?case by simp
qed

lemma search_nearest_tied:
  assumes "insider \<noteq> []" "\<forall>c \<in> set insider. snd c + npEpsilon \<le> FLT_MAX"
    "pairwise_tied insider"
  shows "facing_ok model lcampos (search_nearest model lcampos insider) (set insider)"
proof -
  obtain c0 cs where i: "insider = c0 # cs" using assms(1) by (cases insider) auto
  have "\<not> kept model lcampos (0, FLT_MAX, 1) c0"
    using assms(2) by (intro first_not_kept) (simp add: i)
  then have s: "nearest_step model lcampos c0 (0, FLT_MAX, 1)
                = (fst c0, snd c0, facing model lcampos (fst c0))"
    by (rule nearest_step_taken)
  have f: "facing_ok model lcampos (fst c0, snd c0, facing model lcampos (fst c0)) {c0}"
    by (simp add: facing_ok_def)
  have "facing_ok model lcampos
          (fold (nearest_step model lcampos) cs (fst c0, snd c0, facing model lcampos (fst c0)))
          ({c0} \<union> set cs)"
    using assms(3) by (intro nearest_fold_tied[OF f, of "set insider"]) (auto simp: i pairwise_tied_def)
  then show ?thesis by (simp add: search_nearest_def i s)
qed

text \<open>Claim C7, as amended. For a rectangle whose diagonal is at most \<^verbatim>\<open>FLT_MAX\<close>: the
  retained candidates are the first 64 vertices, in the order in which they reach the
  counter, that project inside the rectangle (with a clip-space w other than 0 and z above
  0) and pass the front-face filter, each with its screen distance to the centre of the
  rectangle; the pick fails exactly when none is retained. The vertex returned is a
  retained candidate such that every candidate retained after it is tied with it (distances
  less than \<^verbatim>\<open>npEpsilon\<close> apart) and has no smaller facing value, or is not tied and is
  farther. It is at most (number of retained candidates - 1) times \<^verbatim>\<open>npEpsilon\<close> farther
  than the nearest candidate; it is the nearest one when no two retained distances are
  within \<^verbatim>\<open>npEpsilon\<close> of each other; and it has the smallest facing value of all when all
  retained distances are within \<^verbatim>\<open>npEpsilon\<close> of each other. \<^verbatim>\<open>npPickVertex\<close> and
  \<^verbatim>\<open>npSelectSingle\<close> return that vertex and the count.\<close>

theorem C7_nearest_pick:
  assumes diag: "length2 (sub2 rmax rmin) \<le> FLT_MAX"
  shows "(let lcampos = mul_p (invert (transform model)) campos;
              rcenter = scale2 (add2 rmin rmax) (1 / 2);
              insider = gather_inside rti sched model mvp rmin rmax lcampos frontface_only;
              result = npSelectNearestImpl rti sched model mvp rmin rmax campos frontface_only
          in insider = take 64
                 (map (\<lambda>vi. (vi, length2 (sub2 (the (screen_pos mvp (vertices model ! vi))) rcenter)))
                    (filter (\<lambda>vi. inside_rect mvp rmin rmax (vertices model ! vi) \<and>
                                  frontface_hit rti model lcampos frontface_only vi) sched))
           \<and> length insider \<le> 64
           \<and> (\<forall>c \<in> set insider.
                 fst c \<in> set sched
               \<and> inside_rect mvp rmin rmax (vertices model ! fst c)
               \<and> w4 (mul4 mvp (vertices model ! fst c)) \<noteq> 0
               \<and> z4 (mul4 mvp (vertices model ! fst c)) > 0
               \<and> frontface_hit rti model lcampos frontface_only (fst c)
               \<and> (\<exists>sp. screen_pos mvp (vertices model ! fst c) = Some sp
                        \<and> snd c = length2 (sub2 sp rcenter)))
           \<and> (result = None \<longleftrightarrow> insider = [])
           \<and> (\<forall>pick. result = Some pick \<longrightarrow>
                 (\<exists>d pre post. insider = pre @ (pick, d) # post
                    \<and> (\<forall>c \<in> set post.
                          if near_equal (snd c) d npEpsilon
                          then facing model lcampos pick \<le> facing model lcampos (fst c)
                          else d < snd c)
                    \<and> (\<forall>c \<in> set insider. d \<le> snd c + real (length insider - 1) * npEpsilon)
                    \<and> (pairwise_far insider \<longrightarrow> (\<forall>c \<in> set insider. d \<le> snd c))
                    \<and> (pairwise_tied insider \<longrightarrow>
                          (\<forall>c \<in> set insider.
                             facing model lcampos pick \<le> facing model lcampos (fst c)))))
           \<and> map_option fst (npPickVertex rti sched model mvp rmin rmax campos frontface_only)
               = result
           \<and> fst (npSelectSingle rti sched model mvp rmin rmax campos strength frontface_only)
               = (if result = None then 0 else 1))"
proof -
  define lcampos where "lcampos = mul_p (invert (transform model)) campos"
  define rcenter where "rcenter = scale2 (add2 rmin rmax) (1 / 2)"
  define insider where
    "insider = gather_inside rti sched model mvp rmin rmax lcampos frontface_only"
  define result where
    "result = npSelectNearestImpl rti sched model mvp rmin rmax campos frontface_only"
  let ?dist = "\<lambda>vi. length2 (sub2 (the (screen_pos mvp (vertices model ! vi))) rcenter)"
  let ?cand = "\<lambda>vi. inside_rect mvp rmin rmax (vertices model ! vi) \<and>
                     frontface_hit rti model lcampos frontface_only vi"
  have ic: "is_candidate rti model mvp rmin rmax lcampos frontface_only = ?cand"
    by (rule ext) (simp add: is_candidate_def)
  have g: "insider = take 64 (map (\<lambda>vi. (vi, ?dist vi)) (filter ?cand sched))"
    by (simp add: insider_def gather_inside_def ic max_inside_def rcenter_def Let_def)
  have len: "length insider \<le> 64" unfolding g by simp
  have mem: "fst c \<in> set sched \<and> inside_rect mvp rmin rmax (vertices model ! fst c)
             \<and> w4 (mul4 mvp (vertices model ! fst c)) \<noteq> 0
             \<and> z4 (mul4 mvp (vertices model ! fst c)) > 0
             \<and> frontface_hit rti model lcampos frontface_only (fst c)
             \<and> (\<exists>sp. screen_pos mvp (vertices model ! fst c) = Some sp
                      \<and> snd c = length2 (sub2 sp rcenter))"
    if "c \<in> set insider" for c
  proof -
    from that have "c \<in> set (map (\<lambda>vi. (vi, ?dist vi)) (filter ?cand sched))"
      unfolding g by (rule in_set_takeD)
    then obtain vi where "vi \<in> set sched" "?cand vi" "c = (vi, ?dist vi)" by auto
    then show ?thesis
      by (auto simp: inside_rect_def screen_pos_def Let_def split: option.splits if_splits)
  qed
  have bound: "snd c + npEpsilon \<le> FLT_MAX" if "c \<in> set insider" for c
  proof -
    from mem[OF that] obtain sp where
      "screen_pos mvp (vertices model ! fst c) = Some sp" "snd c = length2 (sub2 sp rcenter)"
      by blast
    then have "snd c \<le> length2 (sub2 rmax rmin) / 2"
      using mem[OF that] inside_rect_distance[of mvp rmin rmax "vertices model ! fst c"]
      by (simp add: rcenter_def)
    then have "snd c \<le> FLT_MAX / 2" using diag by linarith
    then show ?thesis using FLT_MAX_half by linarith
  qed
  have res: "result = (if insider = [] then None
                       else Some (fst (search_nearest model lcampos insider)))"
    by (simp add: result_def npSelectNearestImpl_def Let_def lcampos_def[symmetric]
        insider_def[symmetric])
  have none: "result = None \<longleftrightarrow> insider = []" by (simp add: res)
  have some: "\<exists>d pre post. insider = pre @ (pick, d) # post
                \<and> (\<forall>c \<in> set post.
                      if near_equal (snd c) d npEpsilon
                      then facing model lcampos pick \<le> facing model lcampos (fst c)
                      else d < snd c)
                \<and> (\<forall>c \<in> set insider. d \<le> snd c + real (length insider - 1) * npEpsilon)
                \<and> (pairwise_far insider \<longrightarrow> (\<forall>c \<in> set insider. d \<le> snd c))
                \<and> (pairwise_tied insider \<longrightarrow>
                      (\<forall>c \<in> set insider.
                         facing model lcampos pick \<le> facing model lcampos (fst c)))"
    if "result = Some pick" for pick
  proof -
    from that have ne: "insider \<noteq> []" and pk: "pick = fst (search_nearest model lcampos insider)"
      by (auto simp: res split: if_splits)
    have b: "\<forall>c \<in> set insider. snd c + npEpsilon \<le> FLT_MAX" using bound by blast
    from search_nearest_split[OF ne b, of model lcampos]
    obtain pre c post where sp: "insider = pre @ c # post"
      "search_nearest model lcampos insider = (fst c, snd c, facing model lcampos (fst c))"
      "\<forall>c' \<in> set post. kept model lcampos (fst c, snd c, facing model lcampos (fst c)) c'"
      by blast
    have fc: "fst c = pick" using sp(2) pk by simp
    then have c: "c = (pick, snd c)" by (cases c) simp
    have 0: "insider = pre @ (pick, snd c) # post" using sp(1) c by simp
    have 1: "\<forall>c' \<in> set post.
               if near_equal (snd c') (snd c) npEpsilon
               then facing model lcampos pick \<le> facing model lcampos (fst c')
               else snd c < snd c'"
      using sp(3) by (auto simp: kept_def fc split: if_splits)
    from search_nearest_ok[OF ne b, of model lcampos]
    have 2: "\<forall>c' \<in> set insider. snd c \<le> snd c' + real (length insider - 1) * npEpsilon"
      by (simp add: nearest_ok_def sp(2))
    have 3: "\<forall>c' \<in> set insider. snd c \<le> snd c'" if "pairwise_far insider"
      using search_nearest_exact[OF ne b that, of model lcampos] by (simp add: nearest_ok_def sp(2))
    have 4: "\<forall>c' \<in> set insider. facing model lcampos pick \<le> facing model lcampos (fst c')"
      if "pairwise_tied insider"
      using search_nearest_tied[OF ne b that, of model lcampos]
      by (simp add: facing_ok_def sp(2) fc)
    show ?thesis using 0 1 2 3 4 by blast
  qed
  have pv: "map_option fst (npPickVertex rti sched model mvp rmin rmax campos frontface_only)
            = result"
    by (simp add: npPickVertex_def result_def split: option.split)
  have ss: "fst (npSelectSingle rti sched model mvp rmin rmax campos strength frontface_only)
            = (if result = None then 0 else 1)"
    by (simp add: npSelectSingle_def result_def split: option.split)
  have memb: "\<forall>c \<in> set insider.
                 fst c \<in> set sched
               \<and> inside_rect mvp rmin rmax (vertices model ! fst c)
               \<and> w4 (mul4 mvp (vertices model ! fst c)) \<noteq> 0
               \<and> z4 (mul4 mvp (vertices model ! fst c)) > 0
               \<and> frontface_hit rti model lcampos frontface_only (fst c)
               \<and> (\<exists>sp. screen_pos mvp (vertices model ! fst c) = Some sp
                        \<and> snd c = length2 (sub2 sp rcenter))"
    using mem by blast
  have someb: "\<forall>pick. result = Some pick \<longrightarrow>
                 (\<exists>d pre post. insider = pre @ (pick, d) # post
                    \<and> (\<forall>c \<in> set post.
                          if near_equal (snd c) d npEpsilon
                          then facing model lcampos pick \<le> facing model lcampos (fst c)
                          else d < snd c)
                    \<and> (\<forall>c \<in> set insider. d \<le> snd c + real (length insider - 1) * npEpsilon)
                    \<and> (pairwise_far insider \<longrightarrow> (\<forall>c \<in> set insider. d \<le> snd c))
                    \<and> (pairwise_tied insider \<longrightarrow>
                          (\<forall>c \<in> set insider.
                             facing model lcampos pick \<le> facing model lcampos (fst c))))"
    using some by blast
  show ?thesis
    unfolding Let_def lcampos_def[symmetric] rcenter_def[symmetric] insider_def[symmetric]
      result_def[symmetric]
    using g len memb none someb pv ss by (intro conjI) assumption+
qed

lemma length2_axis: "length2 (Float2 a 0) = \<bar>a\<bar>" "length2 (Float2 0 b) = \<bar>b\<bar>"
  by simp_all

lemma tie_mesh_gather:
  "gather_inside example_rti [0, 1] tie_mesh identity44 (Float2 (- 1) (- 1)) (Float2 1 1)
     lc False = [(0, 1 / 2), (1, 8388609 / 16777216)]"
proof -
  have d0: "length2 (sub2 (the (screen_pos identity44 (Float3 (1 / 2) 0 1)))
              (scale2 (add2 (Float2 (- 1) (- 1)) (Float2 1 1)) (1 / 2))) = 1 / 2"
    unfolding screen_pos_def mul4_identity44 Let_def
    by (simp del: length2.simps add: length2_axis)
  have d1: "length2 (sub2 (the (screen_pos identity44 (Float3 (8388609 / 16777216) 0 1)))
              (scale2 (add2 (Float2 (- 1) (- 1)) (Float2 1 1)) (1 / 2))) = 8388609 / 16777216"
    unfolding screen_pos_def mul4_identity44 Let_def
    by (simp del: length2.simps add: length2_axis)
  have c0: "is_candidate example_rti tie_mesh identity44 (Float2 (- 1) (- 1)) (Float2 1 1) lc False 0"
    by (simp add: is_candidate_def inside_rect_def screen_pos_def mul4_identity44
        frontface_hit_def tie_mesh_def Let_def)
  have c1: "is_candidate example_rti tie_mesh identity44 (Float2 (- 1) (- 1)) (Float2 1 1) lc False 1"
    by (simp add: is_candidate_def inside_rect_def screen_pos_def mul4_identity44
        frontface_hit_def tie_mesh_def Let_def)
  have v: "vertices tie_mesh ! 0 = Float3 (1 / 2) 0 1"
      "vertices tie_mesh ! 1 = Float3 (8388609 / 16777216) 0 1"
    by (simp_all add: tie_mesh_def)
  have f: "filter (is_candidate example_rti tie_mesh identity44 (Float2 (- 1) (- 1)) (Float2 1 1)
              lc False) [0, 1] = [0, 1]"
    using c0 c1 by simp
  have m: "map (\<lambda>vi. (vi, length2 (sub2 (the (screen_pos identity44 (vertices tie_mesh ! vi)))
                 (scale2 (add2 (Float2 (- 1) (- 1)) (Float2 1 1)) (1 / 2))))) [0, 1]
           = [(0, 1 / 2), (1, 8388609 / 16777216)]"
    by (simp only: list.map v d0 d1)
  show ?thesis
    unfolding gather_inside_def Let_def f m by (simp add: max_inside_def)
qed

text \<open>Claim C7 as stated fails on a tie. Two candidates at the screen distances 1/2 and
  \<open>1/2 + 2\<^sup>-\<^sup>2\<^sup>4\<close> differ by less than \<^verbatim>\<open>npEpsilon\<close>; the second one faces the camera more
  and is returned although it is the farther one.\<close>

theorem C7_counterexample:
  "gather_inside example_rti [0, 1] tie_mesh identity44 (Float2 (- 1) (- 1)) (Float2 1 1)
     (mul_p (invert (transform tie_mesh)) (Float3 (8388609 / 16777216) 0 0)) False
     = [(0, 1 / 2), (1, 8388609 / 16777216)]
   \<and> (1 / 2 :: real) < 8388609 / 16777216
   \<and> npPickVertex example_rti [0, 1] tie_mesh identity44 (Float2 (- 1) (- 1)) (Float2 1 1)
        (Float3 (8388609 / 16777216) 0 0) False
      = Some (1, Float3 (8388609 / 16777216) 0 1)"
proof -
  have lc: "mul_p (invert (transform tie_mesh)) (Float3 (8388609 / 16777216) 0 0)
            = Float3 (8388609 / 16777216) 0 0"
    by (simp add: tie_mesh_def invert_identity44 mul_p_identity44)
  have s0: "nearest_step tie_mesh (Float3 (8388609 / 16777216) 0 0) (0, 1 / 2) (0, FLT_MAX, 1)
            = (0, 1 / 2, 0)"
    by (simp add: nearest_step_def near_equal_def FLT_MAX_def npEpsilon_def tie_mesh_def
        normalize3_def Let_def)
  have s1: "nearest_step tie_mesh (Float3 (8388609 / 16777216) 0 0) (1, 8388609 / 16777216)
              (0, 1 / 2, 0) = (1, 8388609 / 16777216, - 1)"
    by (simp add: nearest_step_def near_equal_def npEpsilon_def tie_mesh_def
        normalize3_def length3_def length_sq3_def Let_def)
  have pick: "npSelectNearestImpl example_rti [0, 1] tie_mesh identity44 (Float2 (- 1) (- 1))
                (Float2 1 1) (Float3 (8388609 / 16777216) 0 0) False = Some 1"
    unfolding npSelectNearestImpl_def Let_def lc tie_mesh_gather search_nearest_def
    by (simp add: s0 s1 del: One_nat_def)
  have "npPickVertex example_rti [0, 1] tie_mesh identity44 (Float2 (- 1) (- 1)) (Float2 1 1)
        (Float3 (8388609 / 16777216) 0 0) False = Some (1, Float3 (8388609 / 16777216) 0 1)"
    unfolding npPickVertex_def pick by (simp add: tie_mesh_def mul_p_identity44)
  then show ?thesis unfolding lc tie_mesh_gather by simp
qed

lemma pick_mesh_gather:
  "gather_inside example_rti [0, 1, 2] pick_mesh identity44 (Float2 (- 5) (- 5)) (Float2 5 5)
     lc False = [(0, 3), (1, 4), (2, 1)]"
proof -
  have rc: "scale2 (add2 (Float2 (- 5) (- 5)) (Float2 5 5)) (1 / 2) = Float2 0 0" by simp
  have d0: "length2 (sub2 (the (screen_pos identity44 (Float3 3 0 1))) (Float2 0 0)) = 3"
    unfolding screen_pos_def mul4_identity44 Let_def
    by (simp del: length2.simps add: length2_axis)
  have d1: "length2 (sub2 (the (screen_pos identity44 (Float3 0 4 1))) (Float2 0 0)) = 4"
    unfolding screen_pos_def mul4_identity44 Let_def
    by (simp del: length2.simps add: length2_axis)
  have d2: "length2 (sub2 (the (screen_pos identity44 (Float3 1 0 1))) (Float2 0 0)) = 1"
    unfolding screen_pos_def mul4_identity44 Let_def
    by (simp del: length2.simps add: length2_axis)
  have c: "is_candidate example_rti pick_mesh identity44 (Float2 (- 5) (- 5)) (Float2 5 5) lc False 0"
      "is_candidate example_rti pick_mesh identity44 (Float2 (- 5) (- 5)) (Float2 5 5) lc False 1"
      "is_candidate example_rti pick_mesh identity44 (Float2 (- 5) (- 5)) (Float2 5 5) lc False 2"
    by (simp_all add: is_candidate_def inside_rect_def screen_pos_def mul4_identity44
        frontface_hit_def pick_mesh_def Let_def)
  have v: "vertices pick_mesh ! 0 = Float3 3 0 1" "vertices pick_mesh ! 1 = Float3 0 4 1"
      "vertices pick_mesh ! 2 = Float3 1 0 1"
    by (simp_all add: pick_mesh_def)
  have f: "filter (is_candidate example_rti pick_mesh identity44 (Float2 (- 5) (- 5))
              (Float2 5 5) lc False) [0, 1, 2] = [0, 1, 2]"
    using c by simp
  have m: "map (\<lambda>vi. (vi, length2 (sub2 (the (screen_pos identity44 (vertices pick_mesh ! vi)))
                 (Float2 0 0)))) [0, 1, 2] = [(0, 3), (1, 4), (2, 1)]"
    by (simp only: list.map v d0 d1 d2)
  show ?thesis
    unfolding gather_inside_def Let_def f rc m by (simp add: max_inside_def)
qed

lemma tie_mesh_facing:
  "facing tie_mesh (Float3 (8388609 / 16777216) 0 0) 0 = 0"
  "facing tie_mesh (Float3 (8388609 / 16777216) 0 0) 1 = - 1"
  by (simp_all add: facing_def tie_mesh_def normalize3_def length3_def length_sq3_def)

text \<open>Claim C7 (amended) on two inputs. Three candidates at the screen distances 3, 4 and
  1, no two of them tied: the last one is returned. Two candidates at the tied distances 1/2
  and \<open>1/2 + 2\<^sup>-\<^sup>2\<^sup>4\<close>: the one of the smaller facing value is returned.\<close>

theorem C7_witness:
  "length2 (sub2 (Float2 5 5) (Float2 (- 5) (- 5))) \<le> FLT_MAX
   \<and> gather_inside example_rti [0, 1, 2] pick_mesh identity44 (Float2 (- 5) (- 5)) (Float2 5 5)
        (mul_p (invert (transform pick_mesh)) (Float3 0 0 0)) False = [(0, 3), (1, 4), (2, 1)]
   \<and> pairwise_far [(0, 3), (1, 4), (2, 1)]
   \<and> npSelectNearestImpl example_rti [0, 1, 2] pick_mesh identity44 (Float2 (- 5) (- 5))
        (Float2 5 5) (Float3 0 0 0) False = Some 2
   \<and> length2 (sub2 (Float2 1 1) (Float2 (- 1) (- 1))) \<le> FLT_MAX
   \<and> gather_inside example_rti [0, 1] tie_mesh identity44 (Float2 (- 1) (- 1)) (Float2 1 1)
        (mul_p (invert (transform tie_mesh)) (Float3 (8388609 / 16777216) 0 0)) False
       = [(0, 1 / 2), (1, 8388609 / 16777216)]
   \<and> pairwise_tied [(0, 1 / 2), (1, 8388609 / 16777216)]
   \<and> facing tie_mesh (Float3 (8388609 / 16777216) 0 0) 1
       < facing tie_mesh (Float3 (8388609 / 16777216) 0 0) 0
   \<and> npSelectNearestImpl example_rti [0, 1] tie_mesh identity44 (Float2 (- 1) (- 1))
        (Float2 1 1) (Float3 (8388609 / 16777216) 0 0) False = Some 1"
proof -
  have h: "length2 (sub2 (Float2 5 5) (Float2 (- 5) (- 5))) \<le> FLT_MAX"
  proof -
    have "sqrt 200 \<le> FLT_MAX"
      by (rule real_le_lsqrt) (simp_all add: FLT_MAX_def)
    then show ?thesis by simp
  qed
  have pf: "pairwise_far [(0, 3), (1, 4), (2, 1)]"
    by (simp add: npEpsilon_def)
  note g = pick_mesh_gather[of "mul_p (invert (transform pick_mesh)) (Float3 0 0 0)"]
  note c7 = C7_nearest_pick[OF h, of pick_mesh "Float3 0 0 0" example_rti "[0, 1, 2]" identity44
      False, unfolded Let_def g]
  from c7 have ne: "npSelectNearestImpl example_rti [0, 1, 2] pick_mesh identity44
      (Float2 (- 5) (- 5)) (Float2 5 5) (Float3 0 0 0) False \<noteq> None"
    by simp
  then obtain pick where p: "npSelectNearestImpl example_rti [0, 1, 2] pick_mesh identity44
      (Float2 (- 5) (- 5)) (Float2 5 5) (Float3 0 0 0) False = Some pick"
    by blast
  from c7 p pf obtain d pre post where d: "[(0, 3), (1, 4), (2, 1 :: real)] = pre @ (pick, d) # post"
      "\<forall>c \<in> set [(0 :: nat, 3), (1, 4), (2, 1 :: real)]. d \<le> snd c"
    by blast
  have "(pick, d) \<in> set (pre @ (pick, d) # post)" by simp
  then have m: "(pick, d) \<in> set [(0, 3), (1, 4), (2, 1 :: real)]" unfolding d(1)[symmetric] .
  from d(2) have "d \<le> 1" by simp
  with m have "pick = 2" by auto
  with p have r1: "npSelectNearestImpl example_rti [0, 1, 2] pick_mesh identity44
      (Float2 (- 5) (- 5)) (Float2 5 5) (Float3 0 0 0) False = Some 2"
    by simp
  have h2: "length2 (sub2 (Float2 1 1) (Float2 (- 1) (- 1))) \<le> FLT_MAX"
  proof -
    have "sqrt 8 \<le> FLT_MAX"
      by (rule real_le_lsqrt) (simp_all add: FLT_MAX_def)
    then show ?thesis by simp
  qed
  have pt: "pairwise_tied [(0, 1 / 2), (1, 8388609 / 16777216)]"
    by (simp add: pairwise_tied_def npEpsilon_def)
  have lc: "mul_p (invert (transform tie_mesh)) (Float3 (8388609 / 16777216) 0 0)
            = Float3 (8388609 / 16777216) 0 0"
    by (simp add: tie_mesh_def invert_identity44 mul_p_identity44)
  note g2 = tie_mesh_gather[of "Float3 (8388609 / 16777216) 0 0"]
  note t7 = C7_nearest_pick[OF h2, of tie_mesh "Float3 (8388609 / 16777216) 0 0" example_rti
      "[0, 1]" identity44 False, unfolded Let_def lc g2]
  from t7 have "npSelectNearestImpl example_rti [0, 1] tie_mesh identity44
      (Float2 (- 1) (- 1)) (Float2 1 1) (Float3 (8388609 / 16777216) 0 0) False \<noteq> None"
    by simp
  then obtain q where q: "npSelectNearestImpl example_rti [0, 1] tie_mesh identity44
      (Float2 (- 1) (- 1)) (Float2 1 1) (Float3 (8388609 / 16777216) 0 0) False = Some q"
    by blast
  note t7_pick = t7[THEN conjunct2, THEN conjunct2, THEN conjunct2, THEN conjunct2,
      THEN conjunct1, rule_format, OF q]
  then obtain e pre2 post2 where
    e1: "[(0, 1 / 2), (1, 8388609 / 16777216 :: real)] = pre2 @ (q, e) # post2"
    and e2: "pairwise_tied [(0, 1 / 2), (1, 8388609 / 16777216)] \<longrightarrow>
       (\<forall>c \<in> set [(0 :: nat, 1 / 2), (1, 8388609 / 16777216 :: real)].
         facing tie_mesh (Float3 (8388609 / 16777216) 0 0) q
         \<le> facing tie_mesh (Float3 (8388609 / 16777216) 0 0) (fst c))"
    by (elim exE conjE)
  note e = e1 e2[rule_format, OF pt]
  have "(q, e) \<in> set (pre2 @ (q, e) # post2)" by simp
  then have m2: "(q, e) \<in> set [(0, 1 / 2), (1, 8388609 / 16777216 :: real)]"
    unfolding e(1)[symmetric] .
  have "(1, 8388609 / 16777216) \<in> set [(0 :: nat, 1 / 2), (1, 8388609 / 16777216 :: real)]"
    by simp
  from e(2)[OF this] have "facing tie_mesh (Float3 (8388609 / 16777216) 0 0) q \<le> - 1"
    by (simp only: fst_conv tie_mesh_facing)
  with m2 have "q = 1" by (auto simp: tie_mesh_facing)
  with q have r2: "npSelectNearestImpl example_rti [0, 1] tie_mesh identity44
      (Float2 (- 1) (- 1)) (Float2 1 1) (Float3 (8388609 / 16777216) 0 0) False = Some 1"
    by simp
  have fl: "facing tie_mesh (Float3 (8388609 / 16777216) 0 0) 1
            < facing tie_mesh (Float3 (8388609 / 16777216) 0 0) 0"
    by (simp add: tie_mesh_facing del: One_nat_def)
  note g2' = tie_mesh_gather[of "mul_p (invert (transform tie_mesh))
                                   (Float3 (8388609 / 16777216) 0 0)"]
  show ?thesis
    using h g pf r1 h2 g2' pt fl r2 by (intro conjI) assumption+
qed

subsection \<open>Weld\<close>

lemma length3_sub3_commute: "length3 (sub3 a b) = length3 (sub3 b a)"
  by (cases a; cases b) (simp add: length3_def length_sq3_def algebra_simps)

lemma within_epsilon_commute: "within_epsilon model i j = within_epsilon model j i"
  by (simp add: within_epsilon_def length3_sub3_commute)

lemma weld_inner_shared:
  assumes "i \<in> set (fst (snd (fold (weld_inner ab model nrm smoothing wa vi p) xs st)))"
  shows "i \<in> set (fst (snd st))
         \<or> (i \<in> set xs \<and> i \<noteq> vi \<and> length3 (sub3 (vertices model ! i) p) < npEpsilon)"
  using assms
proof (induction xs arbitrary: st)
  case Nil
  then show ?case by simp
next
  case (Cons x xs)
  from Cons.IH[of "weld_inner ab model nrm smoothing wa vi p x st"] Cons.prems
  have "i \<in> set (fst (snd (weld_inner ab model nrm smoothing wa vi p x st)))
        \<or> (i \<in> set xs \<and> i \<noteq> vi \<and> length3 (sub3 (vertices model ! i) p) < npEpsilon)"
    by simp
  then show ?case
    by (auto simp: weld_inner_def Let_def split: if_splits)
qed

lemma fold_assign_nth:
  assumes "i < length ns"
  shows "fold (\<lambda>si ns. ns[si := n]) shared ns ! i = (if i \<in> set shared then n else ns ! i)"
  using assms
proof (induction shared arbitrary: ns)
  case Nil
  then show ?case by simp
next
  case (Cons s shared)
  then show ?case by (cases "s = i") (simp_all add: nth_list_update)
qed

lemma fold_assign_length: "length (fold (\<lambda>si ns. ns[si := n]) shared ns) = length ns"
  by (induction shared arbitrary: ns) simp_all

text \<open>One outer iteration writes one value to the seed and to the vertices it gathered, and
  every gathered vertex is less than epsilon away from the seed.\<close>

lemma weld_outer_effect:
  assumes "vi < length (fst (snd st))" "vi < num_vertices model"
  shows "\<exists>S n. length (fst (snd (weld_outer ab model smoothing wa use_mask vi st)))
               = length (fst (snd st))
           \<and> (\<forall>i < length (fst (snd st)).
                 fst (snd (weld_outer ab model smoothing wa use_mask vi st)) ! i
                 = (if i \<in> S then n else fst (snd st) ! i))
           \<and> (S = {} \<or> vi \<in> S)
           \<and> (\<forall>i \<in> S. i \<noteq> vi \<longrightarrow> i < num_vertices model \<and> within_epsilon model i vi)
           \<and> (S \<noteq> {} \<longrightarrow> (\<exists>j \<in> S. j \<noteq> vi))"
proof -
  obtain ret nrm checked where st: "st = (ret, nrm, checked)" by (cases st) auto
  let ?s = "if use_mask then selection model ! vi else 1"
  let ?r = "fold (weld_inner ab model nrm smoothing wa vi (vertices model ! vi))
              [0..<num_vertices model] (nrm ! vi, [], checked)"
  let ?shared = "fst (snd ?r)"
  let ?n = "normalize3 (fst ?r)"
  have sh: "i \<noteq> vi \<and> i < num_vertices model \<and> within_epsilon model i vi" if "i \<in> set ?shared" for i
    using weld_inner_shared[OF that] by (auto simp: within_epsilon_def)
  show ?thesis
  proof (cases "checked ! vi \<or> ?s = 0 \<or> ?shared = []")
    case True
    then have "fst (snd (weld_outer ab model smoothing wa use_mask vi st)) = nrm"
      by (auto simp: weld_outer_def st Let_def)
    then show ?thesis
      by (intro exI[of _ "{}"] exI[of _ undefined]) (simp add: st)
  next
    case False
    then have w: "fst (snd (weld_outer ab model smoothing wa use_mask vi st))
                  = fold (\<lambda>si ns. ns[si := ?n]) ?shared (nrm[vi := ?n])"
      by (simp add: weld_outer_def st Let_def)
    have nth: "fold (\<lambda>si ns. ns[si := ?n]) ?shared (nrm[vi := ?n]) ! i
               = (if i \<in> insert vi (set ?shared) then ?n else nrm ! i)" if "i < length nrm" for i
      using that by (simp add: fold_assign_nth nth_list_update)
    from False obtain j where j: "j \<in> set ?shared" by (cases ?shared) auto
    show ?thesis
      unfolding w
      apply (intro exI[of _ "insert vi (set ?shared)"] exI[of _ ?n])
      using nth sh j by (auto simp: st fold_assign_length)
  qed
qed

text \<open>A property of the normal buffer that every outer iteration of \<^verbatim>\<open>npWeld\<close> preserves
  holds of the buffer it returns.\<close>

lemma fold_weld_outer_invariant:
  assumes step: "\<And>vi st. vi < num_vertices model \<Longrightarrow> length (fst (snd st)) = num_vertices model
                  \<Longrightarrow> I (fst (snd st))
                  \<Longrightarrow> I (fst (snd (weld_outer ab model smoothing wa use_mask vi st)))"
    and "\<forall>x \<in> set xs. x < num_vertices model"
    and "length (fst (snd st)) = num_vertices model" "I (fst (snd st))"
  shows "I (fst (snd (fold (weld_outer ab model smoothing wa use_mask) xs st)))
         \<and> length (fst (snd (fold (weld_outer ab model smoothing wa use_mask) xs st)))
             = num_vertices model"
  using assms(2-)
proof (induction xs arbitrary: st)
  case Nil
  then show ?case by simp
next
  case (Cons x xs)
  have x: "x < num_vertices model" using Cons.prems(1) by simp
  have len: "length (fst (snd (weld_outer ab model smoothing wa use_mask x st))) = num_vertices model"
    using weld_outer_effect[of x st model ab smoothing wa use_mask] x Cons.prems(2) by auto
  have inv: "I (fst (snd (weld_outer ab model smoothing wa use_mask x st)))"
    by (rule step[OF x Cons.prems(2) Cons.prems(3)])
  from Cons.IH[OF _ len inv] Cons.prems(1)
  show ?case by simp
qed

lemma weld_outer_pair:
  assumes vi: "vi < num_vertices model" and len: "length (fst (snd st)) = num_vertices model"
    and a: "a < num_vertices model" and b: "b < num_vertices model"
    and iso: "\<forall>k < num_vertices model. k \<noteq> a \<and> k \<noteq> b \<longrightarrow>
                \<not> within_epsilon model k a \<and> \<not> within_epsilon model k b"
    and eq: "fst (snd st) ! a = fst (snd st) ! b"
  shows "fst (snd (weld_outer ab model smoothing wa use_mask vi st)) ! a
         = fst (snd (weld_outer ab model smoothing wa use_mask vi st)) ! b"
proof -
  from weld_outer_effect[of vi st model ab smoothing wa use_mask] vi len
  obtain S n where
    nth: "\<And>i. i < num_vertices model \<Longrightarrow>
            fst (snd (weld_outer ab model smoothing wa use_mask vi st)) ! i
            = (if i \<in> S then n else fst (snd st) ! i)"
    and seed: "S = {} \<or> vi \<in> S"
    and near: "\<And>i. i \<in> S \<Longrightarrow> i \<noteq> vi \<Longrightarrow> i < num_vertices model \<and> within_epsilon model i vi"
    and other: "S \<noteq> {} \<Longrightarrow> \<exists>j \<in> S. j \<noteq> vi"
    by auto
  have "a \<in> S \<longleftrightarrow> b \<in> S"
  proof (cases "a = b")
    case True
    then show ?thesis by simp
  next
    case ab: False
    consider (sa) "vi = a" | (sb) "vi = b" | (so) "vi \<noteq> a" "vi \<noteq> b" by blast
    then show ?thesis
    proof cases
      case sa
      show ?thesis
      proof (cases "S = {}")
        case True
        then show ?thesis by simp
      next
        case False
        then obtain j where j: "j \<in> S" "j \<noteq> a" using other sa by blast
        then have "j < num_vertices model" "within_epsilon model j a" using near sa by auto
        then have "j = b" using iso j(2) by blast
        then show ?thesis using j(1) seed False sa by auto
      qed
    next
      case sb
      show ?thesis
      proof (cases "S = {}")
        case True
        then show ?thesis by simp
      next
        case False
        then obtain j where j: "j \<in> S" "j \<noteq> b" using other sb by blast
        then have "j < num_vertices model" "within_epsilon model j b" using near sb by auto
        then have "j = a" using iso j(2) by blast
        then show ?thesis using j(1) seed False sb by auto
      qed
    next
      case so
      have "a \<notin> S"
      proof
        assume "a \<in> S"
        then have "within_epsilon model a vi" using near so(1) by blast
        then have "within_epsilon model vi a" by (simp add: within_epsilon_commute)
        then show False using iso vi so by blast
      qed
      moreover have "b \<notin> S"
      proof
        assume "b \<in> S"
        then have "within_epsilon model b vi" using near so(2) by blast
        then have "within_epsilon model vi b" by (simp add: within_epsilon_commute)
        then show False using iso vi so by blast
      qed
      ultimately show ?thesis by simp
    qed
  qed
  then show ?thesis using nth[OF a] nth[OF b] eq by auto
qed

lemma weld_outer_changed:
  assumes vi: "vi < num_vertices model" and len: "length (fst (snd st)) = num_vertices model"
    and inv: "\<forall>i < num_vertices model. fst (snd st) ! i \<noteq> nrm0 ! i \<longrightarrow>
                (\<exists>j < num_vertices model. j \<noteq> i \<and> within_epsilon model i j)"
  shows "\<forall>i < num_vertices model.
           fst (snd (weld_outer ab model smoothing wa use_mask vi st)) ! i \<noteq> nrm0 ! i \<longrightarrow>
             (\<exists>j < num_vertices model. j \<noteq> i \<and> within_epsilon model i j)"
proof (intro allI impI)
  fix i assume i: "i < num_vertices model"
    and ch: "fst (snd (weld_outer ab model smoothing wa use_mask vi st)) ! i \<noteq> nrm0 ! i"
  from weld_outer_effect[of vi st model ab smoothing wa use_mask] vi len
  obtain S n where
    nth: "\<And>i. i < num_vertices model \<Longrightarrow>
            fst (snd (weld_outer ab model smoothing wa use_mask vi st)) ! i
            = (if i \<in> S then n else fst (snd st) ! i)"
    and near: "\<And>i. i \<in> S \<Longrightarrow> i \<noteq> vi \<Longrightarrow> i < num_vertices model \<and> within_epsilon model i vi"
    and other: "S \<noteq> {} \<Longrightarrow> \<exists>j \<in> S. j \<noteq> vi"
    by auto
  show "\<exists>j < num_vertices model. j \<noteq> i \<and> within_epsilon model i j"
  proof (cases "i \<in> S")
    case False
    then have "fst (snd st) ! i \<noteq> nrm0 ! i" using ch nth[OF i] by simp
    then show ?thesis using inv i by blast
  next
    case True
    show ?thesis
    proof (cases "i = vi")
      case False
      then have "within_epsilon model i vi" using near True by blast
      then show ?thesis using vi False by blast
    next
      case iv: True
      from other True obtain j where j: "j \<in> S" "j \<noteq> vi" by blast
      then have "j < num_vertices model" "within_epsilon model vi j"
        using near by (auto simp: within_epsilon_commute)
      then show ?thesis using j(2) iv by blast
    qed
  qed
qed

lemma length3_axis: "length3 (Float3 a 0 0) = \<bar>a\<bar>" "length3 (Float3 0 a 0) = \<bar>a\<bar>"
  by (simp_all add: length3_def length_sq3_def)

lemma replicate_False_4: "replicate 4 False = [False, False, False, False]"
  by code_simp

lemma replicate_False_3: "replicate 3 False = [False, False, False]"
  by code_simp

text \<open>\<^verbatim>\<open>npWeld\<close> run on the two example meshes.\<close>

lemma weld_mesh_result:
  "npWeld example_angle_between weld_mesh False 120 False
   = (1, [Float3 0 1 0, Float3 0 1 0, Float3 0 1 0, Float3 1 0 0])"
  by (simp add: npWeld_def weld_outer_def weld_inner_def weld_mesh_def upt_0_4
        replicate_False_4 Let_def length3_axis npEpsilon_def normalize3_def Rad2Deg_def
        example_angle_between_def)

lemma weld_pair_mesh_result:
  "npWeld example_angle_between weld_pair_mesh True 120 False
   = (1, [Float3 0 1 0, Float3 0 1 0, Float3 1 0 0])"
  by (simp add: npWeld_def weld_outer_def weld_inner_def weld_pair_mesh_def upt_0_3
        replicate_False_3 Let_def length3_axis npEpsilon_def normalize3_def Rad2Deg_def
        example_angle_between_def)

text \<open>The triangle inequality for the distance of two vertices.\<close>

lemma sqrt3_triangle:
  fixes a b c d e f :: real
  shows "sqrt ((a + d)\<^sup>2 + (b + e)\<^sup>2 + (c + f)\<^sup>2)
         \<le> sqrt (a\<^sup>2 + b\<^sup>2 + c\<^sup>2) + sqrt (d\<^sup>2 + e\<^sup>2 + f\<^sup>2)"
proof -
  let ?p = "sqrt (a\<^sup>2 + b\<^sup>2)" and ?q = "sqrt (d\<^sup>2 + e\<^sup>2)"
  have pq: "sqrt ((a + d)\<^sup>2 + (b + e)\<^sup>2) \<le> ?p + ?q"
    by (rule real_sqrt_sum_squares_triangle_ineq)
  have "(a + d)\<^sup>2 + (b + e)\<^sup>2 = (sqrt ((a + d)\<^sup>2 + (b + e)\<^sup>2))\<^sup>2"
    by simp
  also have "\<dots> \<le> (?p + ?q)\<^sup>2"
    using pq by (intro power_mono) simp_all
  finally have "sqrt ((a + d)\<^sup>2 + (b + e)\<^sup>2 + (c + f)\<^sup>2)
                \<le> sqrt ((?p + ?q)\<^sup>2 + (c + f)\<^sup>2)"
    by simp
  also have "\<dots> \<le> sqrt (?p\<^sup>2 + c\<^sup>2) + sqrt (?q\<^sup>2 + f\<^sup>2)"
    by (rule real_sqrt_sum_squares_triangle_ineq)
  also have "\<dots> = sqrt (a\<^sup>2 + b\<^sup>2 + c\<^sup>2) + sqrt (d\<^sup>2 + e\<^sup>2 + f\<^sup>2)"
    by simp
  finally show ?thesis .
qed

lemma length3_triangle: "length3 (sub3 a c) \<le> length3 (sub3 a b) + length3 (sub3 b c)"
proof (cases a; cases b; cases c)
  fix a1 a2 a3 b1 b2 b3 c1 c2 c3
  assume [simp]: "a = Float3 a1 a2 a3" "b = Float3 b1 b2 b3" "c = Float3 c1 c2 c3"
  show ?thesis
    using sqrt3_triangle[of "a1 - b1" "b1 - c1" "a2 - b2" "b2 - c2" "a3 - b3" "b3 - c3"]
    by (simp add: length3_def length_sq3_def power2_eq_square)
qed

lemma within_epsilon_twice:
  assumes "within_epsilon model i k" "within_epsilon model j k"
  shows "length3 (sub3 (vertices model ! i) (vertices model ! j)) < 2 * npEpsilon"
proof -
  have "length3 (sub3 (vertices model ! i) (vertices model ! j))
        \<le> length3 (sub3 (vertices model ! i) (vertices model ! k))
          + length3 (sub3 (vertices model ! k) (vertices model ! j))"
    by (rule length3_triangle)
  also have "\<dots> < npEpsilon + npEpsilon"
    using assms by (simp add: within_epsilon_def length3_sub3_commute[of "vertices model ! k"])
  finally show ?thesis by simp
qed

lemma within_epsilon_self: "within_epsilon model i i"
  by (simp add: within_epsilon_def length3_def length_sq3_self npEpsilon_pos)

text \<open>Claim C4, as amended. Grouping is first-found and centred on the seed of each outer
  iteration. On a mesh whose normal buffer has \<^verbatim>\<open>num_vertices\<close> entries, for every angle
  threshold, smoothing flag and mask flag: (1) two vertices with identical normals that have
  no third vertex within epsilon of either of them end up with equal normals; (2) a normal
  that \<^verbatim>\<open>npWeld\<close> changes belongs to a vertex with another vertex within epsilon of it;
  (3) in one outer iteration every vertex whose normal is written is the seed or lies within
  epsilon of the seed, receives the normal the seed receives, and is less than twice epsilon
  from every other vertex written in that iteration.\<close>

theorem C4_weld:
  assumes "normals model = Some nrm" "length nrm = num_vertices model"
  shows "(\<forall>a < num_vertices model. \<forall>b < num_vertices model.
            nrm ! a = nrm ! b \<and>
            (\<forall>k < num_vertices model. k \<noteq> a \<and> k \<noteq> b \<longrightarrow>
               \<not> within_epsilon model k a \<and> \<not> within_epsilon model k b) \<longrightarrow>
            snd (npWeld angle_between model smoothing weld_angle use_mask) ! a
            = snd (npWeld angle_between model smoothing weld_angle use_mask) ! b)
       \<and> (\<forall>i < num_vertices model.
            snd (npWeld angle_between model smoothing weld_angle use_mask) ! i \<noteq> nrm ! i \<longrightarrow>
            (\<exists>j < num_vertices model. j \<noteq> i \<and> within_epsilon model i j))
       \<and> (\<forall>vi < num_vertices model. \<forall>st. length (fst (snd st)) = num_vertices model \<longrightarrow>
            (\<forall>i < num_vertices model.
               fst (snd (weld_outer angle_between model smoothing weld_angle use_mask vi st)) ! i
               \<noteq> fst (snd st) ! i \<longrightarrow>
               (i = vi \<or> within_epsilon model i vi) \<and>
               fst (snd (weld_outer angle_between model smoothing weld_angle use_mask vi st)) ! i
               = fst (snd (weld_outer angle_between model smoothing weld_angle use_mask vi st)) ! vi \<and>
               (\<forall>j < num_vertices model.
                  fst (snd (weld_outer angle_between model smoothing weld_angle use_mask vi st)) ! j
                  \<noteq> fst (snd st) ! j \<longrightarrow>
                  length3 (sub3 (vertices model ! i) (vertices model ! j)) < 2 * npEpsilon)))"
proof (intro conjI)
  show "\<forall>a < num_vertices model. \<forall>b < num_vertices model.
            nrm ! a = nrm ! b \<and>
            (\<forall>k < num_vertices model. k \<noteq> a \<and> k \<noteq> b \<longrightarrow>
               \<not> within_epsilon model k a \<and> \<not> within_epsilon model k b) \<longrightarrow>
            snd (npWeld angle_between model smoothing weld_angle use_mask) ! a
            = snd (npWeld angle_between model smoothing weld_angle use_mask) ! b"
  proof (intro allI impI)
    fix a b
    assume a: "a < num_vertices model" and b: "b < num_vertices model"
      and h: "nrm ! a = nrm ! b \<and>
              (\<forall>k < num_vertices model. k \<noteq> a \<and> k \<noteq> b \<longrightarrow>
                 \<not> within_epsilon model k a \<and> \<not> within_epsilon model k b)"
    let ?st = "(0::int, the (normals model), replicate (num_vertices model) False)"
    have "(\<lambda>ns. ns ! a = ns ! b)
            (fst (snd (fold (weld_outer angle_between model smoothing weld_angle use_mask)
                         [0..<num_vertices model] ?st)))
          \<and> length (fst (snd (fold (weld_outer angle_between model smoothing weld_angle use_mask)
                         [0..<num_vertices model] ?st))) = num_vertices model"
    proof (rule fold_weld_outer_invariant)
      fix vi and st :: "int \<times> float3 list \<times> bool list"
      assume "vi < num_vertices model" "length (fst (snd st)) = num_vertices model"
        "fst (snd st) ! a = fst (snd st) ! b"
      then show "fst (snd (weld_outer angle_between model smoothing weld_angle use_mask vi st)) ! a
                 = fst (snd (weld_outer angle_between model smoothing weld_angle use_mask vi st)) ! b"
        using weld_outer_pair[of vi model st a b angle_between smoothing weld_angle use_mask] a b h
        by blast
    qed (use assms h in simp_all)
    then show "snd (npWeld angle_between model smoothing weld_angle use_mask) ! a
               = snd (npWeld angle_between model smoothing weld_angle use_mask) ! b"
      by (simp add: npWeld_def Let_def)
  qed
next
  show "\<forall>i < num_vertices model.
            snd (npWeld angle_between model smoothing weld_angle use_mask) ! i \<noteq> nrm ! i \<longrightarrow>
            (\<exists>j < num_vertices model. j \<noteq> i \<and> within_epsilon model i j)"
  proof (intro allI impI)
    fix i
    assume i: "i < num_vertices model"
      and ch: "snd (npWeld angle_between model smoothing weld_angle use_mask) ! i \<noteq> nrm ! i"
    let ?st = "(0::int, the (normals model), replicate (num_vertices model) False)"
    have "(\<lambda>ns. \<forall>i < num_vertices model. ns ! i \<noteq> nrm ! i \<longrightarrow>
                  (\<exists>j < num_vertices model. j \<noteq> i \<and> within_epsilon model i j))
            (fst (snd (fold (weld_outer angle_between model smoothing weld_angle use_mask)
                         [0..<num_vertices model] ?st)))
          \<and> length (fst (snd (fold (weld_outer angle_between model smoothing weld_angle use_mask)
                         [0..<num_vertices model] ?st))) = num_vertices model"
    proof (rule fold_weld_outer_invariant)
      fix vi and st :: "int \<times> float3 list \<times> bool list"
      assume "vi < num_vertices model" "length (fst (snd st)) = num_vertices model"
        "\<forall>i < num_vertices model. fst (snd st) ! i \<noteq> nrm ! i \<longrightarrow>
           (\<exists>j < num_vertices model. j \<noteq> i \<and> within_epsilon model i j)"
      then show "\<forall>i < num_vertices model.
          fst (snd (weld_outer angle_between model smoothing weld_angle use_mask vi st)) ! i \<noteq> nrm ! i \<longrightarrow>
          (\<exists>j < num_vertices model. j \<noteq> i \<and> within_epsilon model i j)"
        by (rule weld_outer_changed)
    qed (use assms in simp_all)
    then show "\<exists>j < num_vertices model. j \<noteq> i \<and> within_epsilon model i j"
      using i ch by (simp add: npWeld_def Let_def)
  qed
next
  show "\<forall>vi < num_vertices model. \<forall>st. length (fst (snd st)) = num_vertices model \<longrightarrow>
            (\<forall>i < num_vertices model.
               fst (snd (weld_outer angle_between model smoothing weld_angle use_mask vi st)) ! i
               \<noteq> fst (snd st) ! i \<longrightarrow>
               (i = vi \<or> within_epsilon model i vi) \<and>
               fst (snd (weld_outer angle_between model smoothing weld_angle use_mask vi st)) ! i
               = fst (snd (weld_outer angle_between model smoothing weld_angle use_mask vi st)) ! vi \<and>
               (\<forall>j < num_vertices model.
                  fst (snd (weld_outer angle_between model smoothing weld_angle use_mask vi st)) ! j
                  \<noteq> fst (snd st) ! j \<longrightarrow>
                  length3 (sub3 (vertices model ! i) (vertices model ! j)) < 2 * npEpsilon))"
  proof (intro allI impI)
    fix vi st i
    assume vi: "vi < num_vertices model" and len: "length (fst (snd st)) = num_vertices model"
      and i: "i < num_vertices model"
      and ch: "fst (snd (weld_outer angle_between model smoothing weld_angle use_mask vi st)) ! i
               \<noteq> fst (snd st) ! i"
    from weld_outer_effect[of vi st model angle_between smoothing weld_angle use_mask] vi len
    obtain S n where
      nth: "\<And>i. i < num_vertices model \<Longrightarrow>
              fst (snd (weld_outer angle_between model smoothing weld_angle use_mask vi st)) ! i
              = (if i \<in> S then n else fst (snd st) ! i)"
      and seed: "S = {} \<or> vi \<in> S"
      and near: "\<And>i. i \<in> S \<Longrightarrow> i \<noteq> vi \<Longrightarrow> i < num_vertices model \<and> within_epsilon model i vi"
      by auto
    have iS: "i \<in> S" using ch nth[OF i] by (auto split: if_splits)
    then have vS: "vi \<in> S" using seed by blast
    have two: "length3 (sub3 (vertices model ! i) (vertices model ! j)) < 2 * npEpsilon"
      if j: "j < num_vertices model"
        and chj: "fst (snd (weld_outer angle_between model smoothing weld_angle use_mask vi st)) ! j
                  \<noteq> fst (snd st) ! j" for j
    proof -
      have jS: "j \<in> S" using chj nth[OF j] by (auto split: if_splits)
      have "within_epsilon model i vi" "within_epsilon model j vi"
        using iS jS near within_epsilon_self[of model vi] by (cases "i = vi"; cases "j = vi"; simp)+
      then show ?thesis by (rule within_epsilon_twice)
    qed
    show "(i = vi \<or> within_epsilon model i vi) \<and>
          fst (snd (weld_outer angle_between model smoothing weld_angle use_mask vi st)) ! i
          = fst (snd (weld_outer angle_between model smoothing weld_angle use_mask vi st)) ! vi \<and>
          (\<forall>j < num_vertices model.
             fst (snd (weld_outer angle_between model smoothing weld_angle use_mask vi st)) ! j
             \<noteq> fst (snd st) ! j \<longrightarrow>
             length3 (sub3 (vertices model ! i) (vertices model ! j)) < 2 * npEpsilon)"
      using iS vS near nth[OF i] nth[OF vi] two by auto
  qed
  qed

text \<open>Claim C4 as stated fails on \<open>weld_mesh\<close> with a threshold of 120 degrees. Vertices 1 and
  3 are within epsilon of each other and have the same normal, but vertex 1 is absorbed by
  the seed 0 while vertex 3 is out of the seed's reach, so they end with different normals.
  Vertices 1 and 2 are more than epsilon apart and both receive the normal of the one group
  that is counted.\<close>

theorem C4_counterexample:
  "within_epsilon weld_mesh 1 3
   \<and> the (normals weld_mesh) ! 1 = the (normals weld_mesh) ! 3
   \<and> snd (npWeld example_angle_between weld_mesh False 120 False) ! 1
       \<noteq> snd (npWeld example_angle_between weld_mesh False 120 False) ! 3
   \<and> npEpsilon < length3 (sub3 (vertices weld_mesh ! 1) (vertices weld_mesh ! 2))
   \<and> snd (npWeld example_angle_between weld_mesh False 120 False) ! 1
       = snd (npWeld example_angle_between weld_mesh False 120 False) ! 2
   \<and> snd (npWeld example_angle_between weld_mesh False 120 False) ! 1
       \<noteq> the (normals weld_mesh) ! 1
   \<and> snd (npWeld example_angle_between weld_mesh False 120 False) ! 2
       \<noteq> the (normals weld_mesh) ! 2
   \<and> fst (npWeld example_angle_between weld_mesh False 120 False) = 1"
  unfolding weld_mesh_result
  by (simp add: weld_mesh_def within_epsilon_def length3_axis npEpsilon_def)

text \<open>Claim C4 (amended) on \<open>weld_pair_mesh\<close>, with smoothing: the coincident pair 0, 1 has
  no third vertex near it and ends with equal normals.\<close>

theorem C4_witness:
  "within_epsilon weld_pair_mesh 0 1
   \<and> the (normals weld_pair_mesh) ! 0 = the (normals weld_pair_mesh) ! 1
   \<and> snd (npWeld example_angle_between weld_pair_mesh True 120 False) ! 0
       = snd (npWeld example_angle_between weld_pair_mesh True 120 False) ! 1"
proof -
  have n: "normals weld_pair_mesh = Some [Float3 0 1 0, Float3 0 1 0, Float3 1 0 0]"
    by (simp add: weld_pair_mesh_def)
  have l: "length [Float3 0 1 0, Float3 0 1 0, Float3 1 0 0] = num_vertices weld_pair_mesh"
    by (simp add: weld_pair_mesh_def)
  have iso: "\<forall>k < num_vertices weld_pair_mesh. k \<noteq> 0 \<and> k \<noteq> 1 \<longrightarrow>
               \<not> within_epsilon weld_pair_mesh k 0 \<and> \<not> within_epsilon weld_pair_mesh k 1"
  proof (intro allI impI)
    fix k :: nat
    assume "k < num_vertices weld_pair_mesh" "k \<noteq> 0 \<and> k \<noteq> 1"
    then have "k = 2" by (simp add: weld_pair_mesh_def)
    then show "\<not> within_epsilon weld_pair_mesh k 0 \<and> \<not> within_epsilon weld_pair_mesh k 1"
      by (simp add: within_epsilon_def weld_pair_mesh_def length3_axis npEpsilon_def)
  qed
  have near: "within_epsilon weld_pair_mesh 0 1"
    by (simp add: within_epsilon_def weld_pair_mesh_def length3_axis npEpsilon_def)
  have nv: "0 < num_vertices weld_pair_mesh" "1 < num_vertices weld_pair_mesh"
    by (simp_all add: weld_pair_mesh_def)
  from C4_weld[OF n l, of example_angle_between True 120 False] nv iso
  have "snd (npWeld example_angle_between weld_pair_mesh True 120 False) ! 0
        = snd (npWeld example_angle_between weld_pair_mesh True 120 False) ! 1"
    by simp
  with near n show ?thesis by simp
qed

end
